theory Spec2Isabelle
  imports Main "HOL-Library.Word" "HOL-Library.Sublist" "HOL-Library.AList" "HOL-Library.State_Monad"
begin

unbundle bit_operations_syntax

section \<open>Strings, digests and encodings used by the controller\<close>

text \<open>
  Go strings are byte sequences; they are modelled as \<open>string\<close> (a list of 8-bit characters).
  \<open>strings.HasPrefix s p\<close> is \<open>prefix p s\<close>, \<open>strings.HasSuffix s p\<close> is \<open>suffix p s\<close> and
  \<open>strings.Contains s t\<close> is \<open>sublist t s\<close>.
\<close>

type_synonym byte = "8 word"
type_synonym w32 = "32 word"

definition bytes :: "string \<Rightarrow> byte list" where
  "bytes s = map (\<lambda>c. word_of_nat (of_char c)) s"

text \<open>\<open>strconv.Itoa\<close> on a non-negative index and \<open>strconv.FormatInt _ 10\<close> on an int64.\<close>

fun Itoa :: "nat \<Rightarrow> string" where
  "Itoa n = (if n < 10 then [char_of (48 + n)] else Itoa (n div 10) @ [char_of (48 + n mod 10)])"

declare Itoa.simps [simp del]

definition FormatInt :: "int \<Rightarrow> string" where
  "FormatInt i = (if i < 0 then CHR ''-'' # Itoa (nat (- i)) else Itoa (nat i))"

subsection \<open>crypto/sha256\<close>

text \<open>
  \<open>sha256.Sum256\<close> belongs to the Go standard library. It is written out here after
  FIPS 180-4 on 32-bit words, so that the derived names are concrete strings. The round
  constants (the fractional parts of the cube roots of the first 64 primes) and the initial
  hash value (of the square roots of the first 8) are given in decimal.
\<close>

definition rotr :: "nat \<Rightarrow> w32 \<Rightarrow> w32" where
  "rotr n x = (drop_bit n x) OR (push_bit (32 - n) x)"

definition Ch :: "w32 \<Rightarrow> w32 \<Rightarrow> w32 \<Rightarrow> w32" where
  "Ch x y z = (x AND y) XOR (NOT x AND z)"

definition Maj :: "w32 \<Rightarrow> w32 \<Rightarrow> w32 \<Rightarrow> w32" where
  "Maj x y z = (x AND y) XOR (x AND z) XOR (y AND z)"

definition bsig0 :: "w32 \<Rightarrow> w32" where
  "bsig0 x = rotr 2 x XOR rotr 13 x XOR rotr 22 x"

definition bsig1 :: "w32 \<Rightarrow> w32" where
  "bsig1 x = rotr 6 x XOR rotr 11 x XOR rotr 25 x"

definition ssig0 :: "w32 \<Rightarrow> w32" where
  "ssig0 x = rotr 7 x XOR rotr 18 x XOR drop_bit 3 x"

definition ssig1 :: "w32 \<Rightarrow> w32" where
  "ssig1 x = rotr 17 x XOR rotr 19 x XOR drop_bit 10 x"

definition K256 :: "w32 list" where
  "K256 = [
    1116352408, 1899447441, 3049323471, 3921009573, 961987163, 1508970993,
    2453635748, 2870763221, 3624381080, 310598401, 607225278, 1426881987,
    1925078388, 2162078206, 2614888103, 3248222580, 3835390401, 4022224774,
    264347078, 604807628, 770255983, 1249150122, 1555081692, 1996064986,
    2554220882, 2821834349, 2952996808, 3210313671, 3336571891, 3584528711,
    113926993, 338241895, 666307205, 773529912, 1294757372, 1396182291,
    1695183700, 1986661051, 2177026350, 2456956037, 2730485921, 2820302411,
    3259730800, 3345764771, 3516065817, 3600352804, 4094571909, 275423344,
    430227734, 506948616, 659060556, 883997877, 958139571, 1322822218,
    1537002063, 1747873779, 1955562222, 2024104815, 2227730452, 2361852424,
    2428436474, 2756734187, 3204031479, 3329325298]"

definition H256 :: "w32 list" where
  "H256 = [
    1779033703, 3144134277, 1013904242, 2773480762,
    1359893119, 2600822924, 528734635, 1541459225]"

text \<open>The message schedule is kept newest word first.\<close>

fun extend :: "nat \<Rightarrow> w32 list \<Rightarrow> w32 list" where
  "extend 0 ws = ws"
| "extend (Suc n) ws = extend n ((ssig1 (ws ! 1) + ws ! 6 + ssig0 (ws ! 14) + ws ! 15) # ws)"

fun be32 :: "byte list \<Rightarrow> w32 list" where
  "be32 (a # b # c # d # r) =
     (push_bit 24 (ucast a) OR push_bit 16 (ucast b) OR push_bit 8 (ucast c) OR ucast d) # be32 r"
| "be32 _ = []"

fun rounds :: "w32 list \<Rightarrow> w32 list \<Rightarrow> w32 list \<Rightarrow> w32 list" where
  "rounds (k # ks) (w # ws) [a, b, c, d, e, f, g, h] =
     (let t1 = h + bsig1 e + Ch e f g + k + w; t2 = bsig0 a + Maj a b c
      in rounds ks ws [t1 + t2, a, b, c, d + t1, e, f, g])"
| "rounds _ _ s = s"

definition compress :: "w32 list \<Rightarrow> byte list \<Rightarrow> w32 list" where
  "compress s blk = map2 (+) s (rounds K256 (rev (extend 48 (rev (be32 blk)))) s)"

fun blocks :: "nat \<Rightarrow> byte list \<Rightarrow> byte list list" where
  "blocks 0 bs = []"
| "blocks (Suc n) bs = take 64 bs # blocks n (drop 64 bs)"

definition pad :: "byte list \<Rightarrow> byte list" where
  "pad m = (let l = length m; z = (119 - l mod 64) mod 64
            in m @ [0x80] @ replicate z 0 @
               map (\<lambda>i. ucast (drop_bit (8 * (7 - i)) (word_of_nat (8 * l) :: 64 word))) [0..<8])"

definition Sum256 :: "byte list \<Rightarrow> byte list" where
  "Sum256 m = (let p = pad m in
     concat (map (\<lambda>x. map (\<lambda>i. ucast (drop_bit (8 * (3 - i)) x)) [0..<4])
       (foldl compress H256 (blocks (length p div 64) p))))"

subsection \<open>encoding/base32\<close>

text \<open>\<open>base32.StdEncoding.EncodeToString\<close>: RFC 4648 with padding, five bytes to eight characters.\<close>

definition encodeStd :: string where
  "encodeStd = ''ABCDEFGHIJKLMNOPQRSTUVWXYZ234567''"

definition encodeGroup :: "byte list \<Rightarrow> string" where
  "encodeGroup g =
     (let v = foldl (\<lambda>acc b. acc * 256 + uint b) 0 (g @ replicate (5 - length g) 0);
          n = (8 * length g + 4) div 5
      in map (\<lambda>i. encodeStd ! nat ((v div 2 ^ (35 - 5 * i)) mod 32)) [0..<n] @
         replicate (8 - n) CHR ''='')"

fun EncodeToString :: "byte list \<Rightarrow> string" where
  "EncodeToString (a # b # c # d # e # r) = encodeGroup [a, b, c, d, e] @ EncodeToString r"
| "EncodeToString [] = []"
| "EncodeToString g = encodeGroup g"

section \<open>Name derivation\<close>

definition kubePodFirewallChainPrefix :: string where
  "kubePodFirewallChainPrefix = ''KUBE-POD-FW-''"

definition kubeNetworkPolicyChainPrefix :: string where
  "kubeNetworkPolicyChainPrefix = ''KUBE-NWPLCY-''"

definition kubeSourceIpSetPrefix :: string where
  "kubeSourceIpSetPrefix = ''KUBE-SRC-''"

definition kubeDestinationIpSetPrefix :: string where
  "kubeDestinationIpSetPrefix = ''KUBE-DST-''"

text \<open>
  Each function hashes a string built from its arguments, encodes the digest and keeps
  \<open>encoded[:16]\<close>. The slice is written \<open>take 16\<close>; the encoding of a 32-byte digest has 56
  characters (lemma \<open>length_EncodeToString_Sum256\<close>), so the slice is always in range.
\<close>

definition podFirewallChainName :: "string \<Rightarrow> string \<Rightarrow> string \<Rightarrow> string" where
  "podFirewallChainName ns podName version =
     (let hash = Sum256 (bytes (ns @ podName @ version));
          encoded = EncodeToString hash
      in kubePodFirewallChainPrefix @ take 16 encoded)"

definition networkPolicyChainName :: "string \<Rightarrow> string \<Rightarrow> string \<Rightarrow> string" where
  "networkPolicyChainName ns policyName version =
     (let hash = Sum256 (bytes (ns @ policyName @ version));
          encoded = EncodeToString hash
      in kubeNetworkPolicyChainPrefix @ take 16 encoded)"

definition policySourcePodIpSetName :: "string \<Rightarrow> string \<Rightarrow> string" where
  "policySourcePodIpSetName ns policyName =
     (let hash = Sum256 (bytes (ns @ policyName));
          encoded = EncodeToString hash
      in kubeSourceIpSetPrefix @ take 16 encoded)"

definition policyDestinationPodIpSetName :: "string \<Rightarrow> string \<Rightarrow> string" where
  "policyDestinationPodIpSetName ns policyName =
     (let hash = Sum256 (bytes (ns @ policyName));
          encoded = EncodeToString hash
      in kubeDestinationIpSetPrefix @ take 16 encoded)"

definition policyIndexedSourcePodIpSetName :: "string \<Rightarrow> string \<Rightarrow> nat \<Rightarrow> string" where
  "policyIndexedSourcePodIpSetName ns policyName ingressRuleNo =
     (let hash = Sum256 (bytes (ns @ policyName @ ''ingressrule'' @ Itoa ingressRuleNo @ ''pod''));
          encoded = EncodeToString hash
      in kubeSourceIpSetPrefix @ take 16 encoded)"

definition policyIndexedDestinationPodIpSetName :: "string \<Rightarrow> string \<Rightarrow> nat \<Rightarrow> string" where
  "policyIndexedDestinationPodIpSetName ns policyName egressRuleNo =
     (let hash = Sum256 (bytes (ns @ policyName @ ''egressrule'' @ Itoa egressRuleNo @ ''pod''));
          encoded = EncodeToString hash
      in kubeDestinationIpSetPrefix @ take 16 encoded)"

definition policyIndexedSourceIpBlockIpSetName :: "string \<Rightarrow> string \<Rightarrow> nat \<Rightarrow> string" where
  "policyIndexedSourceIpBlockIpSetName ns policyName ingressRuleNo =
     (let hash = Sum256 (bytes (ns @ policyName @ ''ingressrule'' @ Itoa ingressRuleNo @ ''ipblock''));
          encoded = EncodeToString hash
      in kubeSourceIpSetPrefix @ take 16 encoded)"

definition policyIndexedDestinationIpBlockIpSetName :: "string \<Rightarrow> string \<Rightarrow> nat \<Rightarrow> string" where
  "policyIndexedDestinationIpBlockIpSetName ns policyName egressRuleNo =
     (let hash = Sum256 (bytes (ns @ policyName @ ''egressrule'' @ Itoa egressRuleNo @ ''ipblock''));
          encoded = EncodeToString hash
      in kubeDestinationIpSetPrefix @ take 16 encoded)"

definition policyIndexedIngressNamedPortIpSetName :: "string \<Rightarrow> string \<Rightarrow> nat \<Rightarrow> nat \<Rightarrow> string" where
  "policyIndexedIngressNamedPortIpSetName ns policyName ingressRuleNo namedPortNo =
     (let hash = Sum256 (bytes (ns @ policyName @ ''ingressrule'' @ Itoa ingressRuleNo @
                   Itoa namedPortNo @ ''namedport''));
          encoded = EncodeToString hash
      in kubeDestinationIpSetPrefix @ take 16 encoded)"

definition policyIndexedEgressNamedPortIpSetName :: "string \<Rightarrow> string \<Rightarrow> nat \<Rightarrow> nat \<Rightarrow> string" where
  "policyIndexedEgressNamedPortIpSetName ns policyName egressRuleNo namedPortNo =
     (let hash = Sum256 (bytes (ns @ policyName @ ''egressrule'' @ Itoa egressRuleNo @
                   Itoa namedPortNo @ ''namedport''));
          encoded = EncodeToString hash
      in kubeDestinationIpSetPrefix @ take 16 encoded)"

section \<open>Orchestrator objects\<close>

text \<open>
  The API objects the listers deliver, reduced to the fields the controller reads. A
  \<open>map[string]string\<close> of labels is an association list. A label selector is modelled by what
  its conversion with \<open>LabelSelectorAsSelector\<close> yields, the predicate \<open>Matches\<close> on label maps;
  a nil \<open>*LabelSelector\<close> is \<open>None\<close>. A nil slice is \<open>None\<close>, an empty one \<open>Some []\<close>.
\<close>

type_synonym labelMap = "(string \<times> string) list"
type_synonym selector = "labelMap \<Rightarrow> bool"

definition Everything :: selector where
  "Everything = (\<lambda>_. True)"

definition Nothing :: selector where
  "Nothing = (\<lambda>_. False)"

text \<open>\<open>v1.LabelSelectorAsSelector\<close> on a pointer: nil selects nothing.\<close>

definition LabelSelectorAsSelector :: "selector option \<Rightarrow> selector" where
  "LabelSelectorAsSelector ps = (case ps of None \<Rightarrow> Nothing | Some sel \<Rightarrow> sel)"

definition slice :: "'a list option \<Rightarrow> 'a list" where
  "slice xs = (case xs of None \<Rightarrow> [] | Some ys \<Rightarrow> ys)"

record ContainerPort =
  Port_Name :: string
  Port_Protocol :: string
  Port_ContainerPort :: int

record Pod =
  Pod_Name :: string
  Pod_Namespace :: string
  Pod_Labels :: labelMap
  Pod_PodIP :: string
  Pod_HostIP :: string
  Pod_Phase :: string
  Pod_Containers :: "ContainerPort list list"

record Namespace =
  Namespace_Name :: string
  Namespace_Labels :: labelMap

record IPBlock =
  CIDR :: string
  Except :: "string list"

record NetworkPolicyPeer =
  PodSelector :: "selector option"
  NamespaceSelector :: "selector option"
  IPBlock :: "IPBlock option"

datatype IntOrString = IntVal int | StringVal string

fun IntOrString_String :: "IntOrString \<Rightarrow> string" where
  "IntOrString_String (IntVal i) = FormatInt i"
| "IntOrString_String (StringVal s) = s"

record NetworkPolicyPort =
  Protocol :: string
  Port :: "IntOrString option"

record NetworkPolicyIngressRule =
  Ingress_Ports :: "NetworkPolicyPort list"
  Ingress_From :: "NetworkPolicyPeer list"

record NetworkPolicyEgressRule =
  Egress_Ports :: "NetworkPolicyPort list"
  Egress_To :: "NetworkPolicyPeer list"

definition PolicyTypeIngress :: string where
  "PolicyTypeIngress = ''Ingress''"

definition PolicyTypeEgress :: string where
  "PolicyTypeEgress = ''Egress''"

record NetworkPolicy =
  Policy_Name :: string
  Policy_Namespace :: string
  Spec_PodSelector :: selector
  Spec_PolicyTypes :: "string list"
  Spec_Ingress :: "NetworkPolicyIngressRule list option"
  Spec_Egress :: "NetworkPolicyEgressRule list option"

text \<open>
  What the policy lister holds: objects of \<open>networking/v1\<close> or of \<open>extensions/v1beta1\<close>. The
  legacy builder reads name, namespace, pod selector, and of each ingress rule its ports and the
  pod selectors of its peers; the legacy object is given the same record.
\<close>

datatype policyObj = NetworkingV1 NetworkPolicy | ExtensionsV1beta1 NetworkPolicy

section \<open>The controller's internal model\<close>

record podInfo =
  ip :: string
  podName :: string
  podNamespace :: string
  labels :: labelMap

record protocolAndPort =
  protocol :: string
  port :: string

record endPoints = protocolAndPort +
  ips :: "string list"

record ingressRule =
  matchAllPorts :: bool
  ports :: "protocolAndPort list"
  namedPorts :: "endPoints list"
  matchAllSource :: bool
  srcPods :: "podInfo list"
  srcIPBlocks :: "string list list"

record egressRule =
  egressMatchAllPorts :: bool
  egressPorts :: "protocolAndPort list"
  egressNamedPorts :: "endPoints list"
  matchAllDestinations :: bool
  dstPods :: "podInfo list"
  dstIPBlocks :: "string list list"

record networkPolicyInfo =
  name :: string
  namespace :: string
  podSelector :: selector
  targetPods :: "(string \<times> podInfo) list"
  ingressRules :: "ingressRule list option"
  egressRules :: "egressRule list option"
  policyType :: string

type_synonym numericPort2eps = "(string \<times> endPoints) list"
type_synonym protocol2eps = "(string \<times> numericPort2eps) list"
type_synonym namedPort2eps = "(string \<times> protocol2eps) list"

text \<open>
  How a run ends other than by returning: an \<open>error\<close> value handed to the caller, the process
  ended by \<open>glog.Fatalf\<close>, or a run-time panic.
\<close>

datatype failure = Err string | Fatal string | Panic

record NetworkPolicyController =
  nodeIP :: string
  v1NetworkPolicy :: bool
  readyForUpdates :: bool
  networkPoliciesInfo :: "networkPolicyInfo list"
  podLister :: "Pod list"
  npLister :: "policyObj list"
  nsLister :: "Namespace list"

section \<open>Policy model builder\<close>

text \<open>
  Modelled from the spec: the option words of the address-set driver (package \<open>utils\<close>, not
  among the sources), as the spec's refresh input shows them: \<open>timeout\<close> and \<open>nomatch\<close>; the
  set kinds are hash-of-address and hash-of-network.
\<close>

definition OptionTimeout :: string where
  "OptionTimeout = ''timeout''"

definition OptionNoMatch :: string where
  "OptionNoMatch = ''nomatch''"

definition TypeHashIP :: string where
  "TypeHashIP = ''hash:ip''"

definition TypeHashNet :: string where
  "TypeHashNet = ''hash:net''"

definition evalIPBlockPeer :: "NetworkPolicyPeer \<Rightarrow> string list list" where
  "evalIPBlockPeer peer =
     (case IPBlock peer of
        Some blk \<Rightarrow>
          if PodSelector peer = None \<and> NamespaceSelector peer = None then
            foldl (\<lambda>ipBlock except.
                if suffix ''/0'' except
                then ipBlock @ [[''0.0.0.0/1'', OptionTimeout, ''0'', OptionNoMatch],
                                [''128.0.0.0/1'', OptionTimeout, ''0'', OptionNoMatch]]
                else ipBlock @ [[except, OptionTimeout, ''0'', OptionNoMatch]])
              (if suffix ''/0'' (CIDR blk)
               then [[''0.0.0.0/1'', OptionTimeout, ''0''], [''128.0.0.0/1'', OptionTimeout, ''0'']]
               else [[CIDR blk, OptionTimeout, ''0'']])
              (Except blk)
          else []
      | None \<Rightarrow> [])"

text \<open>
  The listers read an in-memory cache. \<open>ListPodsByNamespaceAndLabels\<close> keeps the error result
  of the source, which the cache never produces; for the empty namespace the cache lists the
  pods of every namespace.
\<close>

definition ListPodsByNamespaceAndLabels ::
    "NetworkPolicyController \<Rightarrow> string \<Rightarrow> selector \<Rightarrow> failure + Pod list" where
  "ListPodsByNamespaceAndLabels npc ns sel =
     Inr (filter (\<lambda>p. (ns = [] \<or> Pod_Namespace p = ns) \<and> sel (Pod_Labels p)) (podLister npc))"

definition ListNamespaceByLabels ::
    "NetworkPolicyController \<Rightarrow> selector \<Rightarrow> failure + Namespace list" where
  "ListNamespaceByLabels npc sel = Inr (filter (\<lambda>n. sel (Namespace_Labels n)) (nsLister npc))"

definition podInfoOf :: "Pod \<Rightarrow> podInfo" where
  "podInfoOf p = \<lparr>ip = Pod_PodIP p, podName = Pod_Name p, podNamespace = Pod_Namespace p,
                  labels = Pod_Labels p\<rparr>"

definition grabNamedPort :: "string \<Rightarrow> namedPort2eps \<Rightarrow> ContainerPort \<Rightarrow> namedPort2eps" where
  "grabNamedPort podIP m cp =
     (let nm = Port_Name cp;
          proto = Port_Protocol cp;
          containerPort = FormatInt (Port_ContainerPort cp);
          p2e = (case map_of m nm of None \<Rightarrow> [] | Some x \<Rightarrow> x);
          n2e = (case map_of p2e proto of None \<Rightarrow> [] | Some x \<Rightarrow> x);
          eps = (case map_of n2e containerPort of
                   None \<Rightarrow> \<lparr>protocol = proto, port = containerPort, ips = [podIP]\<rparr>
                 | Some e \<Rightarrow> e\<lparr>ips := ips e @ [podIP]\<rparr>)
      in AList.update nm (AList.update proto (AList.update containerPort eps n2e) p2e) m)"

definition grabNamedPortFromPod :: "Pod \<Rightarrow> namedPort2eps \<Rightarrow> namedPort2eps" where
  "grabNamedPortFromPod pod m = foldl (grabNamedPort (Pod_PodIP pod)) m (concat (Pod_Containers pod))"

definition processNetworkPolicyPorts ::
    "NetworkPolicyPort list \<Rightarrow> namedPort2eps \<Rightarrow> protocolAndPort list \<times> endPoints list" where
  "processNetworkPolicyPorts npPorts n2eps =
     foldl (\<lambda>(numericPorts, namedPorts) npPort.
        case Port npPort of
          None \<Rightarrow> (numericPorts @ [\<lparr>protocol = Protocol npPort, port = []\<rparr>], namedPorts)
        | Some (IntVal i) \<Rightarrow>
            (numericPorts @ [\<lparr>protocol = Protocol npPort, port = FormatInt i\<rparr>], namedPorts)
        | Some (StringVal s) \<Rightarrow>
            (case map_of n2eps s of
               None \<Rightarrow> (numericPorts, namedPorts)
             | Some p2e \<Rightarrow>
                 (case map_of p2e (Protocol npPort) of
                    None \<Rightarrow> (numericPorts, namedPorts)
                  | Some n2e \<Rightarrow> (numericPorts, namedPorts @ map snd n2e))))
       ([], []) npPorts"

definition processBetaNetworkPolicyPorts ::
    "NetworkPolicyPort list \<Rightarrow> namedPort2eps \<Rightarrow> protocolAndPort list \<times> endPoints list" where
  "processBetaNetworkPolicyPorts npPorts n2eps =
     foldl (\<lambda>(numericPorts, namedPorts) npPort.
        case Port npPort of
          None \<Rightarrow> (numericPorts @ [\<lparr>protocol = Protocol npPort, port = []\<rparr>], namedPorts)
        | Some (IntVal i) \<Rightarrow>
            (numericPorts @ [\<lparr>protocol = Protocol npPort, port = FormatInt i\<rparr>], namedPorts)
        | Some (StringVal s) \<Rightarrow>
            (case map_of n2eps s of
               None \<Rightarrow> (numericPorts, namedPorts)
             | Some p2e \<Rightarrow>
                 (case map_of p2e (Protocol npPort) of
                    None \<Rightarrow> (numericPorts, namedPorts)
                  | Some n2e \<Rightarrow> (numericPorts, namedPorts @ map snd n2e))))
       ([], []) npPorts"

definition evalPodPeer ::
    "NetworkPolicyController \<Rightarrow> NetworkPolicy \<Rightarrow> NetworkPolicyPeer \<Rightarrow> failure + Pod list" where
  "evalPodPeer npc policy peer =
     (case NamespaceSelector peer of
        Some namespaceSelector \<Rightarrow>
          (case ListNamespaceByLabels npc namespaceSelector of
             Inl e \<Rightarrow> Inl (Err ''Failed to build network policies info due to '')
           | Inr namespaces \<Rightarrow>
               foldl (\<lambda>acc ns.
                   case acc of
                     Inl e \<Rightarrow> Inl e
                   | Inr matchingPods \<Rightarrow>
                       (case ListPodsByNamespaceAndLabels npc (Namespace_Name ns)
                               (case PodSelector peer of None \<Rightarrow> Everything | Some sel \<Rightarrow> sel) of
                          Inl e \<Rightarrow> Inl (Err ''Failed to build network policies info due to '')
                        | Inr namespacePods \<Rightarrow> Inr (matchingPods @ namespacePods)))
                 (Inr []) namespaces)
      | None \<Rightarrow>
          (case PodSelector peer of
             Some sel \<Rightarrow> ListPodsByNamespaceAndLabels npc (Policy_Namespace policy) sel
           | None \<Rightarrow> Inr []))"

text \<open>The pods of a listing that have an address, as the loops \<open>if PodIP == "" { continue }\<close> keep them.\<close>

definition withPodIP :: "Pod list \<Rightarrow> Pod list" where
  "withPodIP pods = filter (\<lambda>p. Pod_PodIP p \<noteq> []) pods"

definition resolvePolicyType :: "string list \<Rightarrow> string" where
  "resolvePolicyType policyTypes =
     (let ingressType = (PolicyTypeIngress \<in> set policyTypes);
          egressType = (PolicyTypeEgress \<in> set policyTypes)
      in if ingressType \<and> egressType then ''both''
         else if egressType then ''egress''
         else if ingressType then ''ingress''
         else ''ingress'')"

definition buildTargetPods :: "failure + Pod list \<Rightarrow> (string \<times> podInfo) list \<times> namedPort2eps" where
  "buildTargetPods listing =
     (case listing of
        Inl e \<Rightarrow> ([], [])
      | Inr matchingPods \<Rightarrow>
          foldl (\<lambda>(tp, n2eps) matchingPod.
                   (AList.update (Pod_PodIP matchingPod) (podInfoOf matchingPod) tp,
                    grabNamedPortFromPod matchingPod n2eps))
            ([], []) (withPodIP matchingPods))"

definition buildIngressRule ::
    "NetworkPolicyController \<Rightarrow> NetworkPolicy \<Rightarrow> namedPort2eps \<Rightarrow> NetworkPolicyIngressRule \<Rightarrow> ingressRule" where
  "buildIngressRule npc policy namedPort2IngressEps specIngressRule =
     (let (pods, blocks) =
            foldl (\<lambda>(pods, blocks) peer.
                ((case evalPodPeer npc policy peer of
                    Inr peerPods \<Rightarrow> pods @ map podInfoOf (withPodIP peerPods)
                  | Inl e \<Rightarrow> pods),
                 blocks @ evalIPBlockPeer peer))
              ([], []) (Ingress_From specIngressRule);
          (numericPorts, named) =
            (if length (Ingress_Ports specIngressRule) = 0 then ([], [])
             else processNetworkPolicyPorts (Ingress_Ports specIngressRule) namedPort2IngressEps)
      in \<lparr>matchAllPorts = (length (Ingress_Ports specIngressRule) = 0),
          ports = numericPorts,
          namedPorts = named,
          matchAllSource = (length (Ingress_From specIngressRule) = 0),
          srcPods = pods,
          srcIPBlocks = blocks\<rparr>)"

definition buildEgressRule ::
    "NetworkPolicyController \<Rightarrow> NetworkPolicy \<Rightarrow> NetworkPolicyEgressRule \<Rightarrow> egressRule" where
  "buildEgressRule npc policy specEgressRule =
     (let (pods, blocks, namedPort2EgressEps) =
            foldl (\<lambda>(pods, blocks, n2eps) peer.
                (case evalPodPeer npc policy peer of
                   Inr peerPods \<Rightarrow>
                     (pods @ map podInfoOf (withPodIP peerPods),
                      blocks @ evalIPBlockPeer peer,
                      foldl (\<lambda>m peerPod. grabNamedPortFromPod peerPod m) n2eps (withPodIP peerPods))
                 | Inl e \<Rightarrow> (pods, blocks @ evalIPBlockPeer peer, n2eps)))
              ([], [], []) (Egress_To specEgressRule);
          (numericPorts, named) =
            (if length (Egress_Ports specEgressRule) = 0 then ([], [])
             else processNetworkPolicyPorts (Egress_Ports specEgressRule) namedPort2EgressEps)
      in \<lparr>egressMatchAllPorts = (length (Egress_Ports specEgressRule) = 0),
          egressPorts = numericPorts,
          egressNamedPorts = named,
          matchAllDestinations = (length (Egress_To specEgressRule) = 0),
          dstPods = pods,
          dstIPBlocks = blocks\<rparr>)"

definition buildPolicy :: "NetworkPolicyController \<Rightarrow> NetworkPolicy \<Rightarrow> networkPolicyInfo" where
  "buildPolicy npc policy =
     (let (tp, namedPort2IngressEps) =
            buildTargetPods (ListPodsByNamespaceAndLabels npc (Policy_Namespace policy)
                               (Spec_PodSelector policy))
      in \<lparr>name = Policy_Name policy,
          namespace = Policy_Namespace policy,
          podSelector = Spec_PodSelector policy,
          targetPods = tp,
          ingressRules =
            (case Spec_Ingress policy of
               None \<Rightarrow> None
             | Some rs \<Rightarrow> Some (map (buildIngressRule npc policy namedPort2IngressEps) rs)),
          egressRules =
            (case Spec_Egress policy of
               None \<Rightarrow> None
             | Some rs \<Rightarrow> Some (map (buildEgressRule npc policy) rs)),
          policyType = resolvePolicyType (Spec_PolicyTypes policy)\<rparr>)"

text \<open>
  The type assertion on an object of the other schema yields a nil pointer, and the next
  statement takes the address of a field through it: a run-time panic, before the
  \<open>if !ok\<close> that follows is reached.
\<close>

fun buildNetworkPoliciesInfo_loop ::
    "NetworkPolicyController \<Rightarrow> policyObj list \<Rightarrow> networkPolicyInfo list \<Rightarrow>
       failure + networkPolicyInfo list" where
  "buildNetworkPoliciesInfo_loop npc [] NetworkPolicies = Inr NetworkPolicies"
| "buildNetworkPoliciesInfo_loop npc (NetworkingV1 policy # rest) NetworkPolicies =
     buildNetworkPoliciesInfo_loop npc rest (NetworkPolicies @ [buildPolicy npc policy])"
| "buildNetworkPoliciesInfo_loop npc (ExtensionsV1beta1 policy # rest) NetworkPolicies = Inl Panic"

definition buildNetworkPoliciesInfo :: "NetworkPolicyController \<Rightarrow> failure + networkPolicyInfo list" where
  "buildNetworkPoliciesInfo npc = buildNetworkPoliciesInfo_loop npc (npLister npc) []"

definition buildBetaIngressRule ::
    "NetworkPolicyController \<Rightarrow> NetworkPolicy \<Rightarrow> namedPort2eps \<Rightarrow> NetworkPolicyIngressRule \<Rightarrow> ingressRule" where
  "buildBetaIngressRule npc policy namedPort2IngressEps specIngressRule =
     (let (numericPorts, named) =
            processBetaNetworkPolicyPorts (Ingress_Ports specIngressRule) namedPort2IngressEps;
          pods =
            foldl (\<lambda>pods peer.
                case ListPodsByNamespaceAndLabels npc (Policy_Namespace policy)
                       (LabelSelectorAsSelector (PodSelector peer)) of
                  Inr matchingPods \<Rightarrow> pods @ map podInfoOf (withPodIP matchingPods)
                | Inl e \<Rightarrow> pods)
              [] (Ingress_From specIngressRule)
      in \<lparr>matchAllPorts = False,
          ports = numericPorts,
          namedPorts = named,
          matchAllSource = False,
          srcPods = pods,
          srcIPBlocks = []\<rparr>)"

definition buildBetaPolicy :: "NetworkPolicyController \<Rightarrow> NetworkPolicy \<Rightarrow> networkPolicyInfo" where
  "buildBetaPolicy npc policy =
     (let (tp, namedPort2IngressEps) =
            buildTargetPods (ListPodsByNamespaceAndLabels npc (Policy_Namespace policy)
                               (Spec_PodSelector policy))
      in \<lparr>name = Policy_Name policy,
          namespace = Policy_Namespace policy,
          podSelector = Spec_PodSelector policy,
          targetPods = tp,
          ingressRules = Some (map (buildBetaIngressRule npc policy namedPort2IngressEps)
                                 (slice (Spec_Ingress policy))),
          egressRules = None,
          policyType = []\<rparr>)"

fun buildBetaNetworkPoliciesInfo_loop ::
    "NetworkPolicyController \<Rightarrow> policyObj list \<Rightarrow> networkPolicyInfo list \<Rightarrow>
       failure + networkPolicyInfo list" where
  "buildBetaNetworkPoliciesInfo_loop npc [] NetworkPolicies = Inr NetworkPolicies"
| "buildBetaNetworkPoliciesInfo_loop npc (ExtensionsV1beta1 policy # rest) NetworkPolicies =
     buildBetaNetworkPoliciesInfo_loop npc rest (NetworkPolicies @ [buildBetaPolicy npc policy])"
| "buildBetaNetworkPoliciesInfo_loop npc (NetworkingV1 policy # rest) NetworkPolicies = Inl Panic"

definition buildBetaNetworkPoliciesInfo ::
    "NetworkPolicyController \<Rightarrow> failure + networkPolicyInfo list" where
  "buildBetaNetworkPoliciesInfo npc = buildBetaNetworkPoliciesInfo_loop npc (npLister npc) []"

section \<open>The kernel state and its drivers\<close>

text \<open>
  The packet filter's \<open>filter\<close> table is an association list from chain names to rule lists, a
  rule being the argument list it was installed with; the address sets are an association list
  from set names to creation options and entries. Neither driver is among the sources
  (\<open>go-iptables\<close> is a library, the address-set driver is package \<open>utils\<close>); both are external
  commands, and any call of one may fail for reasons of its own. The world carries that
  choice: \<open>faults w c t\<close> says whether call \<open>c\<close>, made as the \<open>t\<close>-th call, fails (with which exit
  status) or runs as its contract says. A failed call leaves the kernel state as it was. The
  world also holds the readings of the wall clock, the heartbeats sent and the messages logged
  with \<open>glog.Errorf\<close>.
\<close>

type_synonym rulespec = "string list"

datatype call =
    CmdIptablesNew
  | CmdNewChain string
  | CmdAppendUnique string rulespec
  | CmdExists string rulespec
  | CmdInsert string nat rulespec
  | CmdList string
  | CmdListChains
  | CmdClearChain string
  | CmdDeleteChain string
  | CmdDelete string int
  | CmdNewIPSet
  | CmdSave
  | CmdCreate string
  | CmdRefresh string
  | CmdDestroy string

record kernelSet =
  createOptions :: "string list"
  entries :: "string list list"

record world =
  filterTable :: "(string \<times> rulespec list) list"
  kernelSets :: "(string \<times> kernelSet) list"
  faults :: "call \<Rightarrow> nat \<Rightarrow> nat option"
  clock :: nat
  unixNano :: "nat \<Rightarrow> int"
  heartbeats :: nat
  errorLog :: "string list"

datatype iptables_Error = Error (ExitStatus: nat)

datatype ipset_Error = IpsetError

abbreviation return :: "'a \<Rightarrow> (world, 'a) state" where
  "return \<equiv> State_Monad.return"

definition invoke :: "call \<Rightarrow> (nat \<Rightarrow> 'a) \<Rightarrow> (world \<Rightarrow> 'a \<times> world) \<Rightarrow> (world, 'a) state" where
  "invoke c onFault run =
     State (\<lambda>w. case faults w c (clock w) of
                   Some st \<Rightarrow> (onFault st, w\<lparr>clock := Suc (clock w)\<rparr>)
                 | None \<Rightarrow> run (w\<lparr>clock := Suc (clock w)\<rparr>))"

subsection \<open>Packet-filter driver\<close>

text \<open>
  The contract of section 4.3 of the specification, with the answers of the \<open>iptables\<close>
  command: exit status 1 for an operation the kernel refuses (a chain that exists already or
  is missing, a rule number out of range, a chain still in use), and a fault of the
  command itself with the status the world chooses. \<open>Exists\<close> answers false for a missing chain,
  \<open>ClearChain\<close> creates the chain when it is missing, \<open>List\<close> gives the chain's header line and
  one line of text per rule, and rules are compared as argument lists.
\<close>

definition iptables_New :: "(world, iptables_Error + unit) state" where
  "iptables_New = invoke CmdIptablesNew (\<lambda>st. Inl (Error st)) (\<lambda>w. (Inr (), w))"

definition iptables_NewChain :: "string \<Rightarrow> (world, iptables_Error + unit) state" where
  "iptables_NewChain chain =
     invoke (CmdNewChain chain) (\<lambda>st. Inl (Error st))
       (\<lambda>w. case map_of (filterTable w) chain of
               Some rs \<Rightarrow> (Inl (Error 1), w)
             | None \<Rightarrow> (Inr (), w\<lparr>filterTable := filterTable w @ [(chain, [])]\<rparr>))"

definition iptables_AppendUnique :: "string \<Rightarrow> rulespec \<Rightarrow> (world, iptables_Error + unit) state" where
  "iptables_AppendUnique chain args =
     invoke (CmdAppendUnique chain args) (\<lambda>st. Inl (Error st))
       (\<lambda>w. case map_of (filterTable w) chain of
               None \<Rightarrow> (Inl (Error 1), w)
             | Some rs \<Rightarrow>
                 if args \<in> set rs then (Inr (), w)
                 else (Inr (), w\<lparr>filterTable := AList.update chain (rs @ [args]) (filterTable w)\<rparr>))"

definition iptables_Exists :: "string \<Rightarrow> rulespec \<Rightarrow> (world, iptables_Error + bool) state" where
  "iptables_Exists chain args =
     invoke (CmdExists chain args) (\<lambda>st. Inl (Error st))
       (\<lambda>w. case map_of (filterTable w) chain of
               None \<Rightarrow> (Inr False, w)
             | Some rs \<Rightarrow> (Inr (args \<in> set rs), w))"

definition iptables_Insert :: "string \<Rightarrow> nat \<Rightarrow> rulespec \<Rightarrow> (world, iptables_Error + unit) state" where
  "iptables_Insert chain pos args =
     invoke (CmdInsert chain pos args) (\<lambda>st. Inl (Error st))
       (\<lambda>w. case map_of (filterTable w) chain of
               None \<Rightarrow> (Inl (Error 1), w)
             | Some rs \<Rightarrow>
                 if pos < 1 \<or> length rs + 1 < pos then (Inl (Error 1), w)
                 else (Inr (), w\<lparr>filterTable :=
                         AList.update chain (take (pos - 1) rs @ [args] @ drop (pos - 1) rs)
                           (filterTable w)\<rparr>))"

definition chainHeader :: "string \<Rightarrow> string" where
  "chainHeader chain =
     (if chain \<in> set [''INPUT'', ''FORWARD'', ''OUTPUT''] then ''-P '' @ chain @ '' ACCEPT''
      else ''-N '' @ chain)"

definition ruleLine :: "string \<Rightarrow> rulespec \<Rightarrow> string" where
  "ruleLine chain args = ''-A '' @ chain @ concat (map (\<lambda>a. CHR '' '' # a) args)"

definition iptables_List :: "string \<Rightarrow> (world, iptables_Error + string list) state" where
  "iptables_List chain =
     invoke (CmdList chain) (\<lambda>st. Inl (Error st))
       (\<lambda>w. case map_of (filterTable w) chain of
               None \<Rightarrow> (Inl (Error 1), w)
             | Some rs \<Rightarrow> (Inr (chainHeader chain # map (ruleLine chain) rs), w))"

definition iptables_ListChains :: "(world, iptables_Error + string list) state" where
  "iptables_ListChains =
     invoke CmdListChains (\<lambda>st. Inl (Error st)) (\<lambda>w. (Inr (map fst (filterTable w)), w))"

definition iptables_ClearChain :: "string \<Rightarrow> (world, iptables_Error + unit) state" where
  "iptables_ClearChain chain =
     invoke (CmdClearChain chain) (\<lambda>st. Inl (Error st))
       (\<lambda>w. case map_of (filterTable w) chain of
               None \<Rightarrow> (Inr (), w\<lparr>filterTable := filterTable w @ [(chain, [])]\<rparr>)
             | Some rs \<Rightarrow> (Inr (), w\<lparr>filterTable := AList.update chain [] (filterTable w)\<rparr>))"

fun jumpTarget :: "rulespec \<Rightarrow> string option" where
  "jumpTarget (a # b # r) = (if a = ''-j'' then Some b else jumpTarget (b # r))"
| "jumpTarget _ = None"

definition referenced :: "string \<Rightarrow> (string \<times> rulespec list) list \<Rightarrow> bool" where
  "referenced chain table = list_ex (\<lambda>(c, rs). list_ex (\<lambda>r. jumpTarget r = Some chain) rs) table"

definition iptables_DeleteChain :: "string \<Rightarrow> (world, iptables_Error + unit) state" where
  "iptables_DeleteChain chain =
     invoke (CmdDeleteChain chain) (\<lambda>st. Inl (Error st))
       (\<lambda>w. case map_of (filterTable w) chain of
               None \<Rightarrow> (Inl (Error 1), w)
             | Some rs \<Rightarrow>
                 if 0 < length rs \<or> referenced chain (filterTable w) then (Inl (Error 1), w)
                 else (Inr (), w\<lparr>filterTable := AList.delete chain (filterTable w)\<rparr>))"

text \<open>\<open>Delete\<close> is only ever called with a rule number, \<open>strconv.Itoa\<close> of a Go \<open>int\<close>.\<close>

definition iptables_Delete :: "string \<Rightarrow> int \<Rightarrow> (world, iptables_Error + unit) state" where
  "iptables_Delete chain ruleNo =
     invoke (CmdDelete chain ruleNo) (\<lambda>st. Inl (Error st))
       (\<lambda>w. case map_of (filterTable w) chain of
               None \<Rightarrow> (Inl (Error 1), w)
             | Some rs \<Rightarrow>
                 if ruleNo < 1 \<or> int (length rs) < ruleNo then (Inl (Error 1), w)
                 else (Inr (), w\<lparr>filterTable :=
                         AList.update chain (take (nat ruleNo - 1) rs @ drop (nat ruleNo) rs)
                           (filterTable w)\<rparr>))"

subsection \<open>Address-set driver\<close>

text \<open>
  Modelled from the spec: package \<open>utils\<close> (\<open>NewIPSet\<close>, \<open>Save\<close>, \<open>Create\<close>, \<open>Refresh\<close>,
  \<open>RefreshWithBuiltinOptions\<close>, \<open>Destroy\<close>) is code of this repository that is not among the
  sources. Section 4.2 of the specification gives its contract: \<open>create(name, kind)\<close> is
  idempotent on the name and returns a handle, \<open>refresh\<close> atomically replaces the set's contents
  with the elements given, \<open>enumerate\<close> lists the live sets, \<open>destroy\<close> removes one; create and
  refresh may fail. A handle is the set's name. \<open>Refresh\<close> takes addresses and the options to
  give each of them, \<open>RefreshWithBuiltinOptions\<close> takes entries that carry their options.
\<close>

definition NewIPSet :: "(world, ipset_Error + unit) state" where
  "NewIPSet = invoke CmdNewIPSet (\<lambda>st. Inl IpsetError) (\<lambda>w. (Inr (), w))"

definition IPSet_Save :: "(world, ipset_Error + string list) state" where
  "IPSet_Save = invoke CmdSave (\<lambda>st. Inl IpsetError) (\<lambda>w. (Inr (map fst (kernelSets w)), w))"

definition IPSet_Create :: "string \<Rightarrow> string list \<Rightarrow> (world, ipset_Error + string) state" where
  "IPSet_Create setName opts =
     invoke (CmdCreate setName) (\<lambda>st. Inl IpsetError)
       (\<lambda>w. case map_of (kernelSets w) setName of
               Some s \<Rightarrow> (Inr setName, w)
             | None \<Rightarrow> (Inr setName,
                        w\<lparr>kernelSets := kernelSets w @ [(setName, \<lparr>createOptions = opts, entries = []\<rparr>)]\<rparr>))"

definition Set_RefreshWithBuiltinOptions ::
    "string \<Rightarrow> string list list \<Rightarrow> (world, ipset_Error + unit) state" where
  "Set_RefreshWithBuiltinOptions setName es =
     invoke (CmdRefresh setName) (\<lambda>st. Inl IpsetError)
       (\<lambda>w. case map_of (kernelSets w) setName of
               None \<Rightarrow> (Inl IpsetError, w)
             | Some s \<Rightarrow>
                 (Inr (), w\<lparr>kernelSets := AList.update setName (s\<lparr>entries := es\<rparr>) (kernelSets w)\<rparr>))"

definition Set_Refresh :: "string \<Rightarrow> string list \<Rightarrow> string list \<Rightarrow> (world, ipset_Error + unit) state" where
  "Set_Refresh setName es extraOptions =
     Set_RefreshWithBuiltinOptions setName (map (\<lambda>e. e # extraOptions) es)"

definition Set_Destroy :: "string \<Rightarrow> (world, ipset_Error + unit) state" where
  "Set_Destroy setName =
     invoke (CmdDestroy setName) (\<lambda>st. Inl IpsetError)
       (\<lambda>w. case map_of (kernelSets w) setName of
               None \<Rightarrow> (Inl IpsetError, w)
             | Some s \<Rightarrow> (Inr (), w\<lparr>kernelSets := AList.delete setName (kernelSets w)\<rparr>))"

subsection \<open>Clock and heartbeat\<close>

definition SendHeartBeat :: "(world, unit) state" where
  "SendHeartBeat = State (\<lambda>w. ((), w\<lparr>heartbeats := Suc (heartbeats w)\<rparr>))"

text \<open>\<open>time.Now().UnixNano()\<close>: the world's reading of the wall clock at this point of the run.\<close>

definition Now_UnixNano :: "(world, int) state" where
  "Now_UnixNano = State (\<lambda>w. (unixNano w (clock w), w\<lparr>clock := Suc (clock w)\<rparr>))"

text \<open>\<open>glog.Errorf\<close>: the message is kept without the text of the error it reports.\<close>

definition glog_Errorf :: "string \<Rightarrow> (world, unit) state" where
  "glog_Errorf msg = State (\<lambda>w. ((), w\<lparr>errorLog := errorLog w @ [msg]\<rparr>))"

definition logIfErr :: "'e + 'a \<Rightarrow> string \<Rightarrow> (world, unit) state" where
  "logIfErr err msg = (if isl err then glog_Errorf msg else return ())"

subsection \<open>Error plumbing\<close>

text \<open>
  \<open>thenE\<close> is the statement pair \<open>x, err := f(); if err != nil { return err }\<close>; \<open>forE\<close> and
  \<open>foldE\<close> are \<open>for ... range\<close> loops whose body may return an error from the enclosing
  function, the second one carrying the variables the body updates.
\<close>

definition thenE :: "(world, failure + 'a) state \<Rightarrow> ('a \<Rightarrow> (world, failure + 'b) state) \<Rightarrow>
    (world, failure + 'b) state" where
  "thenE m f = do { r \<leftarrow> m; case r of Inl e \<Rightarrow> return (Inl e) | Inr a \<Rightarrow> f a }"

fun foldE :: "('a \<Rightarrow> 'b \<Rightarrow> (world, failure + 'b) state) \<Rightarrow> 'a list \<Rightarrow> 'b \<Rightarrow>
    (world, failure + 'b) state" where
  "foldE f [] acc = return (Inr acc)"
| "foldE f (x # xs) acc = thenE (f x acc) (foldE f xs)"

definition forE :: "'a list \<Rightarrow> ('a \<Rightarrow> (world, failure + unit) state) \<Rightarrow> (world, failure + unit) state" where
  "forE xs f = foldE (\<lambda>x u. f x) xs ()"

section \<open>Firewall planner and applier\<close>

text \<open>
  A Go \<open>map[string]bool\<close> used as a set of names is a list without repetitions; a
  \<open>for ... range\<close> over a map visits the keys in the order they were entered (Go leaves the
  order open).
\<close>

definition appendRuleToPolicyChain ::
    "string \<Rightarrow> string \<Rightarrow> string \<Rightarrow> string \<Rightarrow> string \<Rightarrow> string \<Rightarrow> (world, failure + unit) state" where
  "appendRuleToPolicyChain policyChainName comment srcIpSetName dstIpSetName proto dPort =
     (let args =
            (if comment \<noteq> [] then [''-m'', ''comment'', ''--comment'', comment] else []) @
            (if srcIpSetName \<noteq> [] then [''-m'', ''set'', ''--match-set'', srcIpSetName, ''src''] else []) @
            (if dstIpSetName \<noteq> [] then [''-m'', ''set'', ''--match-set'', dstIpSetName, ''dst''] else []) @
            (if proto \<noteq> [] then [''-p'', proto] else []) @
            (if dPort \<noteq> [] then [''--dport'', dPort] else []) @
            [''-j'', ''ACCEPT'']
      in do {
        err \<leftarrow> iptables_AppendUnique policyChainName args;
        if isl err then return (Inl (Err ''Failed to run iptables command: ''))
        else return (Inr ())
      })"

text \<open>The loop \<open>for _, portProtocol := range ports\<close> that appends one rule per numeric port.\<close>

definition portRules ::
    "string \<Rightarrow> string \<Rightarrow> string \<Rightarrow> string \<Rightarrow> protocolAndPort list \<Rightarrow> (world, failure + unit) state" where
  "portRules policyChainName comment srcIpSetName dstIpSetName pps =
     forE pps (\<lambda>portProtocol.
       appendRuleToPolicyChain policyChainName comment srcIpSetName dstIpSetName
         (protocol portProtocol) (port portProtocol))"

text \<open>
  The loop \<open>for j, endPoints := range namedPorts\<close>: a set per named port, refreshed with the
  endpoint addresses, and a rule that matches it as destination. The source writes it out four
  times, with the comment, the source set and the naming function as the only differences.
\<close>

definition namedPortRules ::
    "(nat \<Rightarrow> string) \<Rightarrow> string \<Rightarrow> string \<Rightarrow> string \<Rightarrow> endPoints list \<Rightarrow> string list \<Rightarrow>
       (world, failure + string list) state" where
  "namedPortRules namedPortIpSetName policyChainName comment srcIpSetName eps activePolicyIpSets =
     foldE (\<lambda>(j, endPoints) active. do {
         r \<leftarrow> IPSet_Create (namedPortIpSetName j) [TypeHashIP, OptionTimeout, ''0''];
         case r of
           Inl e \<Rightarrow> return (Inl (Err ''failed to create ipset: ''))
         | Inr namedPortIpSet \<Rightarrow> do {
             err \<leftarrow> Set_Refresh namedPortIpSet (ips endPoints) [OptionTimeout, ''0''];
             logIfErr err ''failed to refresh namedPortIpSet: '';
             thenE (appendRuleToPolicyChain policyChainName comment srcIpSetName
                      (namedPortIpSetName j) (protocol endPoints) (port endPoints))
               (\<lambda>u. return (Inr (List.insert namedPortIpSet active)))
           }
       }) (enumerate 0 eps) activePolicyIpSets"

definition policyComment :: "string \<Rightarrow> networkPolicyInfo \<Rightarrow> string" where
  "policyComment text policy = text @ name policy @ '' namespace '' @ namespace policy"

definition ingressSrcPodsRules ::
    "networkPolicyInfo \<Rightarrow> string \<Rightarrow> string \<Rightarrow> nat \<Rightarrow> ingressRule \<Rightarrow> string list \<Rightarrow>
       (world, failure + string list) state" where
  "ingressSrcPodsRules policy targetDestPodIpSetName version i r activePolicyIpSets =
     (let policyChainName = networkPolicyChainName (namespace policy) (name policy) version;
          srcPodIpSetName = policyIndexedSourcePodIpSetName (namespace policy) (name policy) i;
          comment = policyComment
            ''rule to ACCEPT traffic from source pods to dest pods selected by policy name '' policy
      in if length (srcPods r) \<noteq> 0 then do {
           c \<leftarrow> IPSet_Create srcPodIpSetName [TypeHashIP, OptionTimeout, ''0''];
           case c of
             Inl e \<Rightarrow> return (Inl (Err ''failed to create ipset: ''))
           | Inr srcPodIpSet \<Rightarrow> do {
               err \<leftarrow> Set_Refresh srcPodIpSet (map ip (srcPods r)) [OptionTimeout, ''0''];
               logIfErr err ''failed to refresh srcPodIpSet: '';
               thenE (if length (ports r) \<noteq> 0
                      then portRules policyChainName comment srcPodIpSetName targetDestPodIpSetName
                             (ports r)
                      else return (Inr ())) (\<lambda>u.
               thenE (if length (namedPorts r) \<noteq> 0
                      then namedPortRules
                             (policyIndexedIngressNamedPortIpSetName (namespace policy) (name policy) i)
                             policyChainName comment srcPodIpSetName (namedPorts r)
                             (List.insert srcPodIpSet activePolicyIpSets)
                      else return (Inr (List.insert srcPodIpSet activePolicyIpSets))) (\<lambda>active.
               thenE (if length (ports r) = 0 \<and> length (namedPorts r) = 0
                      then appendRuleToPolicyChain policyChainName comment srcPodIpSetName
                             targetDestPodIpSetName [] []
                      else return (Inr ())) (\<lambda>u. return (Inr active))))
             }
         }
         else return (Inr activePolicyIpSets))"

definition ingressMatchAllSourceRules ::
    "networkPolicyInfo \<Rightarrow> string \<Rightarrow> string \<Rightarrow> nat \<Rightarrow> ingressRule \<Rightarrow> string list \<Rightarrow>
       (world, failure + string list) state" where
  "ingressMatchAllSourceRules policy targetDestPodIpSetName version i r activePolicyIpSets =
     (let policyChainName = networkPolicyChainName (namespace policy) (name policy) version;
          comment = policyComment
            ''rule to ACCEPT traffic from all sources to dest pods selected by policy name: '' policy
      in thenE (if matchAllSource r \<and> \<not> matchAllPorts r then
                  thenE (portRules policyChainName comment [] targetDestPodIpSetName (ports r)) (\<lambda>u.
                    namedPortRules
                      (policyIndexedIngressNamedPortIpSetName (namespace policy) (name policy) i)
                      policyChainName comment [] (namedPorts r) activePolicyIpSets)
                else return (Inr activePolicyIpSets)) (\<lambda>active.
         thenE (if matchAllSource r \<and> matchAllPorts r
                then appendRuleToPolicyChain policyChainName comment [] targetDestPodIpSetName [] []
                else return (Inr ())) (\<lambda>u. return (Inr active))))"

definition ingressSrcIPBlocksRules ::
    "networkPolicyInfo \<Rightarrow> string \<Rightarrow> string \<Rightarrow> nat \<Rightarrow> ingressRule \<Rightarrow> string list \<Rightarrow>
       (world, failure + string list) state" where
  "ingressSrcIPBlocksRules policy targetDestPodIpSetName version i r activePolicyIpSets =
     (let policyChainName = networkPolicyChainName (namespace policy) (name policy) version;
          srcIpBlockIpSetName = policyIndexedSourceIpBlockIpSetName (namespace policy) (name policy) i;
          comment = policyComment
            ''rule to ACCEPT traffic from specified ipBlocks to dest pods selected by policy name: ''
            policy
      in if length (srcIPBlocks r) \<noteq> 0 then do {
           c \<leftarrow> IPSet_Create srcIpBlockIpSetName [TypeHashNet, OptionTimeout, ''0''];
           case c of
             Inl e \<Rightarrow> return (Inl (Err ''failed to create ipset: ''))
           | Inr srcIpBlockIpSet \<Rightarrow> do {
               err \<leftarrow> Set_RefreshWithBuiltinOptions srcIpBlockIpSet (srcIPBlocks r);
               logIfErr err ''failed to refresh srcIpBlockIpSet: '';
               thenE (if \<not> matchAllPorts r then
                        thenE (portRules policyChainName comment srcIpBlockIpSetName
                                 targetDestPodIpSetName (ports r)) (\<lambda>u.
                          namedPortRules
                            (policyIndexedIngressNamedPortIpSetName (namespace policy) (name policy) i)
                            policyChainName comment srcIpBlockIpSetName (namedPorts r)
                            (List.insert srcIpBlockIpSet activePolicyIpSets))
                      else return (Inr (List.insert srcIpBlockIpSet activePolicyIpSets))) (\<lambda>active.
               thenE (if matchAllPorts r
                      then appendRuleToPolicyChain policyChainName comment srcIpBlockIpSetName
                             targetDestPodIpSetName [] []
                      else return (Inr ())) (\<lambda>u. return (Inr active)))
             }
         }
         else return (Inr activePolicyIpSets))"

definition processIngressRules ::
    "networkPolicyInfo \<Rightarrow> string \<Rightarrow> string list \<Rightarrow> string \<Rightarrow> (world, failure + string list) state" where
  "processIngressRules policy targetDestPodIpSetName activePolicyIpSets version =
     (case ingressRules policy of
        None \<Rightarrow> return (Inr activePolicyIpSets)
      | Some rules \<Rightarrow> do {
          h \<leftarrow> iptables_New;
          if isl h then return (Inl (Err ''Failed to initialize iptables executor due to: ''))
          else foldE (\<lambda>(i, r) active.
                 thenE (ingressSrcPodsRules policy targetDestPodIpSetName version i r active)
                   (\<lambda>active.
                 thenE (ingressMatchAllSourceRules policy targetDestPodIpSetName version i r active)
                   (\<lambda>active.
                 ingressSrcIPBlocksRules policy targetDestPodIpSetName version i r active)))
               (enumerate 0 rules) activePolicyIpSets
        })"

definition egressDstPodsRules ::
    "networkPolicyInfo \<Rightarrow> string \<Rightarrow> string \<Rightarrow> nat \<Rightarrow> egressRule \<Rightarrow> string list \<Rightarrow>
       (world, failure + string list) state" where
  "egressDstPodsRules policy targetSourcePodIpSetName version i r activePolicyIpSets =
     (let policyChainName = networkPolicyChainName (namespace policy) (name policy) version;
          dstPodIpSetName = policyIndexedDestinationPodIpSetName (namespace policy) (name policy) i;
          comment = policyComment
            ''rule to ACCEPT traffic from source pods to dest pods selected by policy name '' policy
      in if length (dstPods r) \<noteq> 0 then do {
           c \<leftarrow> IPSet_Create dstPodIpSetName [TypeHashIP, OptionTimeout, ''0''];
           case c of
             Inl e \<Rightarrow> return (Inl (Err ''failed to create ipset: ''))
           | Inr dstPodIpSet \<Rightarrow> do {
               err \<leftarrow> Set_Refresh dstPodIpSet (map ip (dstPods r)) [OptionTimeout, ''0''];
               logIfErr err ''failed to refresh dstPodIpSet: '';
               thenE (if length (egressPorts r) \<noteq> 0
                      then portRules policyChainName comment targetSourcePodIpSetName dstPodIpSetName
                             (egressPorts r)
                      else return (Inr ())) (\<lambda>u.
               thenE (if length (egressNamedPorts r) \<noteq> 0
                      then namedPortRules
                             (policyIndexedEgressNamedPortIpSetName (namespace policy) (name policy) i)
                             policyChainName comment targetSourcePodIpSetName (egressNamedPorts r)
                             (List.insert dstPodIpSet activePolicyIpSets)
                      else return (Inr (List.insert dstPodIpSet activePolicyIpSets))) (\<lambda>active.
               thenE (if length (egressPorts r) = 0 \<and> length (egressNamedPorts r) = 0
                      then appendRuleToPolicyChain policyChainName comment targetSourcePodIpSetName
                             dstPodIpSetName [] []
                      else return (Inr ())) (\<lambda>u. return (Inr active))))
             }
         }
         else return (Inr activePolicyIpSets))"

definition egressMatchAllDestinationsRules ::
    "networkPolicyInfo \<Rightarrow> string \<Rightarrow> string \<Rightarrow> nat \<Rightarrow> egressRule \<Rightarrow> string list \<Rightarrow>
       (world, failure + string list) state" where
  "egressMatchAllDestinationsRules policy targetSourcePodIpSetName version i r activePolicyIpSets =
     (let policyChainName = networkPolicyChainName (namespace policy) (name policy) version;
          comment = policyComment
            ''rule to ACCEPT traffic from source pods to all destinations selected by policy name: ''
            policy
      in thenE (if matchAllDestinations r \<and> \<not> egressMatchAllPorts r
                then portRules policyChainName comment targetSourcePodIpSetName [] (egressPorts r)
                else return (Inr ())) (\<lambda>u.
         thenE (if matchAllDestinations r \<and> egressMatchAllPorts r
                then appendRuleToPolicyChain policyChainName comment targetSourcePodIpSetName [] [] []
                else return (Inr ())) (\<lambda>u. return (Inr activePolicyIpSets))))"

definition egressDstIPBlocksRules ::
    "networkPolicyInfo \<Rightarrow> string \<Rightarrow> string \<Rightarrow> nat \<Rightarrow> egressRule \<Rightarrow> string list \<Rightarrow>
       (world, failure + string list) state" where
  "egressDstIPBlocksRules policy targetSourcePodIpSetName version i r activePolicyIpSets =
     (let policyChainName = networkPolicyChainName (namespace policy) (name policy) version;
          dstIpBlockIpSetName =
            policyIndexedDestinationIpBlockIpSetName (namespace policy) (name policy) i;
          comment = policyComment
            ''rule to ACCEPT traffic from source pods to specified ipBlocks selected by policy name: ''
            policy
      in if length (dstIPBlocks r) \<noteq> 0 then do {
           c \<leftarrow> IPSet_Create dstIpBlockIpSetName [TypeHashNet, OptionTimeout, ''0''];
           case c of
             Inl e \<Rightarrow> return (Inl (Err ''failed to create ipset: ''))
           | Inr dstIpBlockIpSet \<Rightarrow> do {
               err \<leftarrow> Set_RefreshWithBuiltinOptions dstIpBlockIpSet (dstIPBlocks r);
               logIfErr err ''failed to refresh dstIpBlockIpSet: '';
               thenE (if \<not> egressMatchAllPorts r
                      then portRules policyChainName comment targetSourcePodIpSetName
                             dstIpBlockIpSetName (egressPorts r)
                      else return (Inr ())) (\<lambda>u.
               thenE (if egressMatchAllPorts r
                      then appendRuleToPolicyChain policyChainName comment targetSourcePodIpSetName
                             dstIpBlockIpSetName [] []
                      else return (Inr ())) (\<lambda>u.
                 return (Inr (List.insert dstIpBlockIpSet activePolicyIpSets))))
             }
         }
         else return (Inr activePolicyIpSets))"

definition processEgressRules ::
    "networkPolicyInfo \<Rightarrow> string \<Rightarrow> string list \<Rightarrow> string \<Rightarrow> (world, failure + string list) state" where
  "processEgressRules policy targetSourcePodIpSetName activePolicyIpSets version =
     (case egressRules policy of
        None \<Rightarrow> return (Inr activePolicyIpSets)
      | Some rules \<Rightarrow> do {
          h \<leftarrow> iptables_New;
          if isl h then return (Inl (Err ''Failed to initialize iptables executor due to: ''))
          else foldE (\<lambda>(i, r) active.
                 thenE (egressDstPodsRules policy targetSourcePodIpSetName version i r active)
                   (\<lambda>active.
                 thenE (egressMatchAllDestinationsRules policy targetSourcePodIpSetName version i r active)
                   (\<lambda>active.
                 egressDstIPBlocksRules policy targetSourcePodIpSetName version i r active)))
               (enumerate 0 rules) activePolicyIpSets
        })"

text \<open>The body of the loop over the policies: its chain, its target sets and its rules.\<close>

definition syncPolicyChain ::
    "string \<Rightarrow> networkPolicyInfo \<Rightarrow> string list \<times> string list \<Rightarrow>
       (world, failure + string list \<times> string list) state" where
  "syncPolicyChain version policy acc =
     (let activePolicyChains = fst acc;
          activePolicyIpSets = snd acc;
          policyChainName = networkPolicyChainName (namespace policy) (name policy) version;
          currnetPodIps = map fst (targetPods policy)
      in do {
        err \<leftarrow> iptables_NewChain policyChainName;
        if isl err \<and> ExitStatus (projl err) \<noteq> 1
        then return (Inl (Err ''Failed to run iptables command: ''))
        else
          thenE (if policyType policy = ''both'' \<or> policyType policy = ''ingress'' then do {
                   c \<leftarrow> IPSet_Create (policyDestinationPodIpSetName (namespace policy) (name policy))
                         [TypeHashIP, OptionTimeout, ''0''];
                   case c of
                     Inl e \<Rightarrow> return (Inl (Err ''failed to create ipset: ''))
                   | Inr targetDestPodIpSet \<Rightarrow> do {
                       err \<leftarrow> Set_Refresh targetDestPodIpSet currnetPodIps [OptionTimeout, ''0''];
                       logIfErr err ''failed to refresh targetDestPodIpSet,: '';
                       thenE (processIngressRules policy
                                (policyDestinationPodIpSetName (namespace policy) (name policy))
                                activePolicyIpSets version)
                         (\<lambda>active. return (Inr (List.insert targetDestPodIpSet active)))
                     }
                 }
                 else return (Inr activePolicyIpSets)) (\<lambda>active.
          thenE (if policyType policy = ''both'' \<or> policyType policy = ''egress'' then do {
                   c \<leftarrow> IPSet_Create (policySourcePodIpSetName (namespace policy) (name policy))
                         [TypeHashIP, OptionTimeout, ''0''];
                   case c of
                     Inl e \<Rightarrow> return (Inl (Err ''failed to create ipset: ''))
                   | Inr targetSourcePodIpSet \<Rightarrow> do {
                       err \<leftarrow> Set_Refresh targetSourcePodIpSet currnetPodIps [OptionTimeout, ''0''];
                       logIfErr err ''failed to refresh targetSourcePodIpSet: '';
                       thenE (processEgressRules policy
                                (policySourcePodIpSetName (namespace policy) (name policy))
                                active version)
                         (\<lambda>active. return (Inr (List.insert targetSourcePodIpSet active)))
                     }
                 }
                 else return (Inr active)) (\<lambda>active.
            return (Inr (List.insert policyChainName activePolicyChains, active))))
      })"

definition syncNetworkPolicyChains ::
    "NetworkPolicyController \<Rightarrow> string \<Rightarrow> (world, failure + string list \<times> string list) state" where
  "syncNetworkPolicyChains npc version = do {
     h \<leftarrow> iptables_New;
     if isl h then return (Inl (Fatal ''Failed to initialize iptables executor due to: ''))
     else foldE (syncPolicyChain version) (networkPoliciesInfo npc) ([], [])
   }"

definition getIngressNetworkPolicyEnabledPods ::
    "NetworkPolicyController \<Rightarrow> string \<Rightarrow> (string \<times> podInfo) list" where
  "getIngressNetworkPolicyEnabledPods npc nodeIp =
     foldl (\<lambda>nodePods pod.
         if Pod_HostIP pod \<noteq> nodeIp then nodePods
         else if list_ex (\<lambda>policy.
                    namespace policy = Pod_Namespace pod \<and>
                    map_of (targetPods policy) (Pod_PodIP pod) \<noteq> None \<and>
                    (policyType policy = ''both'' \<or> policyType policy = ''ingress''))
                  (networkPoliciesInfo npc)
         then AList.update (Pod_PodIP pod) (podInfoOf pod) nodePods
         else nodePods)
       [] (podLister npc)"

definition getEgressNetworkPolicyEnabledPods ::
    "NetworkPolicyController \<Rightarrow> string \<Rightarrow> (string \<times> podInfo) list" where
  "getEgressNetworkPolicyEnabledPods npc nodeIp =
     foldl (\<lambda>nodePods pod.
         if Pod_HostIP pod \<noteq> nodeIp then nodePods
         else if list_ex (\<lambda>policy.
                    namespace policy = Pod_Namespace pod \<and>
                    map_of (targetPods policy) (Pod_PodIP pod) \<noteq> None \<and>
                    (policyType policy = ''both'' \<or> policyType policy = ''egress''))
                  (networkPoliciesInfo npc)
         then AList.update (Pod_PodIP pod) (podInfoOf pod) nodePods
         else nodePods)
       [] (podLister npc)"

text \<open>
  \<open>exists, err := Exists(...)\<close>, an error returned, and \<open>Insert\<close> at position 1 when the rule is
  absent: the source writes this out for every rule it ensures. For the jumps into policy
  chains an \<open>Insert\<close> that fails with exit status 1 is let through.
\<close>

definition ensureRule :: "string \<Rightarrow> rulespec \<Rightarrow> (world, failure + unit) state" where
  "ensureRule chain args = do {
     r \<leftarrow> iptables_Exists chain args;
     case r of
       Inl e \<Rightarrow> return (Inl (Err ''Failed to run iptables command: ''))
     | Inr exists \<Rightarrow>
         if \<not> exists then do {
           err \<leftarrow> iptables_Insert chain 1 args;
           if isl err then return (Inl (Err ''Failed to run iptables command: ''))
           else return (Inr ())
         }
         else return (Inr ())
   }"

definition ensurePolicyJump :: "string \<Rightarrow> rulespec \<Rightarrow> (world, failure + unit) state" where
  "ensurePolicyJump chain args = do {
     r \<leftarrow> iptables_Exists chain args;
     case r of
       Inl e \<Rightarrow> return (Inl (Err ''Failed to run iptables command: ''))
     | Inr exists \<Rightarrow>
         if \<not> exists then do {
           err \<leftarrow> iptables_Insert chain 1 args;
           if isl err \<and> ExitStatus (projl err) \<noteq> 1
           then return (Inl (Err ''Failed to run iptables command: ''))
           else return (Inr ())
         }
         else return (Inr ())
   }"

definition appendUnique :: "string \<Rightarrow> rulespec \<Rightarrow> (world, failure + unit) state" where
  "appendUnique chain args = do {
     err \<leftarrow> iptables_AppendUnique chain args;
     if isl err then return (Inl (Err ''Failed to run iptables command: ''))
     else return (Inr ())
   }"

text \<open>The jumps from a pod's chain into the chains of the policies that target its address.\<close>

definition podPolicyJumps ::
    "NetworkPolicyController \<Rightarrow> string \<Rightarrow> podInfo \<Rightarrow> string \<Rightarrow> (world, failure + unit) state" where
  "podPolicyJumps npc version pod podFwChainName =
     forE (networkPoliciesInfo npc) (\<lambda>policy.
       if map_of (targetPods policy) (ip pod) \<noteq> None
       then ensurePolicyJump podFwChainName
              [''-m'', ''comment'', ''--comment'', ''run through nw policy '' @ name policy,
               ''-j'', networkPolicyChainName (namespace policy) (name policy) version]
       else return (Inr ()))"

definition podLogAndReject :: "podInfo \<Rightarrow> string \<Rightarrow> (world, failure + unit) state" where
  "podLogAndReject pod podFwChainName =
     thenE (appendUnique podFwChainName
              [''-m'', ''comment'', ''--comment'',
               ''rule to log dropped traffic POD name:'' @ podName pod @ '' namespace: '' @
                 podNamespace pod,
               ''-j'', ''NFLOG'', ''--nflog-group'', ''100'', ''-m'', ''limit'', ''--limit'',
               ''10/minute'', ''--limit-burst'', ''10'']) (\<lambda>u.
       appendUnique podFwChainName
         [''-m'', ''comment'', ''--comment'',
          ''default rule to REJECT traffic destined for POD name:'' @ podName pod @
            '' namespace: '' @ podNamespace pod,
          ''-j'', ''REJECT''])"

definition statefulRule :: rulespec where
  "statefulRule = [''-m'', ''comment'', ''--comment'', ''rule for stateful firewall for pod'',
                   ''-m'', ''conntrack'', ''--ctstate'', ''RELATED,ESTABLISHED'', ''-j'', ''ACCEPT'']"

definition syncIngressPodFirewall ::
    "NetworkPolicyController \<Rightarrow> string \<Rightarrow> podInfo \<Rightarrow> string list \<Rightarrow> (world, failure + string list) state" where
  "syncIngressPodFirewall npc version pod activePodFwChains =
     (if length (ip pod) = 0 \<or> ip pod = [] then return (Inr activePodFwChains)
      else
        (let podFwChainName = podFirewallChainName (podNamespace pod) (podName pod) version;
             jumpComment = ''rule to jump traffic destined to POD name:'' @ podName pod @
               '' namespace: '' @ podNamespace pod @ '' to chain '' @ podFwChainName
         in do {
           err \<leftarrow> iptables_NewChain podFwChainName;
           if isl err \<and> ExitStatus (projl err) \<noteq> 1
           then return (Inl (Err ''Failed to run iptables command: ''))
           else
             thenE (podPolicyJumps npc version pod podFwChainName) (\<lambda>u.
             thenE (ensureRule podFwChainName
                      [''-m'', ''comment'', ''--comment'',
                       ''rule to permit the traffic traffic to pods when source is the pod's local node'',
                       ''-m'', ''addrtype'', ''--src-type'', ''LOCAL'', ''-d'', ip pod,
                       ''-j'', ''ACCEPT'']) (\<lambda>u.
             thenE (ensureRule podFwChainName statefulRule) (\<lambda>u.
             thenE (ensureRule ''FORWARD''
                      [''-m'', ''comment'', ''--comment'', jumpComment, ''-d'', ip pod,
                       ''-j'', podFwChainName]) (\<lambda>u.
             thenE (ensureRule ''OUTPUT''
                      [''-m'', ''comment'', ''--comment'', jumpComment, ''-d'', ip pod,
                       ''-j'', podFwChainName]) (\<lambda>u.
             thenE (ensureRule ''FORWARD''
                      [''-m'', ''physdev'', ''--physdev-is-bridged'',
                       ''-m'', ''comment'', ''--comment'', jumpComment, ''-d'', ip pod,
                       ''-j'', podFwChainName]) (\<lambda>u.
             thenE (podLogAndReject pod podFwChainName) (\<lambda>u.
               return (Inr (List.insert podFwChainName activePodFwChains)))))))))
         }))"

definition syncEgressPodFirewall ::
    "NetworkPolicyController \<Rightarrow> string \<Rightarrow> podInfo \<Rightarrow> string list \<Rightarrow> (world, failure + string list) state" where
  "syncEgressPodFirewall npc version pod activePodFwChains =
     (if length (ip pod) = 0 \<or> ip pod = [] then return (Inr activePodFwChains)
      else
        (let podFwChainName = podFirewallChainName (podNamespace pod) (podName pod) version;
             jumpComment = ''rule to jump traffic from POD name:'' @ podName pod @
               '' namespace: '' @ podNamespace pod @ '' to chain '' @ podFwChainName
         in do {
           err \<leftarrow> iptables_NewChain podFwChainName;
           if isl err \<and> ExitStatus (projl err) \<noteq> 1
           then return (Inl (Err ''Failed to run iptables command: ''))
           else
             thenE (podPolicyJumps npc version pod podFwChainName) (\<lambda>u.
             thenE (ensureRule podFwChainName statefulRule) (\<lambda>u.
             thenE (forE [''FORWARD'', ''OUTPUT'', ''INPUT''] (\<lambda>chain.
                      ensureRule chain
                        [''-m'', ''comment'', ''--comment'', jumpComment, ''-s'', ip pod,
                         ''-j'', podFwChainName])) (\<lambda>u.
             thenE (ensureRule ''FORWARD''
                      [''-m'', ''physdev'', ''--physdev-is-bridged'',
                       ''-m'', ''comment'', ''--comment'', jumpComment, ''-s'', ip pod,
                       ''-j'', podFwChainName]) (\<lambda>u.
             thenE (podLogAndReject pod podFwChainName) (\<lambda>u.
               return (Inr (List.insert podFwChainName activePodFwChains)))))))
         }))"

definition syncPodFirewallChains ::
    "NetworkPolicyController \<Rightarrow> string \<Rightarrow> (world, failure + string list) state" where
  "syncPodFirewallChains npc version = do {
     h \<leftarrow> iptables_New;
     if isl h then return (Inl (Fatal ''Failed to initialize iptables executor: ''))
     else
       thenE (foldE (\<lambda>pod. syncIngressPodFirewall npc version (snd pod))
                (getIngressNetworkPolicyEnabledPods npc (nodeIP npc)) []) (\<lambda>active.
         foldE (\<lambda>pod. syncEgressPodFirewall npc version (snd pod))
           (getEgressNetworkPolicyEnabledPods npc (nodeIP npc)) active)
   }"

text \<open>
  Removing the references to a stale pod chain from a top-level chain: the rules listed are
  scanned for the chain's name and deleted by number, \<open>realRuleNo\<close> counting the deletions.
\<close>

definition deletePodFwChainReferences :: "string \<Rightarrow> string \<Rightarrow> (world, failure + unit) state" where
  "deletePodFwChainReferences podFwChain egressChain = do {
     r \<leftarrow> iptables_List egressChain;
     case r of
       Inl e \<Rightarrow> return (Inl (Err (''failed to list rules in filter table, '' @ egressChain @
                                '' podFwChain due to '')))
     | Inr forwardChainRules \<Rightarrow>
         thenE (foldE (\<lambda>(i, rule) realRuleNo.
                   if sublist podFwChain rule then do {
                     err \<leftarrow> iptables_Delete egressChain (int i - realRuleNo);
                     if isl err
                     then return (Inl (Err (''failed to delete rule: '' @ rule @ '' from the '' @
                            egressChain @ '' podFwChain of filter table due to '')))
                     else return (Inr (realRuleNo + 1))
                   }
                   else return (Inr realRuleNo))
                 (enumerate 0 forwardChainRules) 0) (\<lambda>n. return (Inr ()))
   }"

definition clearAndDeleteChain :: "string \<Rightarrow> string \<Rightarrow> string \<Rightarrow> (world, failure + unit) state" where
  "clearAndDeleteChain chain clearMsg deleteMsg = do {
     err \<leftarrow> iptables_ClearChain chain;
     if isl err then return (Inl (Err clearMsg))
     else do {
       err \<leftarrow> iptables_DeleteChain chain;
       if isl err then return (Inl (Err deleteMsg)) else return (Inr ())
     }
   }"

text \<open>
  In an active pod chain the first rule whose text holds the stale policy chain's name is
  deleted; an error of \<open>List\<close> is dropped there, and the loop then runs over no rules.
\<close>

definition deletePolicyChainReference :: "string \<Rightarrow> string \<Rightarrow> (world, failure + unit) state" where
  "deletePolicyChainReference policyChain podFwChain = do {
     r \<leftarrow> iptables_List podFwChain;
     case find (\<lambda>(i, rule). sublist policyChain rule)
            (enumerate 0 (case r of Inl e \<Rightarrow> [] | Inr podFwChainRules \<Rightarrow> podFwChainRules)) of
       None \<Rightarrow> return (Inr ())
     | Some (i, rule) \<Rightarrow> do {
         err \<leftarrow> iptables_Delete podFwChain (int i);
         if isl err
         then return (Inl (Err (''Failed to delete rule '' @ rule @ '' from the chain '' @ podFwChain)))
         else return (Inr ())
       }
   }"

definition cleanupStaleRules ::
    "string list \<Rightarrow> string list \<Rightarrow> string list \<Rightarrow> (world, failure + unit) state" where
  "cleanupStaleRules activePolicyChains activePodFwChains activePolicyIPSets = do {
     h \<leftarrow> iptables_New;
     if isl h then return (Inl (Fatal ''failed to initialize iptables command executor due to ''))
     else do {
       n \<leftarrow> NewIPSet;
       if isl n then return (Inl (Fatal ''failed to create ipsets command executor due to ''))
       else do {
         s \<leftarrow> IPSet_Save;
         case s of
           Inl e \<Rightarrow> return (Inl (Fatal ''failed to initialize ipsets command executor due to ''))
         | Inr sets \<Rightarrow> do {
             l \<leftarrow> iptables_ListChains;
             let chains = (case l of Inl e \<Rightarrow> [] | Inr cs \<Rightarrow> cs);
             let cleanupPolicyChains =
                   filter (\<lambda>chain. prefix kubeNetworkPolicyChainPrefix chain \<and>
                                   chain \<notin> set activePolicyChains) chains;
             let cleanupPodFwChains =
                   filter (\<lambda>chain. prefix kubePodFirewallChainPrefix chain \<and>
                                   chain \<notin> set activePodFwChains) chains;
             let cleanupPolicyIPSets =
                   filter (\<lambda>setName. (prefix kubeSourceIpSetPrefix setName \<or>
                                       prefix kubeDestinationIpSetPrefix setName) \<and>
                                      setName \<notin> set activePolicyIPSets) sets;
             thenE (forE cleanupPodFwChains (\<lambda>podFwChain.
                      forE [''FORWARD'', ''OUTPUT'', ''INPUT'']
                        (deletePodFwChainReferences podFwChain))) (\<lambda>u.
             thenE (forE cleanupPodFwChains (\<lambda>chain.
                      clearAndDeleteChain chain
                        (''Failed to flush the rules in chain '' @ chain @ '' due to '')
                        (''Failed to delete the chain '' @ chain @ '' due to ''))) (\<lambda>u.
             thenE (forE cleanupPolicyChains (\<lambda>policyChain.
                      thenE (forE activePodFwChains (deletePolicyChainReference policyChain)) (\<lambda>u.
                        clearAndDeleteChain policyChain
                          (''Failed to flush the rules in chain '' @ policyChain @ '' due to  '')
                          (''Failed to flush the rules in chain '' @ policyChain @ '' due to ''))))
               (\<lambda>u.
               forE cleanupPolicyIPSets (\<lambda>setName. do {
                 err \<leftarrow> Set_Destroy setName;
                 if isl err then return (Inl (Err (''Failed to delete ipset '' @ setName @ '' due to '')))
                 else return (Inr ())
               }))))
           }
       }
     }
   }"

section \<open>Reconcile, periodic loop and event callbacks\<close>

definition wrapErr :: "string \<Rightarrow> failure \<Rightarrow> failure" where
  "wrapErr pre e = (case e of Err m \<Rightarrow> Err (pre @ m) | Fatal m \<Rightarrow> Fatal m | Panic \<Rightarrow> Panic)"

text \<open>
  \<open>Sync\<close> returns its error and the controller as it leaves it (the policy model is a field
  of the controller). The mutex and the duration metric have no counterpart here.
\<close>

definition Sync ::
    "NetworkPolicyController \<Rightarrow> (world, (failure + unit) \<times> NetworkPolicyController) state" where
  "Sync npc = do {
     SendHeartBeat;
     start \<leftarrow> Now_UnixNano;
     let syncVersion = FormatInt start;
     case (if v1NetworkPolicy npc then buildNetworkPoliciesInfo npc
           else buildBetaNetworkPoliciesInfo npc) of
       Inl e \<Rightarrow>
         return (Inl (wrapErr ''Aborting sync. Failed to build network policies: '' e),
                 npc\<lparr>networkPoliciesInfo := []\<rparr>)
     | Inr infos \<Rightarrow> do {
         let npc = npc\<lparr>networkPoliciesInfo := infos\<rparr>;
         r1 \<leftarrow> syncNetworkPolicyChains npc syncVersion;
         case r1 of
           Inl e \<Rightarrow>
             return (Inl (wrapErr ''Aborting sync. Failed to sync network policy chains: '' e), npc)
         | Inr (activePolicyChains, activePolicyIpSets) \<Rightarrow> do {
             r2 \<leftarrow> syncPodFirewallChains npc syncVersion;
             case r2 of
               Inl e \<Rightarrow>
                 return (Inl (wrapErr ''Aborting sync. Failed to sync pod firewalls: '' e), npc)
             | Inr activePodFwChains \<Rightarrow> do {
                 r3 \<leftarrow> cleanupStaleRules activePolicyChains activePodFwChains activePolicyIpSets;
                 case r3 of
                   Inl e \<Rightarrow>
                     return (Inl (wrapErr ''Aborting sync. Failed to cleanup stale iptables rules: '' e),
                             npc)
                 | Inr u \<Rightarrow> return (Inr (), npc)
               }
           }
       }
   }"

text \<open>
  One turn of the loop of \<open>Run\<close>, from the call of \<open>Sync\<close> to the assignment of
  \<open>readyForUpdates\<close>. A \<open>Fatalf\<close> or a panic inside \<open>Sync\<close> ends the process: the turn
  reports it and the flag stays as it was.
\<close>

definition periodicSync ::
    "NetworkPolicyController \<Rightarrow> (world, bool \<times> NetworkPolicyController) state" where
  "periodicSync npc = do {
     (err, npc) \<leftarrow> Sync npc;
     case err of
       Inl (Err m) \<Rightarrow> do {
         glog_Errorf ''Error during periodic sync of network policies in network policy controller. Error: '';
         glog_Errorf ''Skipping sending heartbeat from network policy controller as periodic sync failed.'';
         return (True, npc\<lparr>readyForUpdates := True\<rparr>)
       }
     | Inl died \<Rightarrow> return (False, npc)
     | Inr u \<Rightarrow> do {
         SendHeartBeat;
         return (True, npc\<lparr>readyForUpdates := True\<rparr>)
       }
   }"

text \<open>
  \<open>Run\<close> reads two things of its environment in each turn: whether \<open>stopCh\<close> is closed when the
  turn starts, and which of \<open>stopCh\<close> and the ticker wakes it after the reconcile. They are
  given as a list, one pair per turn; the loop ends with the list.
\<close>

datatype wakeup = TickerFired | StopClosed

fun Run :: "(bool \<times> wakeup) list \<Rightarrow> NetworkPolicyController \<Rightarrow>
    (world, NetworkPolicyController) state" where
  "Run [] npc = return npc"
| "Run ((stopped, wake) # turns) npc =
     (if stopped then return npc
      else do {
        (alive, npc) \<leftarrow> periodicSync npc;
        if \<not> alive then return npc
        else (case wake of StopClosed \<Rightarrow> return npc | TickerFired \<Rightarrow> Run turns npc)
      })"

definition logSyncError :: "failure + unit \<Rightarrow> string \<Rightarrow> (world, unit) state" where
  "logSyncError err msg = (case err of Inl (Err m) \<Rightarrow> glog_Errorf msg | _ \<Rightarrow> return ())"

definition OnPodUpdate :: "NetworkPolicyController \<Rightarrow> Pod \<Rightarrow> (world, NetworkPolicyController) state" where
  "OnPodUpdate npc pod =
     (if \<not> readyForUpdates npc then return npc
      else do {
        (err, npc) \<leftarrow> Sync npc;
        logSyncError err ''Error syncing network policy for the update to pod: '';
        return npc
      })"

definition OnNetworkPolicyUpdate ::
    "NetworkPolicyController \<Rightarrow> NetworkPolicy \<Rightarrow> (world, NetworkPolicyController) state" where
  "OnNetworkPolicyUpdate npc netpol =
     (if \<not> readyForUpdates npc then return npc
      else do {
        (err, npc) \<leftarrow> Sync npc;
        logSyncError err ''Error syncing network policy for the update to network policy: '';
        return npc
      })"

definition OnNamespaceUpdate ::
    "NetworkPolicyController \<Rightarrow> Namespace \<Rightarrow> (world, NetworkPolicyController) state" where
  "OnNamespaceUpdate npc ns =
     (if v1NetworkPolicy npc then return npc
      else if \<not> readyForUpdates npc then return npc
      else do {
        (err, npc) \<leftarrow> Sync npc;
        logSyncError err ''Error syncing on namespace update: '';
        return npc
      })"

text \<open>
  What a delete callback is handed: the object, a tombstone that holds it, or something else
  (with or without a tombstone), which is logged and dropped.
\<close>

datatype 'a deleted = Object 'a | Tombstone 'a | Unexpected

definition handlePodDelete ::
    "NetworkPolicyController \<Rightarrow> Pod deleted \<Rightarrow> (world, NetworkPolicyController) state" where
  "handlePodDelete npc obj =
     (case obj of
        Unexpected \<Rightarrow> do { glog_Errorf ''unexpected object type: ''; return npc }
      | _ \<Rightarrow>
          if \<not> readyForUpdates npc then return npc
          else do {
            (err, npc) \<leftarrow> Sync npc;
            logSyncError err ''Error syncing network policy for pod: delete event Error: '';
            return npc
          })"

definition handleNamespaceDelete ::
    "NetworkPolicyController \<Rightarrow> Namespace deleted \<Rightarrow> (world, NetworkPolicyController) state" where
  "handleNamespaceDelete npc obj =
     (case obj of
        Unexpected \<Rightarrow> do { glog_Errorf ''unexpected object type: ''; return npc }
      | _ \<Rightarrow>
          if v1NetworkPolicy npc then return npc
          else if \<not> readyForUpdates npc then return npc
          else do {
            (err, npc) \<leftarrow> Sync npc;
            logSyncError err ''Error syncing network policies on namespace: delete event'';
            return npc
          })"

definition handleNetworkPolicyDelete ::
    "NetworkPolicyController \<Rightarrow> NetworkPolicy deleted \<Rightarrow> (world, NetworkPolicyController) state" where
  "handleNetworkPolicyDelete npc obj =
     (case obj of
        Unexpected \<Rightarrow> do { glog_Errorf ''unexpected object type: ''; return npc }
      | _ \<Rightarrow>
          if \<not> readyForUpdates npc then return npc
          else do {
            (err, npc) \<leftarrow> Sync npc;
            logSyncError err ''Error syncing network policy for the network policy: delete event, Error: '';
            return npc
          })"

text \<open>The events the three informers deliver, and the callbacks registered for them.\<close>

datatype event =
    PodAdd Pod
  | PodUpdate Pod Pod
  | PodDelete "Pod deleted"
  | NamespaceAdd Namespace
  | NamespaceUpdate Namespace Namespace
  | NamespaceDelete "Namespace deleted"
  | NetworkPolicyAdd NetworkPolicy
  | NetworkPolicyUpdate NetworkPolicy NetworkPolicy
  | NetworkPolicyDelete "NetworkPolicy deleted"

fun handleEvent :: "NetworkPolicyController \<Rightarrow> event \<Rightarrow> (world, NetworkPolicyController) state" where
  "handleEvent npc (PodAdd obj) = OnPodUpdate npc obj"
| "handleEvent npc (PodUpdate oldObj newObj) =
     (if Pod_Phase newObj \<noteq> Pod_Phase oldObj \<or> Pod_PodIP newObj \<noteq> Pod_PodIP oldObj
      then OnPodUpdate npc newObj else return npc)"
| "handleEvent npc (PodDelete obj) = handlePodDelete npc obj"
| "handleEvent npc (NamespaceAdd obj) = OnNamespaceUpdate npc obj"
| "handleEvent npc (NamespaceUpdate oldObj newObj) = OnNamespaceUpdate npc newObj"
| "handleEvent npc (NamespaceDelete obj) = handleNamespaceDelete npc obj"
| "handleEvent npc (NetworkPolicyAdd obj) = OnNetworkPolicyUpdate npc obj"
| "handleEvent npc (NetworkPolicyUpdate oldObj newObj) = OnNetworkPolicyUpdate npc newObj"
| "handleEvent npc (NetworkPolicyDelete obj) = handleNetworkPolicyDelete npc obj"

section \<open>Spec-side definitions used in comparisons\<close>

text \<open>
  The policy kind as the specification words it for a policy that declares neither type:
  the kind present in the policy, read off the rule sections it carries.
\<close>

definition presentKind :: "NetworkPolicy \<Rightarrow> string" where
  "presentKind policy =
     (if Spec_Ingress policy \<noteq> None \<and> Spec_Egress policy \<noteq> None then ''both''
      else if Spec_Egress policy \<noteq> None then ''egress''
      else ''ingress'')"

definition specPolicyKind :: "NetworkPolicy \<Rightarrow> string" where
  "specPolicyKind policy =
     (let ingressDeclared = (PolicyTypeIngress \<in> set (Spec_PolicyTypes policy));
          egressDeclared = (PolicyTypeEgress \<in> set (Spec_PolicyTypes policy))
      in if ingressDeclared \<and> egressDeclared then ''both''
         else if egressDeclared then ''egress''
         else if ingressDeclared then ''ingress''
         else presentKind policy)"

section \<open>Concrete controllers and worlds\<close>

text \<open>
  A node with the three built-in chains and nothing else, on which every driver call runs;
  a controller in current-schema mode that has not reconciled yet and whose caches are empty;
  and the container and the deny-all ingress policy of the specification's first scenario.
\<close>

definition freshWorld :: world where
  "freshWorld = \<lparr>filterTable = [(''INPUT'', []), (''FORWARD'', []), (''OUTPUT'', [])],
     kernelSets = [], faults = (\<lambda>c t. None), clock = 0, unixNano = (\<lambda>t. 1), heartbeats = 0,
     errorLog = []\<rparr>"

definition idleController :: NetworkPolicyController where
  "idleController = \<lparr>nodeIP = ''192.168.0.1'', v1NetworkPolicy = True, readyForUpdates = False,
     networkPoliciesInfo = [], podLister = [], npLister = [], nsLister = []\<rparr>"

definition podC :: Pod where
  "podC = \<lparr>Pod_Name = ''c'', Pod_Namespace = ''ns'', Pod_Labels = [(''app'', ''web'')],
     Pod_PodIP = ''10.0.0.5'', Pod_HostIP = ''192.168.0.1'', Pod_Phase = ''Running'',
     Pod_Containers = []\<rparr>"

definition denyAllIngress :: NetworkPolicy where
  "denyAllIngress = \<lparr>Policy_Name = ''p'', Policy_Namespace = ''ns'', Spec_PodSelector = Everything,
     Spec_PolicyTypes = [PolicyTypeIngress], Spec_Ingress = None, Spec_Egress = None\<rparr>"

definition denyAllController :: NetworkPolicyController where
  "denyAllController = idleController\<lparr>podLister := [podC], npLister := [NetworkingV1 denyAllIngress]\<rparr>"

text \<open>
  A policy that declares no policy type and carries one egress rule and no ingress section.
\<close>

definition undeclaredEgressPolicy :: NetworkPolicy where
  "undeclaredEgressPolicy = \<lparr>Policy_Name = ''p'', Policy_Namespace = ''ns'',
     Spec_PodSelector = Everything, Spec_PolicyTypes = [], Spec_Ingress = None,
     Spec_Egress = Some [\<lparr>Egress_Ports = [], Egress_To = []\<rparr>]\<rparr>"

text \<open>
  A node that still has a pod chain of an earlier epoch, on which listing the rules of
  \<open>FORWARD\<close> fails; and a node with a policy chain of an earlier epoch, on which listing the
  chains fails.
\<close>

definition listFailsWorld :: world where
  "listFailsWorld = freshWorld\<lparr>
     filterTable := [(''INPUT'', []), (''FORWARD'', []), (''OUTPUT'', []), (''KUBE-POD-FW-STALE'', [])],
     faults := (\<lambda>c t. if c = CmdList ''FORWARD'' then Some 4 else None)\<rparr>"

definition listChainsFailsWorld :: world where
  "listChainsFailsWorld = freshWorld\<lparr>
     filterTable := [(''INPUT'', []), (''FORWARD'', []), (''OUTPUT'', []), (''KUBE-NWPLCY-STALE'', [])],
     faults := (\<lambda>c t. if c = CmdListChains then Some 4 else None)\<rparr>"

text \<open>A node on which every creation of an address set fails.\<close>

definition createFailsWorld :: world where
  "createFailsWorld = freshWorld\<lparr>faults := (\<lambda>c t. case c of CmdCreate s \<Rightarrow> Some 1 | _ \<Rightarrow> None)\<rparr>"

section \<open>Two runs that differ in the outcome of refreshes\<close>

text \<open>
  Two worlds agree up to refreshes when they have the same packet filter, the same address
  set names, the same clock, clock readings and heartbeat count, and when every call other
  than a refresh has the same fate in both. The contents of the address sets and the error log
  may differ.
\<close>

definition isRefresh :: "call \<Rightarrow> bool" where
  "isRefresh c = (case c of CmdRefresh s \<Rightarrow> True | _ \<Rightarrow> False)"

definition sameButRefresh :: "world \<Rightarrow> world \<Rightarrow> bool" where
  "sameButRefresh w w' =
     (filterTable w = filterTable w' \<and> map fst (kernelSets w) = map fst (kernelSets w') \<and>
      clock w = clock w' \<and> unixNano w = unixNano w' \<and> heartbeats w = heartbeats w' \<and>
      (\<forall>c t. isRefresh c \<or> faults w c t = faults w' c t))"

text \<open>A node on which every refresh of an address set fails.\<close>

definition refreshFailsWorld :: world where
  "refreshFailsWorld = freshWorld\<lparr>faults := (\<lambda>c t. case c of CmdRefresh s \<Rightarrow> Some 1 | _ \<Rightarrow> None)\<rparr>"

text \<open>
  A legacy policy with one ingress rule that names no peer and no port, and a controller in
  legacy mode whose caches hold that policy and the container above.
\<close>

definition legacyPolicy :: NetworkPolicy where
  "legacyPolicy = \<lparr>Policy_Name = ''p'', Policy_Namespace = ''ns'', Spec_PodSelector = Everything,
     Spec_PolicyTypes = [], Spec_Ingress = Some [\<lparr>Ingress_Ports = [], Ingress_From = []\<rparr>],
     Spec_Egress = None\<rparr>"

definition legacyController :: NetworkPolicyController where
  "legacyController = idleController\<lparr>v1NetworkPolicy := False, podLister := [podC],
     npLister := [ExtensionsV1beta1 legacyPolicy]\<rparr>"

text \<open>
  The refreshes of the second world never fail, and the first world has logged at least as
  much as the second; when it has logged no more, the two worlds have the same address sets
  and the same log.
\<close>

definition refreshLogged :: "world \<Rightarrow> world \<Rightarrow> bool" where
  "refreshLogged w w' =
     (sameButRefresh w w' \<and> (\<forall>s t. faults w' (CmdRefresh s) t = None) \<and>
      length (errorLog w') \<le> length (errorLog w) \<and>
      (length (errorLog w) = length (errorLog w') \<longrightarrow>
         kernelSets w = kernelSets w' \<and> errorLog w = errorLog w'))"

section \<open>Two runs that differ in the outcome of set creations\<close>

text \<open>
  Two worlds of which the second is the first with the failures of set creations removed:
  they have the same packet filter, address sets, clock, clock readings, heartbeat count and
  log, every call other than a creation has the same fate in both, and in the second no
  creation fails.
\<close>

definition isCreate :: "call \<Rightarrow> bool" where
  "isCreate c = (case c of CmdCreate s \<Rightarrow> True | _ \<Rightarrow> False)"

definition createFaultsRemoved :: "world \<Rightarrow> world \<Rightarrow> bool" where
  "createFaultsRemoved w w' =
     (filterTable w = filterTable w' \<and> kernelSets w = kernelSets w' \<and> clock w = clock w' \<and>
      unixNano w = unixNano w' \<and> heartbeats w = heartbeats w' \<and> errorLog w = errorLog w' \<and>
      (\<forall>c t. isCreate c \<or> faults w c t = faults w' c t) \<and>
      (\<forall>s t. faults w' (CmdCreate s) t = None))"

section \<open>Computations that keep a relation between two runs\<close>

text \<open>
  A computation preserves a relation between worlds when, started in two related worlds, it
  returns the same value in both and ends in two related worlds. A computation that may return
  an error \<open>aborts on a failed creation\<close> when, started in a world and in the same world with
  the creation failures removed, it either returns the error \<open>failed to create ipset\<close> in the
  first, or returns the same value and ends in the same state in both.
\<close>

definition preserves :: "(world \<Rightarrow> world \<Rightarrow> bool) \<Rightarrow> (world, 'a) state \<Rightarrow> bool" where
  "preserves R m =
     (\<forall>w w'. R w w' \<longrightarrow>
        fst (run_state m w) = fst (run_state m w') \<and>
        R (snd (run_state m w)) (snd (run_state m w')))"

definition aborts :: "(world, failure + 'a) state \<Rightarrow> bool" where
  "aborts m =
     (\<forall>w w'. createFaultsRemoved w w' \<longrightarrow>
        fst (run_state m w) = Inl (Err ''failed to create ipset: '') \<or>
        (fst (run_state m w) = fst (run_state m w') \<and>
         createFaultsRemoved (snd (run_state m w)) (snd (run_state m w'))))"

text \<open>
  The same for \<open>Sync\<close>, which hands on the error of the per-policy chains behind a prefix of
  its own.
\<close>

definition abortsSync :: "(world, (failure + unit) \<times> NetworkPolicyController) state \<Rightarrow> bool" where
  "abortsSync m =
     (\<forall>w w'. createFaultsRemoved w w' \<longrightarrow>
        fst (fst (run_state m w)) =
          Inl (Err ''Aborting sync. Failed to sync network policy chains: failed to create ipset: '') \<or>
        (fst (run_state m w) = fst (run_state m w') \<and>
         createFaultsRemoved (snd (run_state m w)) (snd (run_state m w'))))"

text \<open>
  What the proofs below ask of a relation: the driver calls other than creations and
  refreshes preserve it, and so do the clock, the heartbeat and the log; a refresh followed by
  the logging of its error preserves it; a creation preserves it.
\<close>

definition drivers :: "(world \<Rightarrow> world \<Rightarrow> bool) \<Rightarrow> bool" where
  "drivers R =
     (preserves R iptables_New \<and> (\<forall>ch. preserves R (iptables_NewChain ch)) \<and>
      (\<forall>ch args. preserves R (iptables_AppendUnique ch args)) \<and>
      (\<forall>ch args. preserves R (iptables_Exists ch args)) \<and>
      (\<forall>ch pos args. preserves R (iptables_Insert ch pos args)) \<and>
      (\<forall>ch. preserves R (iptables_List ch)) \<and> preserves R iptables_ListChains \<and>
      (\<forall>ch. preserves R (iptables_ClearChain ch)) \<and>
      (\<forall>ch. preserves R (iptables_DeleteChain ch)) \<and>
      (\<forall>ch n. preserves R (iptables_Delete ch n)) \<and>
      preserves R NewIPSet \<and> preserves R IPSet_Save \<and> (\<forall>s. preserves R (Set_Destroy s)) \<and>
      preserves R SendHeartBeat \<and> preserves R Now_UnixNano \<and>
      (\<forall>s es msg. preserves R (Set_RefreshWithBuiltinOptions s es \<bind> (\<lambda>err. logIfErr err msg))))"


section \<open>A policy with one ingress rule\<close>

text \<open>
  A policy that allows ingress from the pods of its namespace on every port, a controller whose
  caches hold that policy and the container above, and a node on which creating an address
  set under the prefix of the source sets fails while every other call runs.
\<close>

definition allowFromPods :: NetworkPolicy where
  "allowFromPods = \<lparr>Policy_Name = ''p'', Policy_Namespace = ''ns'', Spec_PodSelector = Everything,
     Spec_PolicyTypes = [PolicyTypeIngress],
     Spec_Ingress = Some [\<lparr>Ingress_Ports = [],
        Ingress_From = [\<lparr>PodSelector = Some Everything, NamespaceSelector = None,
                         IPBlock = None\<rparr>]\<rparr>],
     Spec_Egress = None\<rparr>"

definition allowController :: NetworkPolicyController where
  "allowController = idleController\<lparr>podLister := [podC], npLister := [NetworkingV1 allowFromPods]\<rparr>"

definition sourceCreateFailsWorld :: world where
  "sourceCreateFailsWorld = freshWorld\<lparr>faults := (\<lambda>c t. case c of
       CmdCreate s \<Rightarrow> if prefix kubeSourceIpSetPrefix s then Some 1 else None
     | _ \<Rightarrow> None)\<rparr>"

section \<open>Properties\<close>

subsection \<open>CIDR peers\<close>

lemma foldl_append_concat:
  "foldl (\<lambda>acc x. if P x then acc @ f x else acc @ g x) a xs =
     a @ concat (map (\<lambda>x. if P x then f x else g x) xs)"
  by (induction xs arbitrary: a) simp_all

lemma evalIPBlockPeer_only_block:
  "evalIPBlockPeer \<lparr>PodSelector = None, NamespaceSelector = None,
                    IPBlock = Some \<lparr>CIDR = cidr, Except = ex\<rparr>\<rparr> =
     (if suffix ''/0'' cidr
      then [[''0.0.0.0/1'', OptionTimeout, ''0''], [''128.0.0.0/1'', OptionTimeout, ''0'']]
      else [[cidr, OptionTimeout, ''0'']]) @
     concat (map (\<lambda>except.
        if suffix ''/0'' except
        then [[''0.0.0.0/1'', OptionTimeout, ''0'', OptionNoMatch],
              [''128.0.0.0/1'', OptionTimeout, ''0'', OptionNoMatch]]
        else [[except, OptionTimeout, ''0'', OptionNoMatch]]) ex)"
  unfolding evalIPBlockPeer_def by (simp add: foldl_append_concat)

lemma suffix_slash0_literals:
  "suffix ''/0'' ''0.0.0.0/0''" "\<not> suffix ''/0'' ''10.0.0.0/8''" "suffix ''/0'' ''10.0.0.0/0''"
  by (simp_all add: suffix_to_prefix)

text \<open>
  C6. A peer that carries the block 0.0.0.0/0 with the except list [10.0.0.0/8] evaluates to
  the three entries (0.0.0.0/1, timeout 0), (128.0.0.0/1, timeout 0) and (10.0.0.0/8, timeout 0,
  nomatch); an ingress rule (an egress rule) built from that peer alone has exactly these as
  its \<open>srcIPBlocks\<close> (\<open>dstIPBlocks\<close>), which is what the rule's CIDR set is refreshed with; and
  an except block 0.0.0.0/0 becomes the two half-space entries, each flagged nomatch.
\<close>

theorem C6_cidr_zero_except_ten:
  "evalIPBlockPeer \<lparr>PodSelector = None, NamespaceSelector = None,
                    IPBlock = Some \<lparr>CIDR = ''0.0.0.0/0'', Except = [''10.0.0.0/8'']\<rparr>\<rparr> =
     [[''0.0.0.0/1'', ''timeout'', ''0''], [''128.0.0.0/1'', ''timeout'', ''0''],
      [''10.0.0.0/8'', ''timeout'', ''0'', ''nomatch'']]
   \<and> srcIPBlocks (buildIngressRule npc policy n2eps
         \<lparr>Ingress_Ports = ps,
          Ingress_From = [\<lparr>PodSelector = None, NamespaceSelector = None,
             IPBlock = Some \<lparr>CIDR = ''0.0.0.0/0'', Except = [''10.0.0.0/8'']\<rparr>\<rparr>]\<rparr>) =
     [[''0.0.0.0/1'', ''timeout'', ''0''], [''128.0.0.0/1'', ''timeout'', ''0''],
      [''10.0.0.0/8'', ''timeout'', ''0'', ''nomatch'']]
   \<and> dstIPBlocks (buildEgressRule npc policy
         \<lparr>Egress_Ports = ps,
          Egress_To = [\<lparr>PodSelector = None, NamespaceSelector = None,
             IPBlock = Some \<lparr>CIDR = ''0.0.0.0/0'', Except = [''10.0.0.0/8'']\<rparr>\<rparr>]\<rparr>) =
     [[''0.0.0.0/1'', ''timeout'', ''0''], [''128.0.0.0/1'', ''timeout'', ''0''],
      [''10.0.0.0/8'', ''timeout'', ''0'', ''nomatch'']]
   \<and> evalIPBlockPeer \<lparr>PodSelector = None, NamespaceSelector = None,
                      IPBlock = Some \<lparr>CIDR = ''10.1.0.0/16'', Except = [''0.0.0.0/0'']\<rparr>\<rparr> =
     [[''10.1.0.0/16'', ''timeout'', ''0''],
      [''0.0.0.0/1'', ''timeout'', ''0'', ''nomatch''],
      [''128.0.0.0/1'', ''timeout'', ''0'', ''nomatch'']]"
proof -
  have peer: "evalIPBlockPeer \<lparr>PodSelector = None, NamespaceSelector = None,
                 IPBlock = Some \<lparr>CIDR = ''0.0.0.0/0'', Except = [''10.0.0.0/8'']\<rparr>\<rparr> =
     [[''0.0.0.0/1'', ''timeout'', ''0''], [''128.0.0.0/1'', ''timeout'', ''0''],
      [''10.0.0.0/8'', ''timeout'', ''0'', ''nomatch'']]"
    by (simp add: evalIPBlockPeer_only_block suffix_slash0_literals OptionTimeout_def
        OptionNoMatch_def)
  have ingress: "srcIPBlocks (buildIngressRule npc policy n2eps
         \<lparr>Ingress_Ports = ps, Ingress_From = [peer]\<rparr>) = evalIPBlockPeer peer" for peer
    by (simp add: buildIngressRule_def split: prod.splits sum.splits)
  have egress: "dstIPBlocks (buildEgressRule npc policy
         \<lparr>Egress_Ports = ps, Egress_To = [peer]\<rparr>) = evalIPBlockPeer peer" for peer
    by (simp add: buildEgressRule_def split: prod.splits sum.splits)
  have except: "evalIPBlockPeer \<lparr>PodSelector = None, NamespaceSelector = None,
                      IPBlock = Some \<lparr>CIDR = ''10.1.0.0/16'', Except = [''0.0.0.0/0'']\<rparr>\<rparr> =
     [[''10.1.0.0/16'', ''timeout'', ''0''],
      [''0.0.0.0/1'', ''timeout'', ''0'', ''nomatch''],
      [''128.0.0.0/1'', ''timeout'', ''0'', ''nomatch'']]"
    by (simp add: evalIPBlockPeer_only_block suffix_to_prefix OptionTimeout_def OptionNoMatch_def)
  show ?thesis
    unfolding ingress egress peer except by simp
qed

text \<open>
  C10. For a peer that carries only a block whose CIDR string ends in \<open>/0\<close>, whatever the
  network written before it, the evaluator emits 0.0.0.0/1 and 128.0.0.0/1 and drops the
  stated network; every except entry goes through the same suffix test, and one that ends in
  \<open>/0\<close> becomes the same two entries flagged nomatch. The block 10.0.0.0/0 is an instance.
\<close>

theorem C10_any_slash_zero_is_rewritten:
  "evalIPBlockPeer \<lparr>PodSelector = None, NamespaceSelector = None,
                    IPBlock = Some \<lparr>CIDR = net @ ''/0'', Except = ex\<rparr>\<rparr> =
     [[''0.0.0.0/1'', ''timeout'', ''0''], [''128.0.0.0/1'', ''timeout'', ''0'']] @
     concat (map (\<lambda>except.
        if suffix ''/0'' except
        then [[''0.0.0.0/1'', ''timeout'', ''0'', ''nomatch''],
              [''128.0.0.0/1'', ''timeout'', ''0'', ''nomatch'']]
        else [[except, ''timeout'', ''0'', ''nomatch'']]) ex)
   \<and> evalIPBlockPeer \<lparr>PodSelector = None, NamespaceSelector = None,
                      IPBlock = Some \<lparr>CIDR = ''10.0.0.0/0'', Except = [exnet @ ''/0'']\<rparr>\<rparr> =
     [[''0.0.0.0/1'', ''timeout'', ''0''], [''128.0.0.0/1'', ''timeout'', ''0''],
      [''0.0.0.0/1'', ''timeout'', ''0'', ''nomatch''],
      [''128.0.0.0/1'', ''timeout'', ''0'', ''nomatch'']]"
proof -
  have tail: "suffix ''/0'' (s @ ''/0'')" for s :: string
    by (rule suffixI) simp
  show ?thesis
    unfolding evalIPBlockPeer_only_block OptionTimeout_def OptionNoMatch_def
    by (simp add: tail suffix_slash0_literals)
qed

subsection \<open>Policy kind\<close>

lemma buildNetworkPoliciesInfo_loop_v1:
  "buildNetworkPoliciesInfo_loop npc (map NetworkingV1 policies) acc =
     Inr (acc @ map (buildPolicy npc) policies)"
  by (induction policies arbitrary: acc) simp_all

lemma policyType_buildPolicy:
  "policyType (buildPolicy npc policy) = resolvePolicyType (Spec_PolicyTypes policy)"
  by (simp add: buildPolicy_def split: prod.splits)

text \<open>
  C8, as the code has it. The current-schema builder turns every policy object into one
  resolved policy, and the kind of that policy depends on the declared policy types alone:
  \<open>both\<close> when ingress and egress are declared, \<open>egress\<close> when egress is declared without
  ingress, and \<open>ingress\<close> otherwise, also when neither is declared, whatever rule sections
  the policy carries.
\<close>

theorem C8_policy_kind_from_declared_types:
  "buildNetworkPoliciesInfo (npc\<lparr>npLister := map NetworkingV1 policies\<rparr>) =
     Inr (map (buildPolicy (npc\<lparr>npLister := map NetworkingV1 policies\<rparr>)) policies)
   \<and> policyType (buildPolicy npc policy) =
     (if PolicyTypeIngress \<in> set (Spec_PolicyTypes policy) \<and>
         PolicyTypeEgress \<in> set (Spec_PolicyTypes policy) then ''both''
      else if PolicyTypeEgress \<in> set (Spec_PolicyTypes policy) then ''egress''
      else ''ingress'')"
  by (simp add: buildNetworkPoliciesInfo_def buildNetworkPoliciesInfo_loop_v1
      policyType_buildPolicy resolvePolicyType_def)

text \<open>
  C8 as stated fails: a policy that declares neither type and carries only an egress rule is
  given the kind \<open>ingress\<close>, while the kind present in it is \<open>egress\<close>.
\<close>

theorem C8_undeclared_egress_counterexample:
  "policyType (buildPolicy idleController undeclaredEgressPolicy) = ''ingress''
   \<and> specPolicyKind undeclaredEgressPolicy = ''egress''
   \<and> policyType (buildPolicy idleController undeclaredEgressPolicy) \<noteq>
       specPolicyKind undeclaredEgressPolicy"
  by (simp add: policyType_buildPolicy resolvePolicyType_def specPolicyKind_def presentKind_def
      undeclaredEgressPolicy_def)

subsection \<open>Running the model on concrete worlds\<close>

lemmas driver_defs = invoke_def iptables_New_def iptables_NewChain_def iptables_AppendUnique_def
  iptables_Exists_def iptables_Insert_def iptables_List_def iptables_ListChains_def
  iptables_ClearChain_def iptables_DeleteChain_def iptables_Delete_def NewIPSet_def
  IPSet_Save_def IPSet_Create_def Set_RefreshWithBuiltinOptions_def Set_Refresh_def
  Set_Destroy_def SendHeartBeat_def Now_UnixNano_def glog_Errorf_def logIfErr_def
  thenE_def forE_def

lemmas cleanup_defs = cleanupStaleRules_def deletePodFwChainReferences_def
  clearAndDeleteChain_def deletePolicyChainReference_def chainHeader_def ruleLine_def

lemmas sync_defs = Sync_def syncNetworkPolicyChains_def syncPodFirewallChains_def
  getIngressNetworkPolicyEnabledPods_def getEgressNetworkPolicyEnabledPods_def wrapErr_def
  buildNetworkPoliciesInfo_def

lemmas prefix_defs = kubePodFirewallChainPrefix_def kubeNetworkPolicyChainPrefix_def
  kubeSourceIpSetPrefix_def kubeDestinationIpSetPrefix_def

lemma Sync_listFailsWorld:
  "run_state (Sync idleController) listFailsWorld =
     ((Inl (Err ''Aborting sync. Failed to cleanup stale iptables rules: failed to list rules in filter table, FORWARD podFwChain due to ''),
       idleController),
      listFailsWorld\<lparr>clock := 8, heartbeats := 1\<rparr>)"
  by (simp add: sync_defs cleanup_defs driver_defs prefix_defs idleController_def
      listFailsWorld_def freshWorld_def Let_def)

lemma Sync_listChainsFailsWorld:
  "run_state (Sync idleController) listChainsFailsWorld =
     ((Inr (), idleController), listChainsFailsWorld\<lparr>clock := 7, heartbeats := 1\<rparr>)"
  by (simp add: sync_defs cleanup_defs driver_defs prefix_defs idleController_def
      listChainsFailsWorld_def freshWorld_def Let_def)

lemma Sync_freshWorld:
  "run_state (Sync idleController) freshWorld =
     ((Inr (), idleController), freshWorld\<lparr>clock := 7, heartbeats := 1\<rparr>)"
  by (simp add: sync_defs cleanup_defs driver_defs prefix_defs idleController_def
      freshWorld_def Let_def)

subsection \<open>The ready flag and the event callbacks\<close>

lemma Sync_keeps_flags:
  "readyForUpdates (snd (fst (run_state (Sync npc) w))) = readyForUpdates npc"
  "v1NetworkPolicy (snd (fst (run_state (Sync npc) w))) = v1NetworkPolicy npc"
  by (simp_all add: Sync_def Let_def split: prod.splits sum.splits)

lemma periodicSync_sets_ready:
  "fst (fst (run_state (periodicSync npc) w)) \<Longrightarrow>
     readyForUpdates (snd (fst (run_state (periodicSync npc) w)))"
  by (auto simp: periodicSync_def glog_Errorf_def SendHeartBeat_def
      split: prod.splits sum.splits failure.splits)

lemma periodicSync_alive_iff:
  "fst (fst (run_state (periodicSync npc) w)) =
     (case fst (fst (run_state (Sync npc) w)) of
        Inl (Err m) \<Rightarrow> True | Inl died \<Rightarrow> False | Inr u \<Rightarrow> True)"
  by (auto simp: periodicSync_def glog_Errorf_def SendHeartBeat_def
      split: prod.splits sum.splits failure.splits)

lemma handleEvent_not_ready:
  assumes "\<not> readyForUpdates npc"
  shows "fst (run_state (handleEvent npc ev) w) = npc"
    and "heartbeats (snd (run_state (handleEvent npc ev) w)) = heartbeats w"
    and "clock (snd (run_state (handleEvent npc ev) w)) = clock w"
    and "filterTable (snd (run_state (handleEvent npc ev) w)) = filterTable w"
    and "kernelSets (snd (run_state (handleEvent npc ev) w)) = kernelSets w"
  using assms
  by (cases ev; simp add: OnPodUpdate_def OnNetworkPolicyUpdate_def OnNamespaceUpdate_def
      handlePodDelete_def handleNamespaceDelete_def handleNetworkPolicyDelete_def glog_Errorf_def
      split: deleted.splits)+

text \<open>
  C4, as the code has it. A turn of the periodic loop that the process survives leaves
  \<open>readyForUpdates\<close> true, whether \<open>Sync\<close> returned an error or not, and \<open>Sync\<close> itself never
  changes the flag. While the flag is false, every event callback returns the controller as it
  was and touches neither the heartbeat count, the clock, the packet filter nor the address
  sets: it does not call \<open>Sync\<close>. Once the flag is true, the pod and network-policy callbacks
  (add, update, delete of an object or of a tombstone that holds one) do what one call of
  \<open>Sync\<close> does and then log its error, if any; the namespace callbacks do so only in legacy
  mode, and in current-schema mode they return at once. A pod update event that changes neither
  phase nor address is dropped before the callback.
\<close>

theorem C4_ready_flag_and_callbacks:
  "(fst (fst (run_state (periodicSync npc) w)) \<longrightarrow>
      readyForUpdates (snd (fst (run_state (periodicSync npc) w))))
   \<and> readyForUpdates (snd (fst (run_state (Sync npc) w))) = readyForUpdates npc
   \<and> (\<not> readyForUpdates npc \<longrightarrow>
        fst (run_state (handleEvent npc ev) w) = npc
        \<and> heartbeats (snd (run_state (handleEvent npc ev) w)) = heartbeats w
        \<and> clock (snd (run_state (handleEvent npc ev) w)) = clock w
        \<and> filterTable (snd (run_state (handleEvent npc ev) w)) = filterTable w
        \<and> kernelSets (snd (run_state (handleEvent npc ev) w)) = kernelSets w)
   \<and> (readyForUpdates npc \<longrightarrow>
        run_state (OnPodUpdate npc pod) w =
          (case run_state (Sync npc) w of
             ((err, npc'), w') \<Rightarrow>
               (npc', snd (run_state (logSyncError err
                  ''Error syncing network policy for the update to pod: '') w')))
        \<and> run_state (OnNetworkPolicyUpdate npc netpol) w =
          (case run_state (Sync npc) w of
             ((err, npc'), w') \<Rightarrow>
               (npc', snd (run_state (logSyncError err
                  ''Error syncing network policy for the update to network policy: '') w')))
        \<and> run_state (handlePodDelete npc (Object pod)) w =
            run_state (handlePodDelete npc (Tombstone pod)) w
        \<and> run_state (handlePodDelete npc (Object pod)) w =
          (case run_state (Sync npc) w of
             ((err, npc'), w') \<Rightarrow>
               (npc', snd (run_state (logSyncError err
                  ''Error syncing network policy for pod: delete event Error: '') w')))
        \<and> run_state (handleNetworkPolicyDelete npc (Object netpol)) w =
            run_state (handleNetworkPolicyDelete npc (Tombstone netpol)) w
        \<and> run_state (handleNetworkPolicyDelete npc (Object netpol)) w =
          (case run_state (Sync npc) w of
             ((err, npc'), w') \<Rightarrow>
               (npc', snd (run_state (logSyncError err
                  ''Error syncing network policy for the network policy: delete event, Error: '') w'))))
   \<and> (readyForUpdates npc \<and> \<not> v1NetworkPolicy npc \<longrightarrow>
        run_state (OnNamespaceUpdate npc ns) w =
          (case run_state (Sync npc) w of
             ((err, npc'), w') \<Rightarrow>
               (npc', snd (run_state (logSyncError err ''Error syncing on namespace update: '') w')))
        \<and> run_state (handleNamespaceDelete npc (Object ns)) w =
          (case run_state (Sync npc) w of
             ((err, npc'), w') \<Rightarrow>
               (npc', snd (run_state (logSyncError err
                  ''Error syncing network policies on namespace: delete event'') w'))))
   \<and> (v1NetworkPolicy npc \<longrightarrow>
        run_state (OnNamespaceUpdate npc ns) w = (npc, w)
        \<and> run_state (handleNamespaceDelete npc (Object ns)) w = (npc, w))
   \<and> (Pod_Phase newPod = Pod_Phase oldPod \<and> Pod_PodIP newPod = Pod_PodIP oldPod \<longrightarrow>
        run_state (handleEvent npc (PodUpdate oldPod newPod)) w = (npc, w))"
proof -
  have ready: "readyForUpdates npc \<Longrightarrow>
      run_state (Sync npc \<bind> (\<lambda>(err, npc'). logSyncError err msg \<bind> (\<lambda>u. return npc'))) w =
        (case run_state (Sync npc) w of
           ((err, npc'), w') \<Rightarrow> (npc', snd (run_state (logSyncError err msg) w')))" for msg
    by (simp split: prod.splits)
  show ?thesis
    using periodicSync_sets_ready [of npc w] Sync_keeps_flags(1) [of npc w]
      handleEvent_not_ready [of npc ev w]
    by (auto simp: OnPodUpdate_def OnNetworkPolicyUpdate_def OnNamespaceUpdate_def
        handlePodDelete_def handleNamespaceDelete_def handleNetworkPolicyDelete_def
        split: prod.splits)
qed

text \<open>
  C4 as stated fails on its first part: on a node where the first reconcile returns an error
  (listing the rules of \<open>FORWARD\<close> fails during cleanup), the flag is false before and true
  after the first turn of \<open>Run\<close>; and on its last part: in current-schema mode a namespace
  callback of a ready controller does not reconcile.
\<close>

theorem C4_flag_set_after_failed_reconcile_counterexample:
  "\<not> readyForUpdates idleController
   \<and> fst (fst (run_state (Sync idleController) listFailsWorld)) =
       Inl (Err ''Aborting sync. Failed to cleanup stale iptables rules: failed to list rules in filter table, FORWARD podFwChain due to '')
   \<and> readyForUpdates (fst (run_state (Run [(False, StopClosed)] idleController) listFailsWorld))
   \<and> run_state (handleEvent (idleController\<lparr>readyForUpdates := True\<rparr>)
         (NamespaceAdd \<lparr>Namespace_Name = ''ns'', Namespace_Labels = []\<rparr>)) freshWorld =
       (idleController\<lparr>readyForUpdates := True\<rparr>, freshWorld)"
proof -
  have "readyForUpdates (fst (run_state (Run [(False, StopClosed)] idleController) listFailsWorld))"
    by (simp add: periodicSync_def Sync_listFailsWorld glog_Errorf_def)
  moreover have "\<not> readyForUpdates idleController" "v1NetworkPolicy idleController"
    by (simp_all add: idleController_def)
  ultimately show ?thesis
    by (simp add: Sync_listFailsWorld OnNamespaceUpdate_def)
qed

theorem C4_ready_flag_and_callbacks_witness:
  "fst (fst (run_state (periodicSync idleController) listFailsWorld))
   \<and> readyForUpdates (snd (fst (run_state (periodicSync idleController) listFailsWorld)))
   \<and> \<not> readyForUpdates idleController
   \<and> fst (run_state (handleEvent idleController (PodAdd podC)) freshWorld) = idleController
   \<and> heartbeats (snd (run_state (handleEvent idleController (PodAdd podC)) freshWorld)) = 0
   \<and> readyForUpdates (idleController\<lparr>readyForUpdates := True\<rparr>)
   \<and> run_state (OnPodUpdate (idleController\<lparr>readyForUpdates := True\<rparr>) podC) freshWorld =
       (idleController\<lparr>readyForUpdates := True\<rparr>, freshWorld\<lparr>clock := 7, heartbeats := 1\<rparr>)
   \<and> \<not> v1NetworkPolicy (idleController\<lparr>readyForUpdates := True, v1NetworkPolicy := False\<rparr>)
   \<and> run_state (OnNamespaceUpdate (idleController\<lparr>readyForUpdates := True, v1NetworkPolicy := False\<rparr>)
         \<lparr>Namespace_Name = ''ns'', Namespace_Labels = []\<rparr>) freshWorld =
       (idleController\<lparr>readyForUpdates := True, v1NetworkPolicy := False\<rparr>,
        freshWorld\<lparr>clock := 7, heartbeats := 1\<rparr>)
   \<and> v1NetworkPolicy idleController
   \<and> run_state (OnNamespaceUpdate idleController \<lparr>Namespace_Name = ''ns'', Namespace_Labels = []\<rparr>)
         freshWorld = (idleController, freshWorld)
   \<and> run_state (handleEvent (idleController\<lparr>readyForUpdates := True\<rparr>) (PodUpdate podC podC))
         freshWorld = (idleController\<lparr>readyForUpdates := True\<rparr>, freshWorld)"
proof -
  have alive: "fst (fst (run_state (periodicSync idleController) listFailsWorld))"
    by (simp add: periodicSync_alive_iff Sync_listFailsWorld)
  have flags: "\<not> readyForUpdates idleController" "v1NetworkPolicy idleController"
    "heartbeats freshWorld = 0"
    by (simp_all add: idleController_def freshWorld_def)
  have ready: "run_state (Sync (idleController\<lparr>readyForUpdates := True\<rparr>)) freshWorld =
      ((Inr (), idleController\<lparr>readyForUpdates := True\<rparr>), freshWorld\<lparr>clock := 7, heartbeats := 1\<rparr>)"
    by (simp add: sync_defs cleanup_defs driver_defs prefix_defs idleController_def
        freshWorld_def Let_def)
  have legacy: "run_state (Sync (idleController\<lparr>readyForUpdates := True, v1NetworkPolicy := False\<rparr>))
        freshWorld =
      ((Inr (), idleController\<lparr>readyForUpdates := True, v1NetworkPolicy := False\<rparr>),
       freshWorld\<lparr>clock := 7, heartbeats := 1\<rparr>)"
    by (simp add: sync_defs cleanup_defs driver_defs prefix_defs idleController_def
        freshWorld_def Let_def buildBetaNetworkPoliciesInfo_def)
  show ?thesis
    using alive flags
      C4_ready_flag_and_callbacks [where npc = idleController and w = listFailsWorld]
      C4_ready_flag_and_callbacks [where npc = idleController and w = freshWorld
        and ev = "PodAdd podC" and ns = "\<lparr>Namespace_Name = ''ns'', Namespace_Labels = []\<rparr>"]
      C4_ready_flag_and_callbacks [where npc = "idleController\<lparr>readyForUpdates := True\<rparr>"
        and w = freshWorld and pod = podC and oldPod = podC and newPod = podC]
      C4_ready_flag_and_callbacks [where
        npc = "idleController\<lparr>readyForUpdates := True, v1NetworkPolicy := False\<rparr>"
        and w = freshWorld and ns = "\<lparr>Namespace_Name = ''ns'', Namespace_Labels = []\<rparr>"]
    by (simp add: ready legacy logSyncError_def)
qed

subsection \<open>Facts about derived names that need no hashing\<close>

lemmas name_defs = podFirewallChainName_def networkPolicyChainName_def
  policySourcePodIpSetName_def policyDestinationPodIpSetName_def
  policyIndexedSourcePodIpSetName_def policyIndexedDestinationPodIpSetName_def
  policyIndexedSourceIpBlockIpSetName_def policyIndexedDestinationIpBlockIpSetName_def
  policyIndexedIngressNamedPortIpSetName_def policyIndexedEgressNamedPortIpSetName_def

lemma chain_names_distinct [simp]:
  "networkPolicyChainName a b c \<noteq> ''INPUT''" "networkPolicyChainName a b c \<noteq> ''FORWARD''"
  "networkPolicyChainName a b c \<noteq> ''OUTPUT''"
  "''INPUT'' \<noteq> networkPolicyChainName a b c" "''FORWARD'' \<noteq> networkPolicyChainName a b c"
  "''OUTPUT'' \<noteq> networkPolicyChainName a b c"
  "podFirewallChainName a b c \<noteq> ''INPUT''" "podFirewallChainName a b c \<noteq> ''FORWARD''"
  "podFirewallChainName a b c \<noteq> ''OUTPUT''"
  "''INPUT'' \<noteq> podFirewallChainName a b c" "''FORWARD'' \<noteq> podFirewallChainName a b c"
  "''OUTPUT'' \<noteq> podFirewallChainName a b c"
  "podFirewallChainName a b c \<noteq> networkPolicyChainName d e f"
  "networkPolicyChainName d e f \<noteq> podFirewallChainName a b c"
  by (simp_all add: name_defs prefix_defs Let_def)

lemma chain_names_prefix [simp]:
  "prefix kubeNetworkPolicyChainPrefix (networkPolicyChainName a b c)"
  "\<not> prefix kubePodFirewallChainPrefix (networkPolicyChainName a b c)"
  "prefix kubePodFirewallChainPrefix (podFirewallChainName a b c)"
  "\<not> prefix kubeNetworkPolicyChainPrefix (podFirewallChainName a b c)"
  by (simp_all add: name_defs prefix_defs Let_def)

lemma set_names_prefix [simp]:
  "prefix kubeSourceIpSetPrefix (policySourcePodIpSetName a b)"
  "prefix kubeDestinationIpSetPrefix (policyDestinationPodIpSetName a b)"
  "prefix kubeSourceIpSetPrefix (policyIndexedSourcePodIpSetName a b i)"
  "prefix kubeDestinationIpSetPrefix (policyIndexedDestinationPodIpSetName a b i)"
  "prefix kubeSourceIpSetPrefix (policyIndexedSourceIpBlockIpSetName a b i)"
  "prefix kubeDestinationIpSetPrefix (policyIndexedDestinationIpBlockIpSetName a b i)"
  "prefix kubeDestinationIpSetPrefix (policyIndexedIngressNamedPortIpSetName a b i j)"
  "prefix kubeDestinationIpSetPrefix (policyIndexedEgressNamedPortIpSetName a b i j)"
  by (simp_all add: name_defs prefix_defs Let_def)

lemma builtin_chains_prefix [simp]:
  "\<not> prefix kubeNetworkPolicyChainPrefix ''INPUT''"
  "\<not> prefix kubeNetworkPolicyChainPrefix ''FORWARD''"
  "\<not> prefix kubeNetworkPolicyChainPrefix ''OUTPUT''"
  "\<not> prefix kubePodFirewallChainPrefix ''INPUT''"
  "\<not> prefix kubePodFirewallChainPrefix ''FORWARD''"
  "\<not> prefix kubePodFirewallChainPrefix ''OUTPUT''"
  by (simp_all add: prefix_defs)

lemma FormatInt_1 [simp]: "FormatInt 1 = ''1''"
  by code_simp

lemmas build_defs = buildPolicy_def buildTargetPods_def ListPodsByNamespaceAndLabels_def
  withPodIP_def podInfoOf_def grabNamedPortFromPod_def resolvePolicyType_def
  PolicyTypeIngress_def PolicyTypeEgress_def Everything_def

lemmas policy_defs = syncPolicyChain_def processIngressRules_def processEgressRules_def
  TypeHashIP_def TypeHashNet_def OptionTimeout_def OptionNoMatch_def

lemmas pod_defs = syncIngressPodFirewall_def syncEgressPodFirewall_def podPolicyJumps_def
  podLogAndReject_def ensureRule_def ensurePolicyJump_def appendUnique_def statefulRule_def

lemmas denyAll_defs = denyAllController_def idleController_def podC_def denyAllIngress_def
  freshWorld_def

subsection \<open>The deny-all scenario\<close>

lemma Sync_denyAll_filterTable:
  "filterTable (snd (run_state (Sync denyAllController) freshWorld)) =
     [(''INPUT'', []),
      (''FORWARD'',
       [[''-m'', ''physdev'', ''--physdev-is-bridged'', ''-m'', ''comment'', ''--comment'',
         ''rule to jump traffic destined to POD name:c namespace: ns to chain '' @
           podFirewallChainName ''ns'' ''c'' ''1'',
         ''-d'', ''10.0.0.5'', ''-j'', podFirewallChainName ''ns'' ''c'' ''1''],
        [''-m'', ''comment'', ''--comment'',
         ''rule to jump traffic destined to POD name:c namespace: ns to chain '' @
           podFirewallChainName ''ns'' ''c'' ''1'',
         ''-d'', ''10.0.0.5'', ''-j'', podFirewallChainName ''ns'' ''c'' ''1'']]),
      (''OUTPUT'',
       [[''-m'', ''comment'', ''--comment'',
         ''rule to jump traffic destined to POD name:c namespace: ns to chain '' @
           podFirewallChainName ''ns'' ''c'' ''1'',
         ''-d'', ''10.0.0.5'', ''-j'', podFirewallChainName ''ns'' ''c'' ''1'']]),
      (networkPolicyChainName ''ns'' ''p'' ''1'', []),
      (podFirewallChainName ''ns'' ''c'' ''1'',
       [statefulRule,
        [''-m'', ''comment'', ''--comment'',
         ''rule to permit the traffic traffic to pods when source is the pod's local node'',
         ''-m'', ''addrtype'', ''--src-type'', ''LOCAL'', ''-d'', ''10.0.0.5'', ''-j'', ''ACCEPT''],
        [''-m'', ''comment'', ''--comment'', ''run through nw policy p'',
         ''-j'', networkPolicyChainName ''ns'' ''p'' ''1''],
        [''-m'', ''comment'', ''--comment'', ''rule to log dropped traffic POD name:c namespace: ns'',
         ''-j'', ''NFLOG'', ''--nflog-group'', ''100'', ''-m'', ''limit'', ''--limit'', ''10/minute'',
         ''--limit-burst'', ''10''],
        [''-m'', ''comment'', ''--comment'',
         ''default rule to REJECT traffic destined for POD name:c namespace: ns'',
         ''-j'', ''REJECT'']])]"
  by (simp add: sync_defs cleanup_defs driver_defs build_defs policy_defs pod_defs denyAll_defs
      Let_def)

lemma Sync_denyAll_result:
  "fst (fst (run_state (Sync denyAllController) freshWorld)) = Inr ()"
  by (simp add: sync_defs cleanup_defs driver_defs build_defs policy_defs pod_defs denyAll_defs
      Let_def)

subsection \<open>Refresh and creation failures\<close>

text \<open>
  Every step of the reconcile preserves the two relations between runs that differ in the
  outcome of refreshes: the only calls whose result may differ between the two runs are the
  refreshes, and the controller does nothing with the error of a refresh but log it. Every
  step that may create a set aborts on a failed creation, and \<open>Sync\<close> hands that error on.
\<close>

subsection \<open>Structural rules\<close>

lemma preservesI:
  "(\<And>w w'. R w w' \<Longrightarrow> fst (run_state m w) = fst (run_state m w') \<and>
      R (snd (run_state m w)) (snd (run_state m w'))) \<Longrightarrow> preserves R m"
  by (simp add: preserves_def)

lemma preserves_return: "preserves R (return x)"
  by (simp add: preserves_def)

lemma preserves_bind: "preserves R m \<Longrightarrow> (\<And>x. preserves R (f x)) \<Longrightarrow> preserves R (m \<bind> f)"
  unfolding preserves_def by (auto split: prod.splits) (metis fst_conv snd_conv)+

lemma preserves_thenE: "preserves R m \<Longrightarrow> (\<And>x. preserves R (f x)) \<Longrightarrow> preserves R (thenE m f)"
  unfolding thenE_def by (rule preserves_bind) (auto split: sum.splits simp: preserves_return)

lemma preserves_foldE: "(\<And>x a. preserves R (f x a)) \<Longrightarrow> preserves R (foldE f xs acc)"
  by (induction xs arbitrary: acc) (auto intro!: preserves_return preserves_thenE)

lemma preserves_forE: "(\<And>x. preserves R (f x)) \<Longrightarrow> preserves R (forE xs f)"
  unfolding forE_def by (rule preserves_foldE) simp

lemma preserves_if:
  "(b \<Longrightarrow> preserves R m) \<Longrightarrow> (\<not> b \<Longrightarrow> preserves R m') \<Longrightarrow> preserves R (if b then m else m')"
  by simp

lemma preserves_case_sum:
  "(\<And>e. preserves R (f e)) \<Longrightarrow> (\<And>a. preserves R (g a)) \<Longrightarrow>
     preserves R (case r of Inl e \<Rightarrow> f e | Inr a \<Rightarrow> g a)"
  by (cases r) simp_all

lemma preserves_case_option:
  "preserves R f \<Longrightarrow> (\<And>a. preserves R (g a)) \<Longrightarrow>
     preserves R (case r of None \<Rightarrow> f | Some a \<Rightarrow> g a)"
  by (cases r) simp_all

lemma preserves_case_prod:
  "(\<And>a b. preserves R (f a b)) \<Longrightarrow> preserves R (case p of (a, b) \<Rightarrow> f a b)"
  by (cases p) simp

lemma preserves_case_prod_app:
  "(\<And>a b. preserves R (f a b c)) \<Longrightarrow> preserves R ((case p of (a, b) \<Rightarrow> f a b) c)"
  by (cases p) simp

lemma preserves_refresh_log:
  assumes "drivers R" and "\<And>u. preserves R (k u)"
  shows "preserves R (Set_RefreshWithBuiltinOptions s es \<bind> (\<lambda>err. logIfErr err msg \<bind> k))"
proof -
  have "preserves R (Set_RefreshWithBuiltinOptions s es \<bind> (\<lambda>err. logIfErr err msg))"
    using assms(1) by (simp add: drivers_def)
  then have "preserves R ((Set_RefreshWithBuiltinOptions s es \<bind> (\<lambda>err. logIfErr err msg)) \<bind> k)"
    by (rule preserves_bind) (rule assms(2))
  then show ?thesis by simp
qed

lemma driversD:
  assumes "drivers R"
  shows "preserves R iptables_New" "preserves R (iptables_NewChain ch)"
    "preserves R (iptables_AppendUnique ch args)" "preserves R (iptables_Exists ch args)"
    "preserves R (iptables_Insert ch pos args)" "preserves R (iptables_List ch)"
    "preserves R iptables_ListChains" "preserves R (iptables_ClearChain ch)"
    "preserves R (iptables_DeleteChain ch)" "preserves R (iptables_Delete ch n)"
    "preserves R NewIPSet" "preserves R IPSet_Save" "preserves R (Set_Destroy s)"
    "preserves R SendHeartBeat" "preserves R Now_UnixNano"
  using assms by (simp_all add: drivers_def)

lemmas preserves_rules = preserves_return preserves_thenE preserves_foldE preserves_forE
  preserves_if preserves_case_sum preserves_case_option preserves_case_prod_app
  preserves_case_prod preserves_bind

subsection \<open>The steps of the reconcile that create no set\<close>

lemma preserves_appendRuleToPolicyChain:
  "drivers R \<Longrightarrow> preserves R (appendRuleToPolicyChain c cm s d p dp)"
  unfolding appendRuleToPolicyChain_def Let_def by (rule preserves_rules driversD | assumption)+

lemma preserves_portRules: "drivers R \<Longrightarrow> preserves R (portRules c cm s d pps)"
  unfolding portRules_def
  by (rule preserves_rules preserves_appendRuleToPolicyChain | assumption)+

lemma preserves_ensure:
  assumes "drivers R"
  shows "preserves R (ensureRule ch args)" "preserves R (ensurePolicyJump ch args)"
    "preserves R (appendUnique ch args)"
  unfolding ensureRule_def ensurePolicyJump_def appendUnique_def
  by (rule preserves_rules driversD [OF assms])+

lemma preserves_pod_parts:
  assumes "drivers R"
  shows "preserves R (podPolicyJumps npc v pod ch)" "preserves R (podLogAndReject pod ch)"
  unfolding podPolicyJumps_def podLogAndReject_def
  by (rule preserves_rules preserves_ensure [OF assms])+

lemma preserves_podFirewall:
  assumes "drivers R"
  shows "preserves R (syncIngressPodFirewall npc v pod active)"
    "preserves R (syncEgressPodFirewall npc v pod active)"
  unfolding syncIngressPodFirewall_def syncEgressPodFirewall_def Let_def
  by (rule preserves_rules driversD [OF assms] preserves_ensure [OF assms]
      preserves_pod_parts [OF assms])+

lemma preserves_syncPodFirewallChains:
  assumes "drivers R"
  shows "preserves R (syncPodFirewallChains npc v)"
  unfolding syncPodFirewallChains_def
  by (rule preserves_rules driversD [OF assms] preserves_podFirewall [OF assms])+

lemma preserves_cleanup_parts:
  assumes "drivers R"
  shows "preserves R (deletePodFwChainReferences pc ec)"
    "preserves R (clearAndDeleteChain ch m1 m2)"
    "preserves R (deletePolicyChainReference pol pc)"
  unfolding deletePodFwChainReferences_def clearAndDeleteChain_def deletePolicyChainReference_def
  by (rule preserves_rules driversD [OF assms])+

lemma preserves_cleanupStaleRules:
  assumes "drivers R"
  shows "preserves R (cleanupStaleRules a b c)"
  unfolding cleanupStaleRules_def Let_def
  by (rule preserves_rules driversD [OF assms] preserves_cleanup_parts [OF assms])+

subsection \<open>The per-policy chains, for a relation that creations preserve\<close>

lemma preserves_namedPortRules:
  assumes "drivers R" and "\<And>s opts. preserves R (IPSet_Create s opts)"
  shows "preserves R (namedPortRules nm c cm s eps active)"
  unfolding namedPortRules_def Set_Refresh_def
  by (rule preserves_refresh_log [OF assms(1)] preserves_rules assms(2)
      preserves_appendRuleToPolicyChain [OF assms(1)])+

lemma preserves_ingress:
  assumes "drivers R" and "\<And>s opts. preserves R (IPSet_Create s opts)"
  shows "preserves R (ingressSrcPodsRules policy tgt v i r active)"
    "preserves R (ingressMatchAllSourceRules policy tgt v i r active)"
    "preserves R (ingressSrcIPBlocksRules policy tgt v i r active)"
  unfolding ingressSrcPodsRules_def ingressMatchAllSourceRules_def ingressSrcIPBlocksRules_def
    Let_def Set_Refresh_def
  by (rule preserves_refresh_log [OF assms(1)] preserves_rules assms(2)
      preserves_appendRuleToPolicyChain [OF assms(1)] preserves_portRules [OF assms(1)]
      preserves_namedPortRules [OF assms])+

lemma preserves_egress:
  assumes "drivers R" and "\<And>s opts. preserves R (IPSet_Create s opts)"
  shows "preserves R (egressDstPodsRules policy tgt v i er active)"
    "preserves R (egressMatchAllDestinationsRules policy tgt v i er active)"
    "preserves R (egressDstIPBlocksRules policy tgt v i er active)"
  unfolding egressDstPodsRules_def egressMatchAllDestinationsRules_def egressDstIPBlocksRules_def
    Let_def Set_Refresh_def
  by (rule preserves_refresh_log [OF assms(1)] preserves_rules assms(2)
      preserves_appendRuleToPolicyChain [OF assms(1)] preserves_portRules [OF assms(1)]
      preserves_namedPortRules [OF assms])+

lemma preserves_processRules:
  assumes "drivers R" and "\<And>s opts. preserves R (IPSet_Create s opts)"
  shows "preserves R (processIngressRules policy tgt active v)"
    "preserves R (processEgressRules policy tgt active v)"
  unfolding processIngressRules_def processEgressRules_def
  by (rule preserves_rules driversD [OF assms(1)] preserves_ingress [OF assms]
      preserves_egress [OF assms])+

lemma preserves_syncPolicyChain:
  assumes "drivers R" and "\<And>s opts. preserves R (IPSet_Create s opts)"
  shows "preserves R (syncPolicyChain v policy acc)"
  unfolding syncPolicyChain_def Let_def Set_Refresh_def
  by (rule preserves_refresh_log [OF assms(1)] preserves_rules driversD [OF assms(1)] assms(2)
      preserves_processRules [OF assms])+

lemma preserves_syncNetworkPolicyChains:
  assumes "drivers R" and "\<And>s opts. preserves R (IPSet_Create s opts)"
  shows "preserves R (syncNetworkPolicyChains npc v)"
  unfolding syncNetworkPolicyChains_def
  by (rule preserves_rules driversD [OF assms(1)] preserves_syncPolicyChain [OF assms])+

lemma preserves_Sync:
  assumes "drivers R" and "\<And>s opts. preserves R (IPSet_Create s opts)"
  shows "preserves R (Sync npc)"
  unfolding Sync_def Let_def
  by (rule preserves_rules driversD [OF assms(1)] preserves_syncNetworkPolicyChains [OF assms]
      preserves_syncPodFirewallChains [OF assms(1)] preserves_cleanupStaleRules [OF assms(1)])+

subsection \<open>The driver calls and the three relations\<close>

lemma preserves_invoke:
  assumes "\<And>w w'. R w w' \<Longrightarrow> faults w c (clock w) = faults w' c (clock w') \<and>
             R (w\<lparr>clock := Suc (clock w)\<rparr>) (w'\<lparr>clock := Suc (clock w')\<rparr>)"
    and "\<And>w w'. R w w' \<Longrightarrow> fst (run w) = fst (run w') \<and> R (snd (run w)) (snd (run w'))"
  shows "preserves R (invoke c onFault run)"
proof (rule preservesI)
  fix w w' assume r: "R w w'"
  note f = assms(1) [OF r]
  show "fst (run_state (invoke c onFault run) w) = fst (run_state (invoke c onFault run) w') \<and>
      R (snd (run_state (invoke c onFault run) w)) (snd (run_state (invoke c onFault run) w'))"
    using f assms(2) [OF conjunct2 [OF f]] by (auto simp: invoke_def split: option.splits)
qed

lemma same_keys_lookup:
  "map fst xs = map fst ys \<Longrightarrow> (map_of xs k = None) = (map_of ys k = None)"
  by (metis map_of_eq_None_iff set_map)

lemma same_keys_cases:
  assumes "map fst xs = map fst ys"
  shows "(map_of xs s = None \<and> map_of ys s = None) \<or>
         (\<exists>a b. map_of xs s = Some a \<and> map_of ys s = Some b)"
  using same_keys_lookup [OF assms, of s] by (cases "map_of xs s"; cases "map_of ys s") auto

lemma update_existing_keys:
  "map_of al k = Some v \<Longrightarrow> map fst (AList.update k v' al) = map fst al"
  by (simp add: update_keys weak_map_of_SomeI map_of_SomeD image_iff)
    (metis fst_conv image_iff map_of_SomeD)

lemmas call_kinds = isRefresh_def isCreate_def

lemma tick_sameButRefresh:
  "sameButRefresh w w' \<Longrightarrow> \<not> isRefresh c \<Longrightarrow>
     faults w c (clock w) = faults w' c (clock w') \<and>
     sameButRefresh (w\<lparr>clock := Suc (clock w)\<rparr>) (w'\<lparr>clock := Suc (clock w')\<rparr>)"
  by (auto simp: sameButRefresh_def)

lemma tick_refreshLogged:
  "refreshLogged w w' \<Longrightarrow> \<not> isRefresh c \<Longrightarrow>
     faults w c (clock w) = faults w' c (clock w') \<and>
     refreshLogged (w\<lparr>clock := Suc (clock w)\<rparr>) (w'\<lparr>clock := Suc (clock w')\<rparr>)"
  by (auto simp: refreshLogged_def sameButRefresh_def)

lemma tick_createFaultsRemoved:
  "createFaultsRemoved w w' \<Longrightarrow> \<not> isCreate c \<Longrightarrow>
     faults w c (clock w) = faults w' c (clock w') \<and>
     createFaultsRemoved (w\<lparr>clock := Suc (clock w)\<rparr>) (w'\<lparr>clock := Suc (clock w')\<rparr>)"
  by (auto simp: createFaultsRemoved_def)

lemma iptables_sameButRefresh:
  "preserves sameButRefresh iptables_New" "preserves sameButRefresh (iptables_NewChain ch)"
  "preserves sameButRefresh (iptables_AppendUnique ch args)"
  "preserves sameButRefresh (iptables_Exists ch args)"
  "preserves sameButRefresh (iptables_Insert ch pos args)"
  "preserves sameButRefresh (iptables_List ch)" "preserves sameButRefresh iptables_ListChains"
  "preserves sameButRefresh (iptables_ClearChain ch)"
  "preserves sameButRefresh (iptables_DeleteChain ch)"
  "preserves sameButRefresh (iptables_Delete ch n)"
  "preserves sameButRefresh NewIPSet" "preserves sameButRefresh IPSet_Save"
  unfolding iptables_New_def iptables_NewChain_def iptables_AppendUnique_def
    iptables_Exists_def iptables_Insert_def iptables_List_def iptables_ListChains_def
    iptables_ClearChain_def iptables_DeleteChain_def iptables_Delete_def NewIPSet_def
    IPSet_Save_def
  by (rule preserves_invoke, rule tick_sameButRefresh, assumption, simp add: isRefresh_def,
      auto simp: sameButRefresh_def split: option.splits)+

lemma iptables_refreshLogged:
  "preserves refreshLogged iptables_New" "preserves refreshLogged (iptables_NewChain ch)"
  "preserves refreshLogged (iptables_AppendUnique ch args)"
  "preserves refreshLogged (iptables_Exists ch args)"
  "preserves refreshLogged (iptables_Insert ch pos args)"
  "preserves refreshLogged (iptables_List ch)" "preserves refreshLogged iptables_ListChains"
  "preserves refreshLogged (iptables_ClearChain ch)"
  "preserves refreshLogged (iptables_DeleteChain ch)"
  "preserves refreshLogged (iptables_Delete ch n)"
  "preserves refreshLogged NewIPSet" "preserves refreshLogged IPSet_Save"
  unfolding iptables_New_def iptables_NewChain_def iptables_AppendUnique_def
    iptables_Exists_def iptables_Insert_def iptables_List_def iptables_ListChains_def
    iptables_ClearChain_def iptables_DeleteChain_def iptables_Delete_def NewIPSet_def
    IPSet_Save_def
  by (rule preserves_invoke, rule tick_refreshLogged, assumption, simp add: isRefresh_def,
      auto simp: refreshLogged_def sameButRefresh_def split: option.splits)+

lemma iptables_createFaultsRemoved:
  "preserves createFaultsRemoved iptables_New"
  "preserves createFaultsRemoved (iptables_NewChain ch)"
  "preserves createFaultsRemoved (iptables_AppendUnique ch args)"
  "preserves createFaultsRemoved (iptables_Exists ch args)"
  "preserves createFaultsRemoved (iptables_Insert ch pos args)"
  "preserves createFaultsRemoved (iptables_List ch)"
  "preserves createFaultsRemoved iptables_ListChains"
  "preserves createFaultsRemoved (iptables_ClearChain ch)"
  "preserves createFaultsRemoved (iptables_DeleteChain ch)"
  "preserves createFaultsRemoved (iptables_Delete ch n)"
  "preserves createFaultsRemoved NewIPSet" "preserves createFaultsRemoved IPSet_Save"
  "preserves createFaultsRemoved (Set_Destroy s)"
  "preserves createFaultsRemoved (Set_RefreshWithBuiltinOptions s es)"
  unfolding iptables_New_def iptables_NewChain_def iptables_AppendUnique_def
    iptables_Exists_def iptables_Insert_def iptables_List_def iptables_ListChains_def
    iptables_ClearChain_def iptables_DeleteChain_def iptables_Delete_def NewIPSet_def
    IPSet_Save_def Set_Destroy_def Set_RefreshWithBuiltinOptions_def
  by (rule preserves_invoke, rule tick_createFaultsRemoved, assumption, simp add: isCreate_def,
      auto simp: createFaultsRemoved_def split: option.splits)+

lemma ipset_sameButRefresh:
  "preserves sameButRefresh (IPSet_Create s opts)" "preserves sameButRefresh (Set_Destroy s)"
  unfolding IPSet_Create_def Set_Destroy_def
proof -
  have k: "sameButRefresh w w' \<Longrightarrow>
      (map_of (kernelSets w) s = None \<and> map_of (kernelSets w') s = None) \<or>
      (\<exists>a b. map_of (kernelSets w) s = Some a \<and> map_of (kernelSets w') s = Some b)" for w w'
    by (rule same_keys_cases) (simp add: sameButRefresh_def)
  show "preserves sameButRefresh (invoke (CmdCreate s) (\<lambda>st. Inl IpsetError)
      (\<lambda>w. case map_of (kernelSets w) s of
             Some x \<Rightarrow> (Inr s, w)
           | None \<Rightarrow> (Inr s, w\<lparr>kernelSets := kernelSets w @
                        [(s, \<lparr>createOptions = opts, entries = []\<rparr>)]\<rparr>)))"
  proof (rule preserves_invoke)
    fix w w' assume r: "sameButRefresh w w'"
    then show "faults w (CmdCreate s) (clock w) = faults w' (CmdCreate s) (clock w') \<and>
        sameButRefresh (w\<lparr>clock := Suc (clock w)\<rparr>) (w'\<lparr>clock := Suc (clock w')\<rparr>)"
      by (intro tick_sameButRefresh) (simp_all add: isRefresh_def)
    show "fst (case map_of (kernelSets w) s of
                 Some x \<Rightarrow> (Inr s, w)
               | None \<Rightarrow> (Inr s, w\<lparr>kernelSets := kernelSets w @
                            [(s, \<lparr>createOptions = opts, entries = []\<rparr>)]\<rparr>)) =
          fst (case map_of (kernelSets w') s of
                 Some x \<Rightarrow> (Inr s, w')
               | None \<Rightarrow> (Inr s, w'\<lparr>kernelSets := kernelSets w' @
                            [(s, \<lparr>createOptions = opts, entries = []\<rparr>)]\<rparr>)) \<and>
          sameButRefresh
            (snd (case map_of (kernelSets w) s of
                 Some x \<Rightarrow> (Inr s, w)
               | None \<Rightarrow> (Inr s, w\<lparr>kernelSets := kernelSets w @
                            [(s, \<lparr>createOptions = opts, entries = []\<rparr>)]\<rparr>)))
            (snd (case map_of (kernelSets w') s of
                 Some x \<Rightarrow> (Inr s, w')
               | None \<Rightarrow> (Inr s, w'\<lparr>kernelSets := kernelSets w' @
                            [(s, \<lparr>createOptions = opts, entries = []\<rparr>)]\<rparr>)))"
      using r k [OF r] by (auto simp: sameButRefresh_def)
  qed
  show "preserves sameButRefresh (invoke (CmdDestroy s) (\<lambda>st. Inl IpsetError)
      (\<lambda>w. case map_of (kernelSets w) s of
             None \<Rightarrow> (Inl IpsetError, w)
           | Some x \<Rightarrow> (Inr (), w\<lparr>kernelSets := AList.delete s (kernelSets w)\<rparr>)))"
  proof (rule preserves_invoke)
    fix w w' assume r: "sameButRefresh w w'"
    then show "faults w (CmdDestroy s) (clock w) = faults w' (CmdDestroy s) (clock w') \<and>
        sameButRefresh (w\<lparr>clock := Suc (clock w)\<rparr>) (w'\<lparr>clock := Suc (clock w')\<rparr>)"
      by (intro tick_sameButRefresh) (simp_all add: isRefresh_def)
    show "fst (case map_of (kernelSets w) s of None \<Rightarrow> (Inl IpsetError, w)
               | Some x \<Rightarrow> (Inr (), w\<lparr>kernelSets := AList.delete s (kernelSets w)\<rparr>)) =
          fst (case map_of (kernelSets w') s of None \<Rightarrow> (Inl IpsetError, w')
               | Some x \<Rightarrow> (Inr (), w'\<lparr>kernelSets := AList.delete s (kernelSets w')\<rparr>)) \<and>
          sameButRefresh
            (snd (case map_of (kernelSets w) s of None \<Rightarrow> (Inl IpsetError, w)
               | Some x \<Rightarrow> (Inr (), w\<lparr>kernelSets := AList.delete s (kernelSets w)\<rparr>)))
            (snd (case map_of (kernelSets w') s of None \<Rightarrow> (Inl IpsetError, w')
               | Some x \<Rightarrow> (Inr (), w'\<lparr>kernelSets := AList.delete s (kernelSets w')\<rparr>)))"
      using r k [OF r] by (auto simp: sameButRefresh_def delete_keys)
  qed
qed

lemma ipset_refreshLogged:
  "preserves refreshLogged (IPSet_Create s opts)" "preserves refreshLogged (Set_Destroy s)"
  unfolding IPSet_Create_def Set_Destroy_def
proof -
  have k: "refreshLogged w w' \<Longrightarrow>
      (map_of (kernelSets w) s = None \<and> map_of (kernelSets w') s = None) \<or>
      (\<exists>a b. map_of (kernelSets w) s = Some a \<and> map_of (kernelSets w') s = Some b)" for w w'
    by (rule same_keys_cases) (simp add: refreshLogged_def sameButRefresh_def)
  show "preserves refreshLogged (invoke (CmdCreate s) (\<lambda>st. Inl IpsetError)
      (\<lambda>w. case map_of (kernelSets w) s of
             Some x \<Rightarrow> (Inr s, w)
           | None \<Rightarrow> (Inr s, w\<lparr>kernelSets := kernelSets w @
                        [(s, \<lparr>createOptions = opts, entries = []\<rparr>)]\<rparr>)))"
  proof (rule preserves_invoke)
    fix w w' assume r: "refreshLogged w w'"
    then show "faults w (CmdCreate s) (clock w) = faults w' (CmdCreate s) (clock w') \<and>
        refreshLogged (w\<lparr>clock := Suc (clock w)\<rparr>) (w'\<lparr>clock := Suc (clock w')\<rparr>)"
      by (intro tick_refreshLogged) (simp_all add: isRefresh_def)
    show "fst (case map_of (kernelSets w) s of
                 Some x \<Rightarrow> (Inr s, w)
               | None \<Rightarrow> (Inr s, w\<lparr>kernelSets := kernelSets w @
                            [(s, \<lparr>createOptions = opts, entries = []\<rparr>)]\<rparr>)) =
          fst (case map_of (kernelSets w') s of
                 Some x \<Rightarrow> (Inr s, w')
               | None \<Rightarrow> (Inr s, w'\<lparr>kernelSets := kernelSets w' @
                            [(s, \<lparr>createOptions = opts, entries = []\<rparr>)]\<rparr>)) \<and>
          refreshLogged
            (snd (case map_of (kernelSets w) s of
                 Some x \<Rightarrow> (Inr s, w)
               | None \<Rightarrow> (Inr s, w\<lparr>kernelSets := kernelSets w @
                            [(s, \<lparr>createOptions = opts, entries = []\<rparr>)]\<rparr>)))
            (snd (case map_of (kernelSets w') s of
                 Some x \<Rightarrow> (Inr s, w')
               | None \<Rightarrow> (Inr s, w'\<lparr>kernelSets := kernelSets w' @
                            [(s, \<lparr>createOptions = opts, entries = []\<rparr>)]\<rparr>)))"
      using r k [OF r] by (auto simp: refreshLogged_def sameButRefresh_def)
  qed
  show "preserves refreshLogged (invoke (CmdDestroy s) (\<lambda>st. Inl IpsetError)
      (\<lambda>w. case map_of (kernelSets w) s of
             None \<Rightarrow> (Inl IpsetError, w)
           | Some x \<Rightarrow> (Inr (), w\<lparr>kernelSets := AList.delete s (kernelSets w)\<rparr>)))"
  proof (rule preserves_invoke)
    fix w w' assume r: "refreshLogged w w'"
    then show "faults w (CmdDestroy s) (clock w) = faults w' (CmdDestroy s) (clock w') \<and>
        refreshLogged (w\<lparr>clock := Suc (clock w)\<rparr>) (w'\<lparr>clock := Suc (clock w')\<rparr>)"
      by (intro tick_refreshLogged) (simp_all add: isRefresh_def)
    show "fst (case map_of (kernelSets w) s of None \<Rightarrow> (Inl IpsetError, w)
               | Some x \<Rightarrow> (Inr (), w\<lparr>kernelSets := AList.delete s (kernelSets w)\<rparr>)) =
          fst (case map_of (kernelSets w') s of None \<Rightarrow> (Inl IpsetError, w')
               | Some x \<Rightarrow> (Inr (), w'\<lparr>kernelSets := AList.delete s (kernelSets w')\<rparr>)) \<and>
          refreshLogged
            (snd (case map_of (kernelSets w) s of None \<Rightarrow> (Inl IpsetError, w)
               | Some x \<Rightarrow> (Inr (), w\<lparr>kernelSets := AList.delete s (kernelSets w)\<rparr>)))
            (snd (case map_of (kernelSets w') s of None \<Rightarrow> (Inl IpsetError, w')
               | Some x \<Rightarrow> (Inr (), w'\<lparr>kernelSets := AList.delete s (kernelSets w')\<rparr>)))"
      using r k [OF r] by (auto simp: refreshLogged_def sameButRefresh_def delete_keys)
  qed
qed

lemma misc_preserved:
  "preserves sameButRefresh SendHeartBeat" "preserves sameButRefresh Now_UnixNano"
  "preserves refreshLogged SendHeartBeat" "preserves refreshLogged Now_UnixNano"
  "preserves createFaultsRemoved SendHeartBeat" "preserves createFaultsRemoved Now_UnixNano"
  "preserves createFaultsRemoved (logIfErr err msg)"
  by (auto simp: preserves_def SendHeartBeat_def Now_UnixNano_def glog_Errorf_def logIfErr_def
      sameButRefresh_def refreshLogged_def createFaultsRemoved_def split: sum.splits)

lemma refresh_log_sameButRefresh:
  "preserves sameButRefresh (Set_RefreshWithBuiltinOptions s es \<bind> (\<lambda>err. logIfErr err msg))"
proof (rule preservesI)
  fix w w' assume r: "sameButRefresh w w'"
  have "map fst (kernelSets w) = map fst (kernelSets w')"
    using r by (simp add: sameButRefresh_def)
  from same_keys_cases [OF this, of s] r
  show "fst (run_state (Set_RefreshWithBuiltinOptions s es \<bind> (\<lambda>err. logIfErr err msg)) w) =
        fst (run_state (Set_RefreshWithBuiltinOptions s es \<bind> (\<lambda>err. logIfErr err msg)) w') \<and>
      sameButRefresh
        (snd (run_state (Set_RefreshWithBuiltinOptions s es \<bind> (\<lambda>err. logIfErr err msg)) w))
        (snd (run_state (Set_RefreshWithBuiltinOptions s es \<bind> (\<lambda>err. logIfErr err msg)) w'))"
    by (auto simp: sameButRefresh_def Set_RefreshWithBuiltinOptions_def invoke_def logIfErr_def
        glog_Errorf_def update_existing_keys split: option.splits)
qed

lemma refresh_log_refreshLogged:
  "preserves refreshLogged (Set_RefreshWithBuiltinOptions s es \<bind> (\<lambda>err. logIfErr err msg))"
proof (rule preservesI)
  fix w w' assume r: "refreshLogged w w'"
  have "map fst (kernelSets w) = map fst (kernelSets w')"
    using r by (simp add: refreshLogged_def sameButRefresh_def)
  from same_keys_cases [OF this, of s] r
  show "fst (run_state (Set_RefreshWithBuiltinOptions s es \<bind> (\<lambda>err. logIfErr err msg)) w) =
        fst (run_state (Set_RefreshWithBuiltinOptions s es \<bind> (\<lambda>err. logIfErr err msg)) w') \<and>
      refreshLogged
        (snd (run_state (Set_RefreshWithBuiltinOptions s es \<bind> (\<lambda>err. logIfErr err msg)) w))
        (snd (run_state (Set_RefreshWithBuiltinOptions s es \<bind> (\<lambda>err. logIfErr err msg)) w'))"
    by (auto simp: refreshLogged_def sameButRefresh_def Set_RefreshWithBuiltinOptions_def
        invoke_def logIfErr_def glog_Errorf_def update_existing_keys split: option.splits)
qed

lemma refresh_log_createFaultsRemoved:
  "preserves createFaultsRemoved
     (Set_RefreshWithBuiltinOptions s es \<bind> (\<lambda>err. logIfErr err msg))"
  by (rule preserves_bind iptables_createFaultsRemoved misc_preserved)+

lemma drivers_sameButRefresh: "drivers sameButRefresh"
  unfolding drivers_def
  by (intro conjI allI iptables_sameButRefresh ipset_sameButRefresh misc_preserved
      refresh_log_sameButRefresh)

lemma drivers_refreshLogged: "drivers refreshLogged"
  unfolding drivers_def
  by (intro conjI allI iptables_refreshLogged ipset_refreshLogged misc_preserved
      refresh_log_refreshLogged)

lemma drivers_createFaultsRemoved: "drivers createFaultsRemoved"
  unfolding drivers_def
  by (intro conjI allI iptables_createFaultsRemoved misc_preserved
      refresh_log_createFaultsRemoved)

subsection \<open>Failed creations\<close>

lemma abortsI:
  "(\<And>w w'. createFaultsRemoved w w' \<Longrightarrow>
      fst (run_state m w) = Inl (Err ''failed to create ipset: '') \<or>
      (fst (run_state m w) = fst (run_state m w') \<and>
       createFaultsRemoved (snd (run_state m w)) (snd (run_state m w')))) \<Longrightarrow> aborts m"
  by (simp add: aborts_def)

lemma preserves_aborts: "preserves createFaultsRemoved m \<Longrightarrow> aborts m"
  by (simp add: preserves_def aborts_def)

lemma aborts_return: "aborts (return x)"
  by (simp add: aborts_def)

lemma aborts_bind:
  assumes "preserves createFaultsRemoved p" and "\<And>x. aborts (k x)"
  shows "aborts (p \<bind> k)"
proof (rule abortsI)
  fix w w' assume r: "createFaultsRemoved w w'"
  obtain x w1 where p: "run_state p w = (x, w1)" by (cases "run_state p w")
  obtain x' w1' where p': "run_state p w' = (x', w1')" by (cases "run_state p w'")
  from assms(1) [unfolded preserves_def, rule_format, OF r] p p'
  have "x = x'" "createFaultsRemoved w1 w1'"
    by simp_all
  with assms(2) [of x] p p'
  show "fst (run_state (p \<bind> k) w) = Inl (Err ''failed to create ipset: '') \<or>
      (fst (run_state (p \<bind> k) w) = fst (run_state (p \<bind> k) w') \<and>
       createFaultsRemoved (snd (run_state (p \<bind> k) w)) (snd (run_state (p \<bind> k) w')))"
    by (simp add: aborts_def)
qed

lemma aborts_thenE:
  assumes "aborts m" and "\<And>a. aborts (f a)"
  shows "aborts (thenE m f)"
proof (rule abortsI)
  fix w w' assume r: "createFaultsRemoved w w'"
  obtain x w1 where p: "run_state m w = (x, w1)" by (cases "run_state m w")
  obtain x' w1' where p': "run_state m w' = (x', w1')" by (cases "run_state m w'")
  from assms(1) [unfolded aborts_def, rule_format, OF r] p p'
  consider "x = Inl (Err ''failed to create ipset: '')" | "x = x'" "createFaultsRemoved w1 w1'"
    by auto
  then show "fst (run_state (thenE m f) w) = Inl (Err ''failed to create ipset: '') \<or>
      (fst (run_state (thenE m f) w) = fst (run_state (thenE m f) w') \<and>
       createFaultsRemoved (snd (run_state (thenE m f) w)) (snd (run_state (thenE m f) w')))"
  proof cases
    case 1
    then show ?thesis using p by (simp add: thenE_def)
  next
    case 2
    then show ?thesis
      using p p' assms(2) by (cases x') (auto simp: thenE_def aborts_def)
  qed
qed

lemma aborts_foldE: "(\<And>x a. aborts (f x a)) \<Longrightarrow> aborts (foldE f xs acc)"
  by (induction xs arbitrary: acc) (auto intro!: aborts_return aborts_thenE)

lemma aborts_if: "(b \<Longrightarrow> aborts m) \<Longrightarrow> (\<not> b \<Longrightarrow> aborts m') \<Longrightarrow> aborts (if b then m else m')"
  by simp

lemma aborts_case_sum:
  "(\<And>e. aborts (f e)) \<Longrightarrow> (\<And>a. aborts (g a)) \<Longrightarrow> aborts (case r of Inl e \<Rightarrow> f e | Inr a \<Rightarrow> g a)"
  by (cases r) simp_all

lemma aborts_case_option:
  "aborts f \<Longrightarrow> (\<And>a. aborts (g a)) \<Longrightarrow> aborts (case r of None \<Rightarrow> f | Some a \<Rightarrow> g a)"
  by (cases r) simp_all

lemma aborts_case_prod: "(\<And>a b. aborts (f a b)) \<Longrightarrow> aborts (case p of (a, b) \<Rightarrow> f a b)"
  by (cases p) simp

lemma aborts_case_prod_app:
  "(\<And>a b. aborts (f a b c)) \<Longrightarrow> aborts ((case p of (a, b) \<Rightarrow> f a b) c)"
  by (cases p) simp

lemma aborts_create:
  assumes "\<And>x. aborts (k x)"
  shows "aborts (IPSet_Create s opts \<bind>
           (\<lambda>c. case c of Inl e \<Rightarrow> return (Inl (Err ''failed to create ipset: ''))
                           | Inr x \<Rightarrow> k x))"
proof (rule abortsI)
  fix w w' assume r: "createFaultsRemoved w w'"
  let ?m = "IPSet_Create s opts \<bind>
           (\<lambda>c. case c of Inl e \<Rightarrow> return (Inl (Err ''failed to create ipset: ''))
                           | Inr x \<Rightarrow> k x)"
  show "fst (run_state ?m w) = Inl (Err ''failed to create ipset: '') \<or>
      (fst (run_state ?m w) = fst (run_state ?m w') \<and>
       createFaultsRemoved (snd (run_state ?m w)) (snd (run_state ?m w')))"
  proof (cases "faults w (CmdCreate s) (clock w)")
    case (Some st)
    then show ?thesis by (simp add: IPSet_Create_def invoke_def)
  next
    case None
    have f': "faults w' (CmdCreate s) (clock w') = None"
      using r by (simp add: createFaultsRemoved_def)
    have p: "fst (run_state (IPSet_Create s opts) w) = Inr s"
      "fst (run_state (IPSet_Create s opts) w') = Inr s"
      and r1: "createFaultsRemoved (snd (run_state (IPSet_Create s opts) w))
                 (snd (run_state (IPSet_Create s opts) w'))"
      using None f' r
      by (auto simp: IPSet_Create_def invoke_def createFaultsRemoved_def split: option.splits)
    show ?thesis
      using assms [of s, unfolded aborts_def, rule_format, OF r1] p
      by (simp add: case_prod_beta)
  qed
qed

lemmas created_preserved = driversD [OF drivers_createFaultsRemoved]
  iptables_createFaultsRemoved(14) misc_preserved(7)

lemma aborts_without_creation:
  "aborts (appendRuleToPolicyChain c cm s d p dp)" "aborts (portRules c cm s d pps)"
  by (rule preserves_aborts preserves_appendRuleToPolicyChain preserves_portRules
      drivers_createFaultsRemoved)+

lemmas aborts_rules = aborts_create aborts_return aborts_thenE aborts_foldE aborts_if
  aborts_case_sum aborts_case_option aborts_case_prod_app aborts_case_prod
  aborts_without_creation aborts_bind created_preserved

lemma aborts_namedPortRules: "aborts (namedPortRules nm c cm s eps active)"
  unfolding namedPortRules_def Set_Refresh_def by (rule aborts_rules)+

lemma aborts_ingress:
  "aborts (ingressSrcPodsRules policy tgt v i r active)"
  "aborts (ingressMatchAllSourceRules policy tgt v i r active)"
  "aborts (ingressSrcIPBlocksRules policy tgt v i r active)"
  unfolding ingressSrcPodsRules_def ingressMatchAllSourceRules_def ingressSrcIPBlocksRules_def
    Let_def Set_Refresh_def
  by (rule aborts_rules aborts_namedPortRules)+

lemma aborts_egress:
  "aborts (egressDstPodsRules policy tgt v i er active)"
  "aborts (egressMatchAllDestinationsRules policy tgt v i er active)"
  "aborts (egressDstIPBlocksRules policy tgt v i er active)"
  unfolding egressDstPodsRules_def egressMatchAllDestinationsRules_def egressDstIPBlocksRules_def
    Let_def Set_Refresh_def
  by (rule aborts_rules aborts_namedPortRules)+

lemma aborts_processRules:
  "aborts (processIngressRules policy tgt active v)"
  "aborts (processEgressRules policy tgt active v)"
  unfolding processIngressRules_def processEgressRules_def
  by (rule aborts_rules aborts_ingress aborts_egress)+

lemma aborts_syncPolicyChain: "aborts (syncPolicyChain v policy acc)"
  unfolding syncPolicyChain_def Let_def Set_Refresh_def
  by (rule aborts_rules aborts_processRules)+

lemma aborts_syncNetworkPolicyChains: "aborts (syncNetworkPolicyChains npc v)"
  unfolding syncNetworkPolicyChains_def
  by (rule aborts_rules aborts_syncPolicyChain)+

lemma abortsSync_preserves: "preserves createFaultsRemoved m \<Longrightarrow> abortsSync m"
  by (simp add: preserves_def abortsSync_def)

lemma abortsSync_bind:
  assumes "preserves createFaultsRemoved p" and "\<And>x. abortsSync (k x)"
  shows "abortsSync (p \<bind> k)"
  unfolding abortsSync_def
proof (intro allI impI)
  fix w w' assume r: "createFaultsRemoved w w'"
  note a = assms(1) [unfolded preserves_def, rule_format, OF r]
  show "fst (fst (run_state (p \<bind> k) w)) =
        Inl (Err ''Aborting sync. Failed to sync network policy chains: failed to create ipset: '') \<or>
      (fst (run_state (p \<bind> k) w) = fst (run_state (p \<bind> k) w') \<and>
       createFaultsRemoved (snd (run_state (p \<bind> k) w)) (snd (run_state (p \<bind> k) w')))"
    using a assms(2) [of "fst (run_state p w)", unfolded abortsSync_def, rule_format, OF conjunct2 [OF a]]
    by (simp add: case_prod_beta)
qed

lemma abortsSync_chains:
  assumes "aborts m" and "\<And>x. abortsSync (k x)"
  shows "abortsSync (m \<bind> (\<lambda>r. case r of
           Inl e \<Rightarrow> return (Inl (wrapErr ''Aborting sync. Failed to sync network policy chains: '' e), n)
         | Inr x \<Rightarrow> k x))"
  unfolding abortsSync_def
proof (intro allI impI)
  fix w w' assume r: "createFaultsRemoved w w'"
  let ?f = "\<lambda>r. case r of
           Inl e \<Rightarrow> return (Inl (wrapErr ''Aborting sync. Failed to sync network policy chains: '' e), n)
         | Inr x \<Rightarrow> k x"
  from assms(1) [unfolded aborts_def, rule_format, OF r]
  consider "fst (run_state m w) = Inl (Err ''failed to create ipset: '')"
    | "fst (run_state m w) = fst (run_state m w')"
      "createFaultsRemoved (snd (run_state m w)) (snd (run_state m w'))"
    by auto
  then show "fst (fst (run_state (m \<bind> ?f) w)) =
        Inl (Err ''Aborting sync. Failed to sync network policy chains: failed to create ipset: '') \<or>
      (fst (run_state (m \<bind> ?f) w) = fst (run_state (m \<bind> ?f) w') \<and>
       createFaultsRemoved (snd (run_state (m \<bind> ?f) w)) (snd (run_state (m \<bind> ?f) w')))"
  proof cases
    case 1
    then show ?thesis by (simp add: case_prod_beta wrapErr_def)
  next
    case 2
    show ?thesis
    proof (cases "fst (run_state m w')")
      case (Inl e)
      then show ?thesis using 2 by (simp add: case_prod_beta)
    next
      case (Inr x)
      then show ?thesis
        using 2 assms(2) [of x, unfolded abortsSync_def, rule_format, OF 2(2)]
        by (simp add: case_prod_beta)
    qed
  qed
qed

lemma abortsSync_case_sum:
  "(\<And>e. abortsSync (f e)) \<Longrightarrow> (\<And>a. abortsSync (g a)) \<Longrightarrow>
     abortsSync (case r of Inl e \<Rightarrow> f e | Inr a \<Rightarrow> g a)"
  by (cases r) simp_all

lemma abortsSync_return: "abortsSync (return x)"
  by (simp add: abortsSync_def)

lemma abortsSync_Sync: "abortsSync (Sync npc)"
  unfolding Sync_def Let_def
  by (rule abortsSync_chains aborts_syncNetworkPolicyChains abortsSync_case_sum abortsSync_return
      abortsSync_bind created_preserved
    | (rule abortsSync_preserves,
       (rule preserves_rules created_preserved
          preserves_syncPodFirewallChains [OF drivers_createFaultsRemoved]
          preserves_cleanupStaleRules [OF drivers_createFaultsRemoved])+))+

lemmas stable_Sync = preserves_Sync [OF drivers_sameButRefresh ipset_sameButRefresh(1)]

lemmas logged_Sync = preserves_Sync [OF drivers_refreshLogged ipset_refreshLogged(1)]

lemma refresh_failure_logged:
  "faults w (CmdRefresh s) (clock w) = Some st \<Longrightarrow>
     run_state (Set_Refresh s es opts \<bind> (\<lambda>err. logIfErr err msg)) w =
       ((), w\<lparr>clock := Suc (clock w), errorLog := errorLog w @ [msg]\<rparr>)"
  by (simp add: Set_Refresh_def Set_RefreshWithBuiltinOptions_def invoke_def logIfErr_def
      glog_Errorf_def)

lemma create_failure_aborts:
  assumes "policyType policy = ''both'' \<or> policyType policy = ''ingress''"
    and "faults w (CmdNewChain (networkPolicyChainName (namespace policy) (name policy) v))
           (clock w) = None"
    and "faults w (CmdCreate (policyDestinationPodIpSetName (namespace policy) (name policy)))
           (Suc (clock w)) = Some st"
  shows "fst (run_state (syncPolicyChain v policy acc) w) = Inl (Err ''failed to create ipset: '')"
  using assms
  by (auto simp: syncPolicyChain_def Let_def iptables_NewChain_def IPSet_Create_def invoke_def
      thenE_def split: option.splits)

lemma set_names_other_prefix [simp]:
  "\<not> prefix kubeDestinationIpSetPrefix (policySourcePodIpSetName a b)"
  "\<not> prefix kubeSourceIpSetPrefix (policyDestinationPodIpSetName a b)"
  "\<not> prefix kubeDestinationIpSetPrefix (policyIndexedSourcePodIpSetName a b i)"
  "\<not> prefix kubeSourceIpSetPrefix (policyIndexedDestinationPodIpSetName a b i)"
  "\<not> prefix kubeDestinationIpSetPrefix (policyIndexedSourceIpBlockIpSetName a b i)"
  "\<not> prefix kubeSourceIpSetPrefix (policyIndexedDestinationIpBlockIpSetName a b i)"
  "\<not> prefix kubeSourceIpSetPrefix (policyIndexedIngressNamedPortIpSetName a b i j)"
  "\<not> prefix kubeSourceIpSetPrefix (policyIndexedEgressNamedPortIpSetName a b i j)"
  by (simp_all add: name_defs prefix_defs Let_def)

lemma set_names_nonempty [simp]:
  "policySourcePodIpSetName a b \<noteq> []" "policyDestinationPodIpSetName a b \<noteq> []"
  "policyIndexedSourcePodIpSetName a b i \<noteq> []"
  "policyIndexedDestinationPodIpSetName a b i \<noteq> []"
  "policyIndexedSourceIpBlockIpSetName a b i \<noteq> []"
  "policyIndexedDestinationIpBlockIpSetName a b i \<noteq> []"
  "policyIndexedIngressNamedPortIpSetName a b i j \<noteq> []"
  "policyIndexedEgressNamedPortIpSetName a b i j \<noteq> []"
  by (simp_all add: name_defs prefix_defs Let_def)

lemma prefix_distinct:
  "prefix p x \<Longrightarrow> \<not> prefix p y \<Longrightarrow> x \<noteq> y \<and> y \<noteq> x"
  by auto

lemma target_rule_sets_distinct [simp]:
  "policyDestinationPodIpSetName a b \<noteq> policyIndexedSourcePodIpSetName c d i"
  "policyIndexedSourcePodIpSetName c d i \<noteq> policyDestinationPodIpSetName a b"
  "policyDestinationPodIpSetName a b \<noteq> policyIndexedSourceIpBlockIpSetName c d i"
  "policyIndexedSourceIpBlockIpSetName c d i \<noteq> policyDestinationPodIpSetName a b"
  "policySourcePodIpSetName a b \<noteq> policyIndexedDestinationPodIpSetName c d i"
  "policyIndexedDestinationPodIpSetName c d i \<noteq> policySourcePodIpSetName a b"
  "policySourcePodIpSetName a b \<noteq> policyIndexedDestinationIpBlockIpSetName c d i"
  "policyIndexedDestinationIpBlockIpSetName c d i \<noteq> policySourcePodIpSetName a b"
  "policySourcePodIpSetName a b \<noteq> policyIndexedEgressNamedPortIpSetName c d i j"
  "policyIndexedEgressNamedPortIpSetName c d i j \<noteq> policySourcePodIpSetName a b"
  "policyIndexedSourcePodIpSetName a b i \<noteq> policyIndexedIngressNamedPortIpSetName c d k j"
  "policyIndexedIngressNamedPortIpSetName c d k j \<noteq> policyIndexedSourcePodIpSetName a b i"
  "policyIndexedSourceIpBlockIpSetName a b i \<noteq> policyIndexedIngressNamedPortIpSetName c d k j"
  "policyIndexedIngressNamedPortIpSetName c d k j \<noteq> policyIndexedSourceIpBlockIpSetName a b i"
  "policySourcePodIpSetName a b \<noteq> policyDestinationPodIpSetName c d"
  "policyDestinationPodIpSetName c d \<noteq> policySourcePodIpSetName a b"
  by (simp_all add: name_defs prefix_defs Let_def)

lemmas allow_defs = allowController_def allowFromPods_def idleController_def podC_def
  freshWorld_def buildIngressRule_def evalPodPeer_def evalIPBlockPeer_def

lemma Sync_allow_sourceCreateFails:
  "fst (fst (run_state (Sync allowController) sourceCreateFailsWorld)) =
     Inl (Err ''Aborting sync. Failed to sync network policy chains: failed to create ipset: '')"
  "kernelSets (snd (run_state (Sync allowController) sourceCreateFailsWorld)) =
     [(policyDestinationPodIpSetName ''ns'' ''p'',
       \<lparr>createOptions = [''hash:ip'', ''timeout'', ''0''],
        entries = [[''10.0.0.5'', ''timeout'', ''0'']]\<rparr>)]"
  "filterTable (snd (run_state (Sync allowController) sourceCreateFailsWorld)) =
     [(''INPUT'', []), (''FORWARD'', []), (''OUTPUT'', []),
      (networkPolicyChainName ''ns'' ''p'' ''1'', [])]"
  by (simp_all add: sync_defs cleanup_defs driver_defs build_defs policy_defs pod_defs allow_defs
      sourceCreateFailsWorld_def ingressSrcPodsRules_def Let_def)

lemma Sync_allow_refreshFails:
  "fst (fst (run_state (Sync allowController) refreshFailsWorld)) = Inr ()"
  "errorLog (snd (run_state (Sync allowController) refreshFailsWorld)) =
     [''failed to refresh targetDestPodIpSet,: '', ''failed to refresh srcPodIpSet: '']"
  "kernelSets (snd (run_state (Sync allowController) refreshFailsWorld)) =
     [(policyDestinationPodIpSetName ''ns'' ''p'',
       \<lparr>createOptions = [''hash:ip'', ''timeout'', ''0''], entries = []\<rparr>),
      (policyIndexedSourcePodIpSetName ''ns'' ''p'' 0,
       \<lparr>createOptions = [''hash:ip'', ''timeout'', ''0''], entries = []\<rparr>)]"
  "map_of (filterTable (snd (run_state (Sync allowController) refreshFailsWorld)))
     (networkPolicyChainName ''ns'' ''p'' ''1'') =
     Some [[''-m'', ''comment'', ''--comment'',
            ''rule to ACCEPT traffic from source pods to dest pods selected by policy name p namespace ns'',
            ''-m'', ''set'', ''--match-set'', policyIndexedSourcePodIpSetName ''ns'' ''p'' 0, ''src'',
            ''-m'', ''set'', ''--match-set'', policyDestinationPodIpSetName ''ns'' ''p'', ''dst'',
            ''-j'', ''ACCEPT'']]"
  by (simp_all add: sync_defs cleanup_defs driver_defs build_defs policy_defs pod_defs allow_defs
      refreshFailsWorld_def ingressSrcPodsRules_def ingressMatchAllSourceRules_def
      ingressSrcIPBlocksRules_def appendRuleToPolicyChain_def portRules_def namedPortRules_def
      policyComment_def Let_def)

lemma Sync_allow_fresh:
  "fst (fst (run_state (Sync allowController) freshWorld)) = Inr ()"
  "errorLog (snd (run_state (Sync allowController) freshWorld)) = []"
  "kernelSets (snd (run_state (Sync allowController) freshWorld)) =
     [(policyDestinationPodIpSetName ''ns'' ''p'',
       \<lparr>createOptions = [''hash:ip'', ''timeout'', ''0''],
        entries = [[''10.0.0.5'', ''timeout'', ''0'']]\<rparr>),
      (policyIndexedSourcePodIpSetName ''ns'' ''p'' 0,
       \<lparr>createOptions = [''hash:ip'', ''timeout'', ''0''],
        entries = [[''10.0.0.5'', ''timeout'', ''0'']]\<rparr>)]"
  by (simp_all add: sync_defs cleanup_defs driver_defs build_defs policy_defs pod_defs allow_defs
      ingressSrcPodsRules_def ingressMatchAllSourceRules_def
      ingressSrcIPBlocksRules_def appendRuleToPolicyChain_def portRules_def namedPortRules_def
      policyComment_def Let_def)

lemma source_create_failure_aborts:
  assumes "ingressRules policy = Some (r # rs)" and "srcPods r \<noteq> []"
    and "faults w CmdIptablesNew (clock w) = None"
    and "faults w (CmdCreate (policyIndexedSourcePodIpSetName (namespace policy) (name policy) 0))
           (Suc (clock w)) = Some st"
  shows "fst (run_state (processIngressRules policy tgt active v) w) =
           Inl (Err ''failed to create ipset: '')"
  using assms
  by (simp add: processIngressRules_def ingressSrcPodsRules_def iptables_New_def IPSet_Create_def
      invoke_def thenE_def Let_def)

text \<open>
  C5, as the code has it. Whether refreshes fail or not changes neither what \<open>Sync\<close> returns
  nor the packet filter, the set names, the clock or the heartbeats it leaves: two runs from
  worlds that agree up to refreshes return the same and end in worlds that agree up to
  refreshes. Failed refreshes are logged: of two such runs, the second on a node where no
  refresh fails, the first logs at least as much as the second, and when it logs no more,
  both end with the same address sets and the same log. A refresh that fails appends its
  message to the log and leaves the kernel state as it was. The creation of a set is
  different. Of a run of \<open>Sync\<close> and the run on the same node with the creation failures
  removed, either the first returns the error \<open>failed to create ipset\<close> behind the prefix of
  \<open>Sync\<close>, or both return the same and end in the same state: no failed creation is survived,
  at any of the places that create a set. In particular, when creating a policy's target set
  fails, the body of the loop over the policies returns that error, and when creating the
  source set of a policy's first ingress rule fails, \<open>processIngressRules\<close> returns it.
\<close>

theorem C5_refresh_failures_are_logged_and_ignored:
  "(sameButRefresh w w' \<longrightarrow>
      fst (run_state (Sync npc) w) = fst (run_state (Sync npc) w') \<and>
      sameButRefresh (snd (run_state (Sync npc) w)) (snd (run_state (Sync npc) w')))
   \<and> (refreshLogged w w' \<longrightarrow>
      fst (run_state (Sync npc) w) = fst (run_state (Sync npc) w') \<and>
      refreshLogged (snd (run_state (Sync npc) w)) (snd (run_state (Sync npc) w')))
   \<and> (faults w (CmdRefresh s) (clock w) = Some st \<longrightarrow>
        run_state (Set_Refresh s es opts \<bind> (\<lambda>err. logIfErr err msg)) w =
          ((), w\<lparr>clock := Suc (clock w), errorLog := errorLog w @ [msg]\<rparr>))
   \<and> (createFaultsRemoved w w' \<longrightarrow>
        fst (fst (run_state (Sync npc) w)) =
          Inl (Err ''Aborting sync. Failed to sync network policy chains: failed to create ipset: '') \<or>
        (fst (run_state (Sync npc) w) = fst (run_state (Sync npc) w') \<and>
         createFaultsRemoved (snd (run_state (Sync npc) w)) (snd (run_state (Sync npc) w'))))
   \<and> ((policyType policy = ''both'' \<or> policyType policy = ''ingress'') \<and>
        faults w (CmdNewChain (networkPolicyChainName (namespace policy) (name policy) v))
          (clock w) = None \<and>
        faults w (CmdCreate (policyDestinationPodIpSetName (namespace policy) (name policy)))
          (Suc (clock w)) = Some st \<longrightarrow>
        fst (run_state (syncPolicyChain v policy acc) w) = Inl (Err ''failed to create ipset: ''))
   \<and> (ingressRules policy = Some (r # rs) \<and> srcPods r \<noteq> [] \<and>
        faults w CmdIptablesNew (clock w) = None \<and>
        faults w (CmdCreate (policyIndexedSourcePodIpSetName (namespace policy) (name policy) 0))
          (Suc (clock w)) = Some st \<longrightarrow>
        fst (run_state (processIngressRules policy tgt active v) w) =
          Inl (Err ''failed to create ipset: ''))"
  using stable_Sync [of npc] logged_Sync [of npc] abortsSync_Sync [of npc]
    refresh_failure_logged [of w s st es opts msg]
    create_failure_aborts [of policy w v st acc]
    source_create_failure_aborts [of policy r rs w st tgt active v]
  unfolding preserves_def abortsSync_def by blast

theorem C5_refresh_failures_are_logged_and_ignored_witness:
  "sameButRefresh freshWorld refreshFailsWorld
   \<and> fst (run_state (Sync allowController) freshWorld) =
       fst (run_state (Sync allowController) refreshFailsWorld)
   \<and> refreshLogged refreshFailsWorld freshWorld
   \<and> refreshLogged (snd (run_state (Sync allowController) refreshFailsWorld))
         (snd (run_state (Sync allowController) freshWorld))
   \<and> fst (fst (run_state (Sync allowController) refreshFailsWorld)) = Inr ()
   \<and> errorLog (snd (run_state (Sync allowController) refreshFailsWorld)) =
       [''failed to refresh targetDestPodIpSet,: '', ''failed to refresh srcPodIpSet: '']
   \<and> errorLog (snd (run_state (Sync allowController) freshWorld)) = []
   \<and> faults refreshFailsWorld (CmdRefresh ''KUBE-DST-X'') (clock refreshFailsWorld) = Some 1
   \<and> run_state (Set_Refresh ''KUBE-DST-X'' [''10.0.0.5''] [''timeout'', ''0''] \<bind>
         (\<lambda>err. logIfErr err ''failed to refresh'')) refreshFailsWorld =
       ((), refreshFailsWorld\<lparr>clock := 1, errorLog := [''failed to refresh'']\<rparr>)
   \<and> createFaultsRemoved sourceCreateFailsWorld freshWorld
   \<and> fst (fst (run_state (Sync allowController) sourceCreateFailsWorld)) =
       Inl (Err ''Aborting sync. Failed to sync network policy chains: failed to create ipset: '')
   \<and> createFaultsRemoved freshWorld freshWorld
   \<and> fst (fst (run_state (Sync allowController) freshWorld)) = Inr ()
   \<and> policyType (buildPolicy allowController allowFromPods) = ''ingress''
   \<and> faults createFailsWorld (CmdNewChain (networkPolicyChainName ''ns'' ''p'' ''1''))
         (clock createFailsWorld) = None
   \<and> faults createFailsWorld (CmdCreate (policyDestinationPodIpSetName ''ns'' ''p''))
         (Suc (clock createFailsWorld)) = Some 1
   \<and> fst (run_state (syncPolicyChain ''1''
         (buildPolicy allowController allowFromPods) ([], [])) createFailsWorld) =
       Inl (Err ''failed to create ipset: '')
   \<and> ingressRules (buildPolicy allowController allowFromPods) =
       Some [\<lparr>matchAllPorts = True, ports = [], namedPorts = [], matchAllSource = False,
              srcPods = [\<lparr>ip = ''10.0.0.5'', podName = ''c'', podNamespace = ''ns'',
                          labels = [(''app'', ''web'')]\<rparr>],
              srcIPBlocks = []\<rparr>]
   \<and> faults sourceCreateFailsWorld CmdIptablesNew (clock sourceCreateFailsWorld) = None
   \<and> faults sourceCreateFailsWorld (CmdCreate (policyIndexedSourcePodIpSetName ''ns'' ''p'' 0))
         (Suc (clock sourceCreateFailsWorld)) = Some 1
   \<and> fst (run_state (processIngressRules (buildPolicy allowController allowFromPods)
         (policyDestinationPodIpSetName ''ns'' ''p'') [] ''1'') sourceCreateFailsWorld) =
       Inl (Err ''failed to create ipset: '')"
proof -
  have same: "sameButRefresh freshWorld refreshFailsWorld"
    by (auto simp: sameButRefresh_def refreshFailsWorld_def freshWorld_def isRefresh_def
        split: call.splits)
  have logged: "refreshLogged refreshFailsWorld freshWorld"
    by (auto simp: refreshLogged_def sameButRefresh_def refreshFailsWorld_def freshWorld_def
        isRefresh_def split: call.splits)
  have removed: "createFaultsRemoved sourceCreateFailsWorld freshWorld"
    "createFaultsRemoved freshWorld freshWorld"
    by (auto simp: createFaultsRemoved_def sourceCreateFailsWorld_def freshWorld_def isCreate_def
        split: call.splits)
  have pol: "policyType (buildPolicy allowController allowFromPods) = ''ingress''"
    "namespace (buildPolicy allowController allowFromPods) = ''ns''"
    "name (buildPolicy allowController allowFromPods) = ''p''"
    "ingressRules (buildPolicy allowController allowFromPods) =
       Some [\<lparr>matchAllPorts = True, ports = [], namedPorts = [], matchAllSource = False,
              srcPods = [\<lparr>ip = ''10.0.0.5'', podName = ''c'', podNamespace = ''ns'',
                          labels = [(''app'', ''web'')]\<rparr>],
              srcIPBlocks = []\<rparr>]"
    by (simp_all add: allow_defs build_defs Let_def)
  have fr: "faults refreshFailsWorld (CmdRefresh ''KUBE-DST-X'') (clock refreshFailsWorld) = Some 1"
    "clock refreshFailsWorld = 0" "errorLog refreshFailsWorld = []"
    by (simp_all add: refreshFailsWorld_def freshWorld_def)
  have fc: "faults createFailsWorld (CmdNewChain (networkPolicyChainName ''ns'' ''p'' ''1''))
         (clock createFailsWorld) = None"
    "faults createFailsWorld (CmdCreate (policyDestinationPodIpSetName ''ns'' ''p''))
         (Suc (clock createFailsWorld)) = Some 1"
    by (simp_all add: createFailsWorld_def freshWorld_def)
  have fs: "faults sourceCreateFailsWorld CmdIptablesNew (clock sourceCreateFailsWorld) = None"
    "faults sourceCreateFailsWorld (CmdCreate (policyIndexedSourcePodIpSetName ''ns'' ''p'' 0))
         (Suc (clock sourceCreateFailsWorld)) = Some 1"
    by (simp_all add: sourceCreateFailsWorld_def freshWorld_def)
  note t1 = C5_refresh_failures_are_logged_and_ignored [where w = freshWorld
      and w' = refreshFailsWorld and npc = allowController]
  note t2 = C5_refresh_failures_are_logged_and_ignored [where w = refreshFailsWorld
      and w' = freshWorld and npc = allowController and s = "''KUBE-DST-X''" and st = 1
      and es = "[''10.0.0.5'']" and opts = "[''timeout'', ''0'']" and msg = "''failed to refresh''"]
  note t3 = C5_refresh_failures_are_logged_and_ignored [where w = createFailsWorld
      and policy = "buildPolicy allowController allowFromPods" and v = "''1''" and st = 1
      and acc = "([], [])"]
  note t4 = C5_refresh_failures_are_logged_and_ignored [where w = sourceCreateFailsWorld
      and w' = freshWorld and npc = allowController
      and policy = "buildPolicy allowController allowFromPods" and st = 1
      and r = "\<lparr>matchAllPorts = True, ports = [], namedPorts = [], matchAllSource = False,
              srcPods = [\<lparr>ip = ''10.0.0.5'', podName = ''c'', podNamespace = ''ns'',
                          labels = [(''app'', ''web'')]\<rparr>],
              srcIPBlocks = []\<rparr>" and rs = "[]"
      and tgt = "policyDestinationPodIpSetName ''ns'' ''p''" and active = "[]" and v = "''1''"]
  have a: "fst (run_state (Sync allowController) freshWorld) =
       fst (run_state (Sync allowController) refreshFailsWorld)"
    using t1 same by blast
  have b: "refreshLogged (snd (run_state (Sync allowController) refreshFailsWorld))
         (snd (run_state (Sync allowController) freshWorld))"
    using t2 logged by blast
  have c: "run_state (Set_Refresh ''KUBE-DST-X'' [''10.0.0.5''] [''timeout'', ''0''] \<bind>
         (\<lambda>err. logIfErr err ''failed to refresh'')) refreshFailsWorld =
       ((), refreshFailsWorld\<lparr>clock := 1, errorLog := [''failed to refresh'']\<rparr>)"
    using t2 fr by simp
  have d: "fst (run_state (syncPolicyChain ''1''
         (buildPolicy allowController allowFromPods) ([], [])) createFailsWorld) =
       Inl (Err ''failed to create ipset: '')"
    using t3 pol(1-3) fc by simp
  have e: "fst (run_state (processIngressRules (buildPolicy allowController allowFromPods)
         (policyDestinationPodIpSetName ''ns'' ''p'') [] ''1'') sourceCreateFailsWorld) =
       Inl (Err ''failed to create ipset: '')"
    using t4 pol fs by simp
  show ?thesis
    using same logged removed pol(1,4) fr(1) fc fs a b c d e Sync_allow_sourceCreateFails(1)
      Sync_allow_refreshFails(1,2) Sync_allow_fresh(1,2)
    by simp
qed

text \<open>
  C5 as stated fails for creation, inside rule materialization. On a node where no call fails
  but the creation of the sets under the prefix of the source sets, the reconcile of the
  policy with one ingress rule creates and refreshes the target set, fails to create the
  source set of the rule, and \<open>Sync\<close> returns that error.
\<close>

theorem C5_create_failure_aborts_sync_counterexample:
  "fst (fst (run_state (Sync allowController) sourceCreateFailsWorld)) =
     Inl (Err ''Aborting sync. Failed to sync network policy chains: failed to create ipset: '')
   \<and> (\<forall>c t. faults sourceCreateFailsWorld c t = None \<or> isCreate c)
   \<and> kernelSets (snd (run_state (Sync allowController) sourceCreateFailsWorld)) =
       [(policyDestinationPodIpSetName ''ns'' ''p'',
         \<lparr>createOptions = [''hash:ip'', ''timeout'', ''0''],
          entries = [[''10.0.0.5'', ''timeout'', ''0'']]\<rparr>)]
   \<and> filterTable (snd (run_state (Sync allowController) sourceCreateFailsWorld)) =
       [(''INPUT'', []), (''FORWARD'', []), (''OUTPUT'', []),
        (networkPolicyChainName ''ns'' ''p'' ''1'', [])]"
proof -
  have "faults sourceCreateFailsWorld c t = None \<or> isCreate c" for c t
    by (simp add: sourceCreateFailsWorld_def freshWorld_def isCreate_def split: call.splits)
  then show ?thesis
    using Sync_allow_sourceCreateFails by simp
qed

subsection \<open>Garbage collection\<close>

text \<open>
  C1 fails on a node where listing the chains of the filter table fails. The source assigns
  the error of \<open>ListChains\<close> to \<open>err\<close> and never reads it, so that the loop over the chains runs
  over nothing. With no pod and no policy in the caches the reconcile builds empty sets of
  active chains; the policy chain of an earlier epoch is under the prefix of the policy chains
  and in no active set; \<open>Sync\<close> returns no error, and the chain is still in the filter table.
\<close>

theorem C1_stale_chain_survives_unchecked_list_error:
  "fst (fst (run_state (Sync idleController) listChainsFailsWorld)) = Inr ()
   \<and> map fst (filterTable (snd (run_state (Sync idleController) listChainsFailsWorld))) =
       [''INPUT'', ''FORWARD'', ''OUTPUT'', ''KUBE-NWPLCY-STALE'']
   \<and> prefix kubeNetworkPolicyChainPrefix ''KUBE-NWPLCY-STALE''
   \<and> buildNetworkPoliciesInfo idleController = Inr []
   \<and> fst (run_state (syncNetworkPolicyChains idleController (FormatInt 1))
            (listChainsFailsWorld\<lparr>clock := 1, heartbeats := 1\<rparr>)) = Inr ([], [])
   \<and> fst (run_state (syncPodFirewallChains idleController (FormatInt 1))
            (listChainsFailsWorld\<lparr>clock := 2, heartbeats := 1\<rparr>)) = Inr []"
proof -
  have "buildNetworkPoliciesInfo idleController = Inr []"
    by (simp add: buildNetworkPoliciesInfo_def idleController_def)
  moreover have "fst (run_state (syncNetworkPolicyChains idleController (FormatInt 1))
            (listChainsFailsWorld\<lparr>clock := 1, heartbeats := 1\<rparr>)) = Inr ([], [])"
    by (simp add: sync_defs driver_defs idleController_def listChainsFailsWorld_def
        freshWorld_def Let_def)
  moreover have "fst (run_state (syncPodFirewallChains idleController (FormatInt 1))
            (listChainsFailsWorld\<lparr>clock := 2, heartbeats := 1\<rparr>)) = Inr []"
    by (simp add: sync_defs driver_defs idleController_def listChainsFailsWorld_def
        freshWorld_def Let_def)
  moreover have "prefix kubeNetworkPolicyChainPrefix ''KUBE-NWPLCY-STALE''"
    by (simp add: prefix_defs)
  moreover have "filterTable listChainsFailsWorld =
      [(''INPUT'', []), (''FORWARD'', []), (''OUTPUT'', []), (''KUBE-NWPLCY-STALE'', [])]"
    by (simp add: listChainsFailsWorld_def)
  ultimately show ?thesis
    by (simp add: Sync_listChainsFailsWorld)
qed

subsection \<open>Legacy policies\<close>

lemma buildBetaPolicy_fields:
  "policyType (buildBetaPolicy npc policy) = []"
  "egressRules (buildBetaPolicy npc policy) = None"
  "\<exists>rs. ingressRules (buildBetaPolicy npc policy) = Some rs \<and>
     (\<forall>r \<in> set rs. srcIPBlocks r = [] \<and> \<not> matchAllSource r \<and> \<not> matchAllPorts r)"
  by (auto simp: buildBetaPolicy_def buildBetaIngressRule_def Let_def split: prod.splits)

lemma buildBetaNetworkPoliciesInfo_loop_fields:
  "buildBetaNetworkPoliciesInfo_loop npc objs acc = Inr infos \<Longrightarrow>
     \<forall>p \<in> set acc. policyType p = [] \<and> egressRules p = None \<and>
       (\<exists>rs. ingressRules p = Some rs \<and>
          (\<forall>r \<in> set rs. srcIPBlocks r = [] \<and> \<not> matchAllSource r \<and> \<not> matchAllPorts r)) \<Longrightarrow>
     \<forall>p \<in> set infos. policyType p = [] \<and> egressRules p = None \<and>
       (\<exists>rs. ingressRules p = Some rs \<and>
          (\<forall>r \<in> set rs. srcIPBlocks r = [] \<and> \<not> matchAllSource r \<and> \<not> matchAllPorts r))"
proof (induction npc objs acc rule: buildBetaNetworkPoliciesInfo_loop.induct)
  case (2 npc policy rest NetworkPolicies)
  show ?case
    using 2 buildBetaPolicy_fields [of npc policy] by auto
qed auto

lemma legacy_syncPolicyChain:
  "policyType policy = [] \<Longrightarrow>
     run_state (syncPolicyChain v policy (cs, ss)) w =
       run_state (do {
           err \<leftarrow> iptables_NewChain (networkPolicyChainName (namespace policy) (name policy) v);
           if isl err \<and> ExitStatus (projl err) \<noteq> 1
           then return (Inl (Err ''Failed to run iptables command: ''))
           else return (Inr (List.insert
                  (networkPolicyChainName (namespace policy) (name policy) v) cs, ss))
         }) w"
  by (simp add: syncPolicyChain_def Let_def thenE_def split: prod.splits sum.splits)

lemma foldl_keep: "(\<And>a x. f a x = a) \<Longrightarrow> foldl f a xs = a"
  by (induction xs) simp_all

lemma legacy_enabled:
  assumes "\<forall>p \<in> set (networkPoliciesInfo npc). policyType p = []"
  shows "getIngressNetworkPolicyEnabledPods npc nodeIp = []"
    and "getEgressNetworkPolicyEnabledPods npc nodeIp = []"
  unfolding getIngressNetworkPolicyEnabledPods_def getEgressNetworkPolicyEnabledPods_def
  using assms by (auto intro!: foldl_keep simp: list_ex_iff)

lemma legacy_newChain:
  assumes "policyType policy = []"
  shows "kernelSets (snd (run_state (syncPolicyChain v policy (cs, ss)) w)) = kernelSets w"
    and "faults w (CmdNewChain (networkPolicyChainName (namespace policy) (name policy) v))
           (clock w) = None \<Longrightarrow>
         fst (run_state (syncPolicyChain v policy (cs, ss)) w) =
           Inr (List.insert (networkPolicyChainName (namespace policy) (name policy) v) cs, ss) \<and>
         map_of (filterTable (snd (run_state (syncPolicyChain v policy (cs, ss)) w)))
           (networkPolicyChainName (namespace policy) (name policy) v) \<noteq> None"
  unfolding legacy_syncPolicyChain [OF assms]
  by (auto simp: iptables_NewChain_def invoke_def map_add_def split: option.splits)

text \<open>
  C9. Every policy the legacy builder returns has the empty string as its kind, no egress
  rules, and ingress rules without CIDR entries whose two match-all flags are false, whatever
  the peers and ports of the rule are. For a policy with the empty kind, the body of the loop
  of \<open>syncNetworkPolicyChains\<close> is the creation of the policy chain and nothing else: the
  address sets of the kernel stay as they were, and when the call runs the chain is in the
  filter table and in the set of active chains, the set of active address sets unchanged. And
  when every policy has the empty kind, no pod is ingress- or egress-enabled.
\<close>

theorem C9_legacy_policy_has_no_kind:
  "(buildBetaNetworkPoliciesInfo npc = Inr infos \<longrightarrow>
      (\<forall>p \<in> set infos. policyType p = [] \<and> egressRules p = None \<and>
         (\<exists>rs. ingressRules p = Some rs \<and>
            (\<forall>r \<in> set rs. srcIPBlocks r = [] \<and> \<not> matchAllSource r \<and> \<not> matchAllPorts r))))
   \<and> (policyType policy = [] \<longrightarrow>
        run_state (syncPolicyChain v policy (cs, ss)) w =
          run_state (do {
              err \<leftarrow> iptables_NewChain (networkPolicyChainName (namespace policy) (name policy) v);
              if isl err \<and> ExitStatus (projl err) \<noteq> 1
              then return (Inl (Err ''Failed to run iptables command: ''))
              else return (Inr (List.insert
                     (networkPolicyChainName (namespace policy) (name policy) v) cs, ss))
            }) w
        \<and> kernelSets (snd (run_state (syncPolicyChain v policy (cs, ss)) w)) = kernelSets w
        \<and> (faults w (CmdNewChain (networkPolicyChainName (namespace policy) (name policy) v))
               (clock w) = None \<longrightarrow>
             fst (run_state (syncPolicyChain v policy (cs, ss)) w) =
               Inr (List.insert (networkPolicyChainName (namespace policy) (name policy) v) cs, ss) \<and>
             map_of (filterTable (snd (run_state (syncPolicyChain v policy (cs, ss)) w)))
               (networkPolicyChainName (namespace policy) (name policy) v) \<noteq> None))
   \<and> ((\<forall>p \<in> set (networkPoliciesInfo npc'). policyType p = []) \<longrightarrow>
        getIngressNetworkPolicyEnabledPods npc' nodeIp = [] \<and>
        getEgressNetworkPolicyEnabledPods npc' nodeIp = [])"
proof -
  have "\<forall>p \<in> set infos. policyType p = [] \<and> egressRules p = None \<and>
         (\<exists>rs. ingressRules p = Some rs \<and>
            (\<forall>r \<in> set rs. srcIPBlocks r = [] \<and> \<not> matchAllSource r \<and> \<not> matchAllPorts r))"
    if "buildBetaNetworkPoliciesInfo npc = Inr infos"
    using that unfolding buildBetaNetworkPoliciesInfo_def
    by (rule buildBetaNetworkPoliciesInfo_loop_fields) simp
  then show ?thesis
    using legacy_syncPolicyChain [where policy = policy and v = v and cs = cs and ss = ss and w = w]
      legacy_newChain [where policy = policy and v = v and cs = cs and ss = ss and w = w]
      legacy_enabled [where npc = npc' and nodeIp = nodeIp]
    by blast
qed

lemmas legacy_defs = legacyController_def legacyPolicy_def idleController_def podC_def
  freshWorld_def buildBetaNetworkPoliciesInfo_def buildBetaPolicy_def buildBetaIngressRule_def
  processBetaNetworkPolicyPorts_def slice_def

lemma build_legacy:
  "buildBetaNetworkPoliciesInfo legacyController =
     Inr [\<lparr>name = ''p'', namespace = ''ns'', podSelector = Everything,
           targetPods = [(''10.0.0.5'', \<lparr>ip = ''10.0.0.5'', podName = ''c'', podNamespace = ''ns'',
                          labels = [(''app'', ''web'')]\<rparr>)],
           ingressRules = Some [\<lparr>matchAllPorts = False, ports = [], namedPorts = [],
                                 matchAllSource = False, srcPods = [], srcIPBlocks = []\<rparr>],
           egressRules = None, policyType = []\<rparr>]"
  by (simp add: legacy_defs build_defs Let_def)

lemma Sync_legacy:
  "fst (fst (run_state (Sync legacyController) freshWorld)) = Inr ()"
  "filterTable (snd (run_state (Sync legacyController) freshWorld)) =
     [(''INPUT'', []), (''FORWARD'', []), (''OUTPUT'', []),
      (networkPolicyChainName ''ns'' ''p'' ''1'', [])]"
  "kernelSets (snd (run_state (Sync legacyController) freshWorld)) = []"
  by (simp_all add: sync_defs cleanup_defs driver_defs build_defs policy_defs pod_defs legacy_defs
      Let_def)

theorem C9_legacy_policy_has_no_kind_witness:
  "buildBetaNetworkPoliciesInfo legacyController = Inr [buildBetaPolicy legacyController legacyPolicy]
   \<and> policyType (buildBetaPolicy legacyController legacyPolicy) = []
   \<and> egressRules (buildBetaPolicy legacyController legacyPolicy) = None
   \<and> ingressRules (buildBetaPolicy legacyController legacyPolicy) =
       Some [\<lparr>matchAllPorts = False, ports = [], namedPorts = [], matchAllSource = False,
              srcPods = [], srcIPBlocks = []\<rparr>]
   \<and> faults freshWorld (CmdNewChain (networkPolicyChainName ''ns'' ''p'' ''1''))
         (clock freshWorld) = None
   \<and> fst (run_state (syncPolicyChain ''1'' (buildBetaPolicy legacyController legacyPolicy) ([], []))
         freshWorld) = Inr ([networkPolicyChainName ''ns'' ''p'' ''1''], [])
   \<and> kernelSets (snd (run_state
         (syncPolicyChain ''1'' (buildBetaPolicy legacyController legacyPolicy) ([], []))
         freshWorld)) = []
   \<and> map_of (filterTable (snd (run_state
         (syncPolicyChain ''1'' (buildBetaPolicy legacyController legacyPolicy) ([], []))
         freshWorld))) (networkPolicyChainName ''ns'' ''p'' ''1'') \<noteq> None
   \<and> getIngressNetworkPolicyEnabledPods
         (legacyController\<lparr>networkPoliciesInfo := [buildBetaPolicy legacyController legacyPolicy]\<rparr>)
         ''192.168.0.1'' = []
   \<and> getEgressNetworkPolicyEnabledPods
         (legacyController\<lparr>networkPoliciesInfo := [buildBetaPolicy legacyController legacyPolicy]\<rparr>)
         ''192.168.0.1'' = []
   \<and> fst (fst (run_state (Sync legacyController) freshWorld)) = Inr ()
   \<and> filterTable (snd (run_state (Sync legacyController) freshWorld)) =
       [(''INPUT'', []), (''FORWARD'', []), (''OUTPUT'', []),
        (networkPolicyChainName ''ns'' ''p'' ''1'', [])]
   \<and> kernelSets (snd (run_state (Sync legacyController) freshWorld)) = []"
proof -
  have b: "buildBetaNetworkPoliciesInfo legacyController =
      Inr [buildBetaPolicy legacyController legacyPolicy]"
    by (simp add: buildBetaNetworkPoliciesInfo_def legacyController_def)
  have p: "namespace (buildBetaPolicy legacyController legacyPolicy) = ''ns''"
    "name (buildBetaPolicy legacyController legacyPolicy) = ''p''"
    "ingressRules (buildBetaPolicy legacyController legacyPolicy) =
       Some [\<lparr>matchAllPorts = False, ports = [], namedPorts = [], matchAllSource = False,
              srcPods = [], srcIPBlocks = []\<rparr>]"
    by (simp_all add: legacy_defs build_defs Let_def)
  have f: "faults freshWorld (CmdNewChain (networkPolicyChainName ''ns'' ''p'' ''1''))
         (clock freshWorld) = None" "kernelSets freshWorld = []"
    by (simp_all add: freshWorld_def)
  note t = C9_legacy_policy_has_no_kind [where npc = legacyController
        and infos = "[buildBetaPolicy legacyController legacyPolicy]"
        and policy = "buildBetaPolicy legacyController legacyPolicy" and v = "''1''"
        and cs = "[]" and ss = "[]" and w = freshWorld
        and npc' = "legacyController\<lparr>networkPoliciesInfo :=
              [buildBetaPolicy legacyController legacyPolicy]\<rparr>"
        and nodeIp = "''192.168.0.1''"]
  have k: "policyType (buildBetaPolicy legacyController legacyPolicy) = []"
    "egressRules (buildBetaPolicy legacyController legacyPolicy) = None"
    using t b by simp_all
  show ?thesis
    using b p f Sync_legacy t k by auto
qed

end
